theory Spec2Isabelle
  imports Main
begin

section \<open>Errors and formatting\<close>

text \<open>
  A Go value of type \<open>error\<close> is modelled as \<open>error option\<close> (\<open>None\<close> is \<open>nil\<close>).
  \<open>ErrSkipThisArch\<close> is the package-level sentinel of \<open>build.go\<close>;
  \<open>ErrorNew m\<close> is an error that wraps nothing (\<open>errors.New\<close>, or \<open>fmt.Errorf\<close>
  without \<open>%w\<close>); \<open>Errorf m e\<close> is \<open>fmt.Errorf(m + ": %w", e)\<close>, where \<open>e\<close> may
  be \<open>nil\<close>; \<open>External m\<close> is an error value made by a collaborator outside of
  \<open>build.go\<close>; \<open>RuntimePanic m\<close> is a Go run-time panic, which unwinds the caller.
\<close>

datatype error =
    ErrSkipThisArch
  | ErrorNew string
  | Errorf string "error option"
  | External string
  | RuntimePanic string

text \<open>\<open>errors.Is\<close>: the target is the error itself or is on its chain of wrapped errors.\<close>

fun errors_Is :: "error \<Rightarrow> error \<Rightarrow> bool" where
  "errors_Is (Errorf m (Some e)) target = (Errorf m (Some e) = target \<or> errors_Is e target)"
| "errors_Is e target = (e = target)"

text \<open>The verb \<open>%d\<close> of \<open>fmt\<close> on a non-negative integer, and on a signed one.\<close>

definition digit_char :: "nat \<Rightarrow> char" where
  "digit_char d = ''0123456789'' ! d"

function show_nat :: "nat \<Rightarrow> string" where
  "show_nat n = (if n < 10 then [digit_char n] else show_nat (n div 10) @ [digit_char (n mod 10)])"
  by pat_completeness auto
termination
  by (relation "measure (\<lambda>n. n)") auto

definition show_int :: "int \<Rightarrow> string" where
  "show_int i = (if i < 0 then CHR ''-'' # show_nat (nat (- i)) else show_nat (nat i))"

text \<open>
  The integer that a decimal text denotes: an optional sign, then one digit or more.
  It says which seconds a value of \<open>SOURCE_DATE_EPOCH\<close> in the process environment
  stands for.
\<close>

fun read_digits :: "string \<Rightarrow> nat \<Rightarrow> nat option" where
  "read_digits [] acc = Some acc"
| "read_digits (c # cs) acc =
     (if (48::nat) \<le> of_char c \<and> of_char c \<le> (57::nat)
      then read_digits cs (10 * acc + (of_char c - 48))
      else None)"

definition read_nat :: "string \<Rightarrow> nat option" where
  "read_nat s = (if s = [] then None else read_digits s 0)"

definition read_int :: "string \<Rightarrow> int option" where
  "read_int s =
     (if s \<noteq> [] \<and> hd s = CHR ''-'' then map_option (\<lambda>n. - int n) (read_nat (tl s))
      else if s \<noteq> [] \<and> hd s = CHR ''+'' then map_option int (read_nat (tl s))
      else map_option int (read_nat s))"

text \<open>
  \<open>filepath.Join\<close>, as far as this file needs it: the non-empty elements, joined by
  the separator. The final \<open>Clean\<close> of the standard library is not modelled.
\<close>

fun filepath_Join :: "string list \<Rightarrow> string" where
  "filepath_Join [] = []"
| "filepath_Join (e # es) =
     (if e = [] then filepath_Join es
      else if filepath_Join es = [] then e
      else e @ ''/'' @ filepath_Join es)"

text \<open>\<open>strings.HasPrefix\<close>.\<close>

definition strings_HasPrefix :: "string \<Rightarrow> string \<Rightarrow> bool" where
  "strings_HasPrefix s p = (take (length p) s = p)"

section \<open>The data model\<close>

text \<open>
  The types of \<open>pkg/config\<close> are not part of \<open>build.go\<close>; the records hold the fields
  that \<open>build.go\<close> reads or writes. A pipeline step and a set of checks are opaque to
  this file and are carried as the text that identifies them.
\<close>

type_synonym Pipeline = string
type_synonym Checks = "string list"
type_synonym Architecture = string

record Resources =
  CPU :: string
  Memory :: string

record Package =
  pkg_Name :: string
  pkg_Version :: string
  pkg_Epoch :: nat
  pkg_TargetArchitecture :: "string list"
  pkg_Timeout :: nat
  pkg_Checks :: Checks
  pkg_Resources :: "Resources option"

record Subpackage =
  sp_Name :: string
  sp_If :: string
  sp_Pipeline :: "Pipeline list"
  sp_Checks :: Checks

text \<open>\<open>ImageConfiguration\<close>: \<open>Contents.Packages\<close> and \<open>Environment\<close>.\<close>

record ImageConfiguration =
  Contents_Packages :: "string list"
  Environment :: "string \<rightharpoonup> string"

text \<open>\<open>BuildOption\<close>: \<open>Vars\<close>, \<open>Environment.Contents.Packages.Add\<close> and \<open>.Remove\<close>.\<close>

record BuildOption =
  bo_Vars :: "string \<rightharpoonup> string"
  bo_Add :: "string list"
  bo_Remove :: "string list"

record Configuration =
  cfg_Package :: Package
  cfg_Vars :: "string \<rightharpoonup> string"
  cfg_Environment :: ImageConfiguration
  cfg_Pipeline :: "Pipeline list"
  cfg_Subpackages :: "Subpackage list"
  cfg_Options :: "string \<rightharpoonup> BuildOption"

record BindMount =
  Source :: string
  Destination :: string

text \<open>\<open>container.Config\<close>; \<open>time.Time\<close> is its Unix time in seconds.\<close>

record Config =
  cc_Arch :: Architecture
  cc_PackageName :: string
  cc_Mounts :: "BindMount list"
  cc_Networking :: bool
  cc_Environment :: "string \<rightharpoonup> string"
  cc_Timeout :: nat
  cc_CPU :: string
  cc_Memory :: string
  cc_ImgRef :: string
  cc_PodID :: string

record Build =
  Configuration :: Configuration
  ConfigFile :: string
  SourceDateEpoch :: int
  WorkspaceDir :: string
  WorkspaceIgnore :: string
  PipelineDirs :: "string list"
  SourceDir :: string
  GuestDir :: string
  SigningKey :: string
  Namespace :: string
  GenerateIndex :: bool
  EmptyWorkspace :: bool
  OutDir :: string
  Arch :: Architecture
  BinShOverlay :: string
  CacheDir :: string
  CacheSource :: string
  ContinueLabel :: string
  EnvFile :: string
  VarsFile :: string
  containerConfig :: "Config option"
  DebugRunner :: bool
  LogPolicy :: "string list"
  FailOnLintWarning :: bool
  EnabledBuildOptions :: "string list"

record PipelineBuild =
  pb_Build :: Build
  pb_Package :: Package
  pb_Subpackage :: "Subpackage option"

section \<open>ShouldRun\<close>

text \<open>
  \<open>MutateWith\<close> and \<open>cond.Evaluate\<close> are not part of \<open>build.go\<close>: they are
  parameters, pure functions of their arguments.
\<close>

record evaluator =
  MutateWith :: "PipelineBuild \<Rightarrow> (string \<rightharpoonup> string) \<Rightarrow> error + (string \<rightharpoonup> string)"
  cond_Evaluate :: "string \<Rightarrow> (string \<Rightarrow> error + string) \<Rightarrow> error + bool"

definition lookupWith :: "evaluator \<Rightarrow> PipelineBuild \<Rightarrow> string \<Rightarrow> error + string" where
  "lookupWith ev pb key =
     (case MutateWith ev pb Map.empty of
        Inl err \<Rightarrow> Inl err
      | Inr mutated \<Rightarrow>
          Inr (case mutated (''${{'' @ key @ ''}}'') of None \<Rightarrow> [] | Some v \<Rightarrow> v))"

definition ShouldRun :: "evaluator \<Rightarrow> PipelineBuild \<Rightarrow> Subpackage \<Rightarrow> error + bool" where
  "ShouldRun ev pb sp =
     (if sp_If sp = [] then Inr True
      else case cond_Evaluate ev (sp_If sp) (lookupWith ev pb) of
             Inl err \<Rightarrow> Inl (Errorf ''evaluating subpackage if-conditional'' (Some err))
           | Inr result \<Rightarrow> Inr result)"

section \<open>ApplyBuildOption\<close>

text \<open>
  The inner loop of \<open>ApplyBuildOption\<close> ranges over the slice \<open>pkgList\<close> as it is when
  the loop starts: the positions \<open>0 ..< n\<close> of its backing array, each element read
  from the array when its turn comes. The body assigns to the variable \<open>pkgList\<close>, so
  the slice it indexes gets shorter while the range does not. The state is the backing
  array (of the length \<open>n\<close>) and the current length of \<open>pkgList\<close>;
  \<open>pkgList[pos]\<close> with \<open>pos\<close> not below that length is Go's index-out-of-range panic.
\<close>

fun remove_range :: "string \<Rightarrow> nat list \<Rightarrow> string list \<times> nat \<Rightarrow> error + string list \<times> nat" where
  "remove_range pkg [] (arr, len) = Inr (arr, len)"
| "remove_range pkg (pos # rest) (arr, len) =
     (if pkg = arr ! pos then
        (if pos < len then remove_range pkg rest (arr[pos := arr ! (len - 1)], len - 1)
         else Inl (RuntimePanic ''index out of range''))
      else remove_range pkg rest (arr, len))"

text \<open>The outer loop: one pass of the inner loop for each name of \<open>lo.Remove\<close>.\<close>

fun remove_packages :: "string list \<Rightarrow> string list \<Rightarrow> error + string list" where
  "remove_packages [] Packages = Inr Packages"
| "remove_packages (pkg # rest) Packages =
     (case remove_range pkg [0 ..< length Packages] (Packages, length Packages) of
        Inl err \<Rightarrow> Inl err
      | Inr (arr, len) \<Rightarrow> remove_packages rest (take len arr))"

definition set_Packages :: "string list \<Rightarrow> Build \<Rightarrow> Build" where
  "set_Packages ps b =
     b\<lparr>Configuration := (Configuration b)
          \<lparr>cfg_Environment := (cfg_Environment (Configuration b))\<lparr>Contents_Packages := ps\<rparr>\<rparr>\<rparr>"

definition Packages :: "Build \<Rightarrow> string list" where
  "Packages b = Contents_Packages (cfg_Environment (Configuration b))"

definition ApplyBuildOption :: "Build \<Rightarrow> BuildOption \<Rightarrow> error + Build" where
  "ApplyBuildOption b bo =
     (let b1 = b\<lparr>Configuration := (Configuration b)\<lparr>cfg_Vars := cfg_Vars (Configuration b) ++ bo_Vars bo\<rparr>\<rparr>;
          b2 = set_Packages (Packages b1 @ bo_Add bo) b1
      in case remove_packages (bo_Remove bo) (Packages b2) of
           Inl err \<Rightarrow> Inl err
         | Inr ps \<Rightarrow> Inr (set_Packages ps b2))"


section \<open>New\<close>

datatype log_line = Info string | Warn string | Debug string

text \<open>
  What \<open>New\<close> asks of its surroundings: the host architecture, the architecture's
  APK name (\<open>ToAPK\<close>), \<open>filepath.Abs\<close>, the runner, \<open>os.MkdirTemp\<close>, whether
  \<open>os.Stat\<close> of a path succeeds, the recipe parser, the process environment and the
  epoch parser \<open>util.SourceDateEpoch\<close>. None of them is part of \<open>build.go\<close>.
\<close>

record new_world =
  host_Architecture :: Architecture
  ToAPK :: "Architecture \<Rightarrow> string"
  filepath_Abs :: "string \<Rightarrow> error + string"
  Runner_TempDir :: string
  Runner_Name :: string
  Runner_TestUsability :: bool
  GetAllRunners :: string
  os_MkdirTemp :: "string \<Rightarrow> string \<Rightarrow> error + string"
  os_Stat_succeeds :: "string \<Rightarrow> bool"
  ParseConfiguration :: "Build \<Rightarrow> error + Configuration"
  os_LookupEnv :: "string \<Rightarrow> string option"
  util_SourceDateEpoch :: "int \<Rightarrow> error + int"

definition empty_Configuration :: Configuration where
  "empty_Configuration =
     \<lparr>cfg_Package = \<lparr>pkg_Name = [], pkg_Version = [], pkg_Epoch = 0, pkg_TargetArchitecture = [],
                      pkg_Timeout = 0, pkg_Checks = [], pkg_Resources = None\<rparr>,
      cfg_Vars = Map.empty,
      cfg_Environment = \<lparr>Contents_Packages = [], Environment = Map.empty\<rparr>,
      cfg_Pipeline = [], cfg_Subpackages = [], cfg_Options = Map.empty\<rparr>"

text \<open>
  The struct literal at the head of \<open>New\<close>; every other field has its zero value.
  The epoch is kept as the seconds that \<open>Unix()\<close> reads from it: for the zero
  \<open>time.Time\<close> (1 January of year 1, UTC) that is \<open>-62135596800\<close>.
\<close>

definition initial_Build :: "new_world \<Rightarrow> Build" where
  "initial_Build w =
     \<lparr>Configuration = empty_Configuration, ConfigFile = [], SourceDateEpoch = - 62135596800,
      WorkspaceDir = [], WorkspaceIgnore = ''.melangeignore'', PipelineDirs = [],
      SourceDir = ''.'', GuestDir = [], SigningKey = [], Namespace = [],
      GenerateIndex = False, EmptyWorkspace = False, OutDir = ''.'',
      Arch = host_Architecture w, BinShOverlay = [], CacheDir = ''./melange-cache/'',
      CacheSource = [], ContinueLabel = [], EnvFile = [], VarsFile = [],
      containerConfig = None, DebugRunner = False, LogPolicy = [''builtin:stderr''],
      FailOnLintWarning = False, EnabledBuildOptions = []\<rparr>"

fun apply_opts :: "(Build \<Rightarrow> error + Build) list \<Rightarrow> Build \<Rightarrow> error + Build" where
  "apply_opts [] b = Inr b"
| "apply_opts (opt # opts) b =
     (case opt b of Inl err \<Rightarrow> Inl err | Inr b' \<Rightarrow> apply_opts opts b')"

definition resolve_WorkspaceDir :: "new_world \<Rightarrow> Build \<Rightarrow> error + Build" where
  "resolve_WorkspaceDir w b =
     (if WorkspaceDir b \<noteq> [] then
        (let b1 = (if ContinueLabel b = []
                   then b\<lparr>WorkspaceDir := filepath_Join [WorkspaceDir b, ToAPK w (Arch b)]\<rparr>
                   else b)
         in case filepath_Abs w (WorkspaceDir b1) of
              Inl err \<Rightarrow> Inl (Errorf (''unable to resolve path '' @ WorkspaceDir b1) (Some err))
            | Inr absdir \<Rightarrow> Inr (b1\<lparr>WorkspaceDir := absdir\<rparr>))
      else
        (case os_MkdirTemp w (Runner_TempDir w) ''melange-workspace-*'' of
           Inl err \<Rightarrow> Inl (Errorf ''unable to create workspace dir'' (Some err))
         | Inr tmpdir \<Rightarrow> Inr (b\<lparr>WorkspaceDir := tmpdir\<rparr>)))"

text \<open>The probe of the four default recipe names, stopping at the first that exists.\<close>

fun probe_checks :: "new_world \<Rightarrow> string list \<Rightarrow> Build \<Rightarrow> Build \<times> log_line list" where
  "probe_checks w [] b = (b, [])"
| "probe_checks w (chk # checks) b =
     (if os_Stat_succeeds w chk
      then (b\<lparr>ConfigFile := chk\<rparr>, [Info (''no configuration file provided -- using '' @ chk)])
      else probe_checks w checks b)"

definition detect_ConfigFile :: "new_world \<Rightarrow> Build \<Rightarrow> Build \<times> log_line list" where
  "detect_ConfigFile w b =
     (if ConfigFile b = []
      then probe_checks w [''.melange.yaml'', ''.melange.yml'', ''melange.yaml'', ''melange.yml''] b
      else (b, []))"

text \<open>The loop over \<open>EnabledBuildOptions\<close> at the end of \<open>New\<close>.\<close>

fun apply_build_options :: "string list \<Rightarrow> Build \<Rightarrow> (error + Build) \<times> log_line list" where
  "apply_build_options [] b = (Inr b, [])"
| "apply_build_options (optName # rest) b =
     (let line = Info (''applying configuration patches for build option '' @ optName) in
      case cfg_Options (Configuration b) optName of
        None \<Rightarrow> (case apply_build_options rest b of (r, lg) \<Rightarrow> (r, line # lg))
      | Some opt \<Rightarrow>
          (case ApplyBuildOption b opt of
             Inl err \<Rightarrow> (Inl err, [line])
           | Inr b' \<Rightarrow> (case apply_build_options rest b' of (r, lg) \<Rightarrow> (r, line # lg))))"

text \<open>
  \<open>New\<close> from the \<open>SOURCE_DATE_EPOCH\<close> lookup to its end: the epoch of the process
  environment, the usability test of the runner, the build options.
\<close>

definition New_finish :: "new_world \<Rightarrow> Build \<Rightarrow> (error + Build) \<times> log_line list" where
  "New_finish w b =
     (case (if os_LookupEnv w ''SOURCE_DATE_EPOCH'' \<noteq> None
            then (case util_SourceDateEpoch w (SourceDateEpoch b) of
                    Inl err \<Rightarrow> Inl err
                  | Inr t \<Rightarrow> Inr (b\<lparr>SourceDateEpoch := t\<rparr>))
            else Inr b) of
        Inl err \<Rightarrow> (Inl err, [])
      | Inr b1 \<Rightarrow>
          if \<not> Runner_TestUsability w
          then (Inl (ErrorNew (''unable to run containers using '' @ Runner_Name w @
                  '', specify --runner and one of '' @ GetAllRunners w)), [])
          else apply_build_options (EnabledBuildOptions b1) b1)"

definition deprecation_warning :: log_line where
  "deprecation_warning = Warn
     ''target-architecture: ['all'] is deprecated and will become an error; remove this field to build for all available archs''"

text \<open>\<open>New\<close> from the target-architecture test to its end.\<close>

definition New_checked :: "new_world \<Rightarrow> Build \<Rightarrow> (error + Build) \<times> log_line list" where
  "New_checked w b =
     (let ta = pkg_TargetArchitecture (cfg_Package (Configuration b)) in
      if length ta = 1 \<and> ta ! 0 = ''all''
      then (case New_finish w b of (r, lg) \<Rightarrow> (r, deprecation_warning # lg))
      else if length ta \<noteq> 0 \<and> ToAPK w (Arch b) \<notin> set ta
      then (Inl ErrSkipThisArch, [])
      else New_finish w b)"

definition New :: "new_world \<Rightarrow> (Build \<Rightarrow> error + Build) list \<Rightarrow> (error + Build) \<times> log_line list" where
  "New w opts =
     (case apply_opts opts (initial_Build w) of
        Inl err \<Rightarrow> (Inl err, [])
      | Inr b0 \<Rightarrow>
     (case resolve_WorkspaceDir w b0 of
        Inl err \<Rightarrow> (Inl err, [])
      | Inr b1 \<Rightarrow>
     (case detect_ConfigFile w b1 of (b2, lg) \<Rightarrow>
        if ConfigFile b2 = [] then (Inl (ErrorNew ''melange.yaml is missing''), lg)
        else
     (case ParseConfiguration w b2 of
        Inl err \<Rightarrow> (Inl (Errorf ''failed to load configuration'' (Some err)), lg)
      | Inr parsedCfg \<Rightarrow>
          (case New_checked w (b2\<lparr>Configuration := parsedCfg\<rparr>) of (r, lg') \<Rightarrow> (r, lg @ lg'))))))"

section \<open>The container configuration\<close>

text \<open>
  \<open>os.Stat\<close> (an error, or whether the path is a directory), \<open>realpath.Realpath\<close>
  (the pair it returns: a path and an error) and the default paths of the package
  \<open>container\<close> are parameters.
\<close>

record cfg_world =
  os_Stat_IsDir :: "string \<Rightarrow> error + bool"
  realpath_Realpath :: "string \<Rightarrow> string \<times> error option"
  DefaultWorkspaceDir :: string
  DefaultResolvConfPath :: string
  DefaultCacheDir :: string

definition IsBuildLess :: "Build \<Rightarrow> bool" where
  "IsBuildLess b = (length (cfg_Pipeline (Configuration b)) = 0)"

text \<open>The text of an error in a log line: its own message, without what it wraps.\<close>

definition error_text :: "error \<Rightarrow> string" where
  "error_text e = (case e of External m \<Rightarrow> m | ErrorNew m \<Rightarrow> m | Errorf m _ \<Rightarrow> m
                   | RuntimePanic m \<Rightarrow> m | ErrSkipThisArch \<Rightarrow> ''error: skip this arch'')"

text \<open>The bind mounts, and what is logged while they are computed.\<close>

definition cache_mounts :: "cfg_world \<Rightarrow> Build \<Rightarrow> BindMount list \<times> log_line list" where
  "cache_mounts w b =
     (if CacheDir b \<noteq> [] then
        (case os_Stat_IsDir w (CacheDir b) of
           Inr True \<Rightarrow>
             (case realpath_Realpath w (CacheDir b) of (mountSource, err) \<Rightarrow>
                ([\<lparr>Source = mountSource, Destination = DefaultCacheDir w\<rparr>],
                 (case err of None \<Rightarrow> []
                  | Some e \<Rightarrow> [Info (''could not resolve path for --cache-dir: '' @ error_text e)])))
         | _ \<Rightarrow> ([], [Info (''--cache-dir '' @ CacheDir b @ '' not a dir; skipping'')]))
      else ([], []))"

definition empty_Config :: Config where
  "empty_Config =
     \<lparr>cc_Arch = [], cc_PackageName = [], cc_Mounts = [], cc_Networking = False,
      cc_Environment = Map.empty, cc_Timeout = 0, cc_CPU = [], cc_Memory = [],
      cc_ImgRef = [], cc_PodID = []\<rparr>"

text \<open>
  The loop that copies the recipe's environment into the configuration assigns each
  of its keys once, so it is the override of the one map by the other.
\<close>

definition buildWorkspaceConfig :: "cfg_world \<Rightarrow> Build \<Rightarrow> Config \<times> log_line list" where
  "buildWorkspaceConfig w b =
     (if IsBuildLess b then (empty_Config\<lparr>cc_Arch := Arch b\<rparr>, [])
      else
        (case cache_mounts w b of (cm, lg) \<Rightarrow>
           (let mounts = [\<lparr>Source = WorkspaceDir b, Destination = DefaultWorkspaceDir w\<rparr>,
                          \<lparr>Source = ''/etc/resolv.conf'', Destination = DefaultResolvConfPath w\<rparr>] @ cm;
                cfg = empty_Config
                  \<lparr>cc_Arch := Arch b,
                   cc_PackageName := pkg_Name (cfg_Package (Configuration b)),
                   cc_Mounts := mounts,
                   cc_Networking := True,
                   cc_Environment := [''SOURCE_DATE_EPOCH'' \<mapsto> show_int (SourceDateEpoch b)],
                   cc_Timeout := pkg_Timeout (cfg_Package (Configuration b))\<rparr>;
                cfg1 = (case pkg_Resources (cfg_Package (Configuration b)) of
                          None \<Rightarrow> cfg
                        | Some r \<Rightarrow> cfg\<lparr>cc_CPU := CPU r, cc_Memory := Memory r\<rparr>)
            in (cfg1\<lparr>cc_Environment := cc_Environment cfg1 ++
                        Environment (cfg_Environment (Configuration b))\<rparr>, lg))))"

definition WorkspaceConfig :: "cfg_world \<Rightarrow> Build \<Rightarrow> (Config \<times> Build) \<times> log_line list" where
  "WorkspaceConfig w b =
     (case containerConfig b of
        None \<Rightarrow> (case buildWorkspaceConfig w b of (cfg, lg) \<Rightarrow> ((cfg, b\<lparr>containerConfig := Some cfg\<rparr>), lg))
      | Some cfg \<Rightarrow> ((cfg, b), []))"

section \<open>BuildPackage\<close>

text \<open>
  \<open>BuildPackage\<close> drives collaborators that are not part of \<open>build.go\<close> (the runner,
  the pipeline interpreter, the linter, the SBOM generator, the emitter, the indexer)
  and the operating system. Each call is an event; a run is the list of the events in
  the order of the calls, with what was logged. \<open>PopulateWorkspace\<close>, \<open>BuildGuest\<close>,
  \<open>PopulateCache\<close> and \<open>RetrieveWorkspace\<close> are one event each here.
\<close>

record SBOM_Spec =
  Path :: string
  PackageName :: string
  PackageVersion :: string
  sbom_Namespace :: string
  sbom_Arch :: string

datatype event =
    Ev_Log log_line
  | Ev_MkdirTemp string string
  | Ev_ApplyNeeds Pipeline "Subpackage option"
  | Ev_MkdirAll string
  | Ev_PopulateWorkspace
  | Ev_BuildGuest
  | Ev_Open string
  | Ev_Remove string
  | Ev_Create string
  | Ev_Copy
  | Ev_Chmod string
  | Ev_PopulateCache
  | Ev_StartPod string
  | Ev_TerminatePod
  | Ev_Run Pipeline "Subpackage option"
  | Ev_RetrieveWorkspace
  | Ev_LintBuild string string Checks
  | Ev_GenerateSBOM SBOM_Spec
  | Ev_Emit "Subpackage option"
  | Ev_RemoveAll string
  | Ev_index_New "string list" string string
  | Ev_GenerateIndex
  | Ev_WriteJSONIndex string

text \<open>
  The collaborators: whether a call fails, and what it returns, may depend on
  everything that happened before it (the events so far). The condition evaluator is
  a pure function.
\<close>

record world =
  w_eval :: evaluator
  w_cfg :: cfg_world
  arch_ToAPK :: "Architecture \<Rightarrow> string"
  TempDir :: string
  fails :: "event list \<Rightarrow> event \<Rightarrow> error option"
  MkdirTemp_result :: "event list \<Rightarrow> string"
  BuildGuest_result :: "event list \<Rightarrow> string"
  ApplyNeeds_result :: "event list \<Rightarrow> Pipeline \<Rightarrow> ImageConfiguration \<Rightarrow> ImageConfiguration"
  LintBuild_warnings :: "event list \<Rightarrow> string \<Rightarrow> string \<Rightarrow> Checks \<Rightarrow> error list"

record linterTarget =
  pkgName :: string
  checks :: Checks

text \<open>Sequencing with early return on an error.\<close>

definition bind_res ::
  "(error + 'a) \<times> event list \<Rightarrow> ('a \<Rightarrow> event list \<Rightarrow> (error + 'b) \<times> event list) \<Rightarrow>
   (error + 'b) \<times> event list" where
  "bind_res m f = (case m of (Inl err, tr) \<Rightarrow> (Inl err, tr) | (Inr x, tr) \<Rightarrow> f x tr)"

definition wrapf :: "string \<Rightarrow> error \<Rightarrow> error" where
  "wrapf msg err = Errorf msg (Some err)"

text \<open>A call that can fail, with the wrapping of its error; a log line.\<close>

definition call :: "world \<Rightarrow> event \<Rightarrow> (error \<Rightarrow> error) \<Rightarrow> event list \<Rightarrow> (error + unit) \<times> event list" where
  "call w e wrap tr =
     (case fails w tr e of None \<Rightarrow> (Inr (), tr @ [e]) | Some err \<Rightarrow> (Inl (wrap err), tr @ [e]))"

definition logf :: "log_line \<Rightarrow> event list \<Rightarrow> (error + unit) \<times> event list" where
  "logf l tr = (Inr (), tr @ [Ev_Log l])"

text \<open>A call whose failure is only logged.\<close>

definition call_warn :: "world \<Rightarrow> event \<Rightarrow> (error \<Rightarrow> log_line) \<Rightarrow> event list \<Rightarrow> (error + unit) \<times> event list" where
  "call_warn w e msg tr =
     (case fails w tr e of None \<Rightarrow> (Inr (), tr @ [e]) | Some err \<Rightarrow> (Inr (), tr @ [e, Ev_Log (msg err)]))"

definition mk_pb :: "Build \<Rightarrow> Subpackage option \<Rightarrow> PipelineBuild" where
  "mk_pb b sp = \<lparr>pb_Build = b, pb_Package = cfg_Package (Configuration b), pb_Subpackage = sp\<rparr>"

definition Summarize :: "Build \<Rightarrow> log_line list" where
  "Summarize b =
     [Info ''melange is building:'',
      Info (''  configuration file: '' @ ConfigFile b),
      Info (''  workspace dir: '' @ WorkspaceDir b)] @
     (if GuestDir b \<noteq> [] then [Info (''  guest dir: '' @ GuestDir b)] else [])"

definition provision_GuestDir :: "world \<Rightarrow> Build \<Rightarrow> event list \<Rightarrow> (error + Build) \<times> event list" where
  "provision_GuestDir w b tr =
     (if GuestDir b = [] then
        bind_res (call w (Ev_MkdirTemp (TempDir w) ''melange-guest-*'') (wrapf ''unable to make guest directory'') tr)
          (\<lambda>_ tr'. (Inr (b\<lparr>GuestDir := MkdirTemp_result w tr\<rparr>), tr'))
      else (Inr b, tr))"

definition set_Environment :: "ImageConfiguration \<Rightarrow> Build \<Rightarrow> Build" where
  "set_Environment env b = b\<lparr>Configuration := (Configuration b)\<lparr>cfg_Environment := env\<rparr>\<rparr>"

text \<open>The scan of the needs of a pipeline; \<open>ApplyNeeds\<close> patches the build environment.\<close>

fun ApplyNeeds_all ::
  "world \<Rightarrow> Subpackage option \<Rightarrow> Pipeline list \<Rightarrow> Build \<Rightarrow> event list \<Rightarrow> (error + Build) \<times> event list" where
  "ApplyNeeds_all w sp [] b tr = (Inr b, tr)"
| "ApplyNeeds_all w sp (p # ps) b tr =
     bind_res (call w (Ev_ApplyNeeds p sp) (wrapf ''unable to apply pipeline requirements'') tr)
       (\<lambda>_ tr'. ApplyNeeds_all w sp ps
          (set_Environment (ApplyNeeds_result w tr p (cfg_Environment (Configuration b))) b) tr')"

fun ApplyNeeds_subpackages ::
  "world \<Rightarrow> Subpackage list \<Rightarrow> Build \<Rightarrow> event list \<Rightarrow> (error + Build) \<times> event list" where
  "ApplyNeeds_subpackages w [] b tr = (Inr b, tr)"
| "ApplyNeeds_subpackages w (spkg # rest) b tr =
     bind_res (ApplyNeeds_all w (Some spkg) (sp_Pipeline spkg) b tr)
       (\<lambda>b' tr'. ApplyNeeds_subpackages w rest b' tr')"

definition melange_out :: "Build \<Rightarrow> string \<Rightarrow> string" where
  "melange_out b name = filepath_Join [WorkspaceDir b, ''melange-out'', name]"

definition prepare_workspace :: "world \<Rightarrow> Build \<Rightarrow> event list \<Rightarrow> (error + unit) \<times> event list" where
  "prepare_workspace w b tr =
     bind_res
       (if EmptyWorkspace b then logf (Info ''empty workspace requested'') tr
        else
          bind_res (call w (Ev_MkdirAll (WorkspaceDir b)) (wrapf (''mkdir -p '' @ WorkspaceDir b)) tr) (\<lambda>_ tr.
          bind_res (logf (Info (''populating workspace '' @ WorkspaceDir b @ '' from '' @ SourceDir b)) tr) (\<lambda>_ tr.
          call w Ev_PopulateWorkspace (wrapf ''unable to populate workspace'') tr)))
       (\<lambda>_ tr. call w (Ev_MkdirAll (melange_out b (pkg_Name (cfg_Package (Configuration b))))) id tr)"

text \<open>\<open>OverlayBinSh\<close>: every failure is wrapped the same way but that of \<open>Chmod\<close>.\<close>

definition OverlayBinSh :: "world \<Rightarrow> Build \<Rightarrow> event list \<Rightarrow> (error + unit) \<times> event list" where
  "OverlayBinSh w b tr =
     (if BinShOverlay b = [] then (Inr (), tr)
      else
        (let targetPath = filepath_Join [GuestDir b, ''bin'', ''sh''] in
         bind_res (call w (Ev_Open (BinShOverlay b)) (wrapf ''copying overlay /bin/sh'') tr) (\<lambda>_ tr.
         bind_res (call w (Ev_Remove targetPath) (wrapf ''copying overlay /bin/sh'') tr) (\<lambda>_ tr.
         bind_res (call w (Ev_Create targetPath) (wrapf ''copying overlay /bin/sh'') tr) (\<lambda>_ tr.
         bind_res (call w Ev_Copy (wrapf ''copying overlay /bin/sh'') tr) (\<lambda>_ tr.
         call w (Ev_Chmod targetPath) (wrapf ''setting overlay /bin/sh executable'') tr))))))"

text \<open>
  The container path up to the start of the pod. The configuration is shared with
  the memo of the build, so the image reference is stored in both.
\<close>

definition start_container ::
  "world \<Rightarrow> Build \<Rightarrow> Config \<Rightarrow> event list \<Rightarrow> (error + Config \<times> Build) \<times> event list" where
  "start_container w b cfg tr =
     bind_res (call w (Ev_MkdirAll (GuestDir b)) (wrapf (''mkdir -p '' @ GuestDir b)) tr) (\<lambda>_ tr.
     bind_res (logf (Info (''building workspace in '' @ [CHR 0x27] @ GuestDir b @ [CHR 0x27] @ '' with apko'')) tr) (\<lambda>_ tr.
     bind_res (call w Ev_BuildGuest (wrapf ''unable to build guest'') tr) (\<lambda>_ tr'.
     (let imgRef = BuildGuest_result w tr;
          cfg' = cfg\<lparr>cc_ImgRef := imgRef\<rparr>;
          b' = b\<lparr>containerConfig := Some cfg'\<rparr> in
      bind_res (logf (Info (''ImgRef = '' @ imgRef)) tr') (\<lambda>_ tr.
      bind_res (OverlayBinSh w b' tr) (\<lambda>_ tr.
      bind_res (call w Ev_PopulateCache (wrapf ''unable to populate cache'') tr) (\<lambda>_ tr.
      bind_res (call w (Ev_StartPod imgRef) (wrapf ''unable to start pod'') tr) (\<lambda>_ tr.
      (Inr (cfg', b'), tr)))))))))"

text \<open>The deferred termination of the pod: it runs when \<open>BuildPackage\<close> returns.\<close>

definition deferred_TerminatePod ::
  "world \<Rightarrow> Build \<Rightarrow> (error + unit) \<times> event list \<Rightarrow> (error + unit) \<times> event list" where
  "deferred_TerminatePod w b res =
     (case res of (r, tr) \<Rightarrow>
        if DebugRunner b then (r, tr)
        else (case fails w tr Ev_TerminatePod of
                None \<Rightarrow> (r, tr @ [Ev_TerminatePod])
              | Some err \<Rightarrow> (r, tr @ [Ev_TerminatePod,
                                     Ev_Log (Warn (''unable to terminate pod: '' @ error_text err))])))"

fun Run_all :: "world \<Rightarrow> Subpackage option \<Rightarrow> Pipeline list \<Rightarrow> event list \<Rightarrow> (error + unit) \<times> event list" where
  "Run_all w sp [] tr = (Inr (), tr)"
| "Run_all w sp (p # ps) tr =
     bind_res (call w (Ev_Run p sp) (wrapf ''unable to run pipeline'') tr) (\<lambda>_ tr'. Run_all w sp ps tr')"

text \<open>
  The head of an iteration of the subpackage pipeline loop: \<open>False\<close> is the
  \<open>continue\<close> of the loop, \<open>True\<close> goes on to the rest of the iteration.
\<close>

definition subpackage_pipelines ::
  "world \<Rightarrow> Build \<Rightarrow> Subpackage \<Rightarrow> event list \<Rightarrow> (error + bool) \<times> event list" where
  "subpackage_pipelines w b sp tr =
     (if \<not> IsBuildLess b then
        bind_res (logf (Info (''running pipeline for subpackage '' @ sp_Name sp)) tr) (\<lambda>_ tr.
          case ShouldRun (w_eval w) (mk_pb b (Some sp)) sp of
            Inl err \<Rightarrow> (Inl err, tr)
          | Inr result \<Rightarrow>
              if \<not> result then (Inr False, tr)
              else bind_res (Run_all w (Some sp) (sp_Pipeline sp) tr) (\<lambda>_ tr. (Inr True, tr)))
      else (Inr True, tr))"

fun run_subpackages ::
  "world \<Rightarrow> Build \<Rightarrow> Subpackage list \<Rightarrow> linterTarget list \<Rightarrow> event list \<Rightarrow>
   (error + linterTarget list) \<times> event list" where
  "run_subpackages w b [] linterQueue tr = (Inr linterQueue, tr)"
| "run_subpackages w b (sp # rest) linterQueue tr =
     bind_res (subpackage_pipelines w b sp tr) (\<lambda>proceed tr.
       if \<not> proceed then run_subpackages w b rest linterQueue tr
       else
         bind_res (call w (Ev_MkdirAll (melange_out b (sp_Name sp))) id tr) (\<lambda>_ tr.
         run_subpackages w b rest (linterQueue @ [\<lparr>pkgName = sp_Name sp, checks = sp_Checks sp\<rparr>]) tr))"

text \<open>
  The callback given to the linter, run on the warnings the linter reports, in their
  order: it keeps a warning in \<open>innerErr\<close> or logs it.
\<close>

fun report_warnings :: "bool \<Rightarrow> error list \<Rightarrow> error option \<Rightarrow> event list \<Rightarrow> error option \<times> event list" where
  "report_warnings failOnWarning [] innerErr tr = (innerErr, tr)"
| "report_warnings failOnWarning (err # errs) innerErr tr =
     (if failOnWarning then report_warnings failOnWarning errs (Some err) tr
      else report_warnings failOnWarning errs innerErr
             (tr @ [Ev_Log (Warn (''WARNING: '' @ error_text err))]))"

text \<open>
  The lint of one target. In the source the error of the second \<open>return\<close> wraps
  \<open>err\<close>, the result of \<open>LintBuild\<close>, which is \<open>nil\<close> on that branch.
\<close>

definition lint_target :: "world \<Rightarrow> Build \<Rightarrow> linterTarget \<Rightarrow> event list \<Rightarrow> (error + unit) \<times> event list" where
  "lint_target w b lt tr =
     bind_res (logf (Info (''running package linters for '' @ pkgName lt)) tr) (\<lambda>_ tr.
       (let path = melange_out b (pkgName lt);
            linters = checks lt;
            err = fails w tr (Ev_LintBuild (pkgName lt) path linters);
            reported = report_warnings (FailOnLintWarning b)
                         (LintBuild_warnings w tr (pkgName lt) path linters) None
                         (tr @ [Ev_LintBuild (pkgName lt) path linters])
        in case reported of (innerErr, tr') \<Rightarrow>
             if err \<noteq> None then (Inl (Errorf ''package linter error'' err), tr')
             else if innerErr \<noteq> None then (Inl (Errorf ''package linter warning'' err), tr')
             else (Inr (), tr')))"

fun lint_all :: "world \<Rightarrow> Build \<Rightarrow> linterTarget list \<Rightarrow> event list \<Rightarrow> (error + unit) \<times> event list" where
  "lint_all w b [] tr = (Inr (), tr)"
| "lint_all w b (lt # rest) tr = bind_res (lint_target w b lt tr) (\<lambda>_ tr. lint_all w b rest tr)"

definition namespace_of :: "Build \<Rightarrow> string" where
  "namespace_of b = (if Namespace b = [] then ''unknown'' else Namespace b)"

definition version_release :: "Build \<Rightarrow> string" where
  "version_release b =
     pkg_Version (cfg_Package (Configuration b)) @ ''-r'' @ show_nat (pkg_Epoch (cfg_Package (Configuration b)))"

text \<open>
  The SBOM request for a package name. The licence and the copyright of the request
  come from methods of the recipe's package that are not part of \<open>build.go\<close>.
\<close>

definition sbom_spec :: "world \<Rightarrow> Build \<Rightarrow> string \<Rightarrow> SBOM_Spec" where
  "sbom_spec w b name =
     \<lparr>Path = melange_out b name, PackageName = name, PackageVersion = version_release b,
      sbom_Namespace = namespace_of b, sbom_Arch = arch_ToAPK w (Arch b)\<rparr>"

definition sbom_gate :: "world \<Rightarrow> Build \<Rightarrow> Subpackage \<Rightarrow> event list \<Rightarrow> (error + bool) \<times> event list" where
  "sbom_gate w b sp tr =
     (if \<not> IsBuildLess b then
        bind_res (logf (Info (''generating SBOM for subpackage '' @ sp_Name sp)) tr) (\<lambda>_ tr.
          case ShouldRun (w_eval w) (mk_pb b (Some sp)) sp of
            Inl err \<Rightarrow> (Inl err, tr)
          | Inr result \<Rightarrow> (Inr result, tr))
      else (Inr True, tr))"

fun sbom_subpackages :: "world \<Rightarrow> Build \<Rightarrow> Subpackage list \<Rightarrow> event list \<Rightarrow> (error + unit) \<times> event list" where
  "sbom_subpackages w b [] tr = (Inr (), tr)"
| "sbom_subpackages w b (sp # rest) tr =
     bind_res (sbom_gate w b sp tr) (\<lambda>proceed tr.
       if \<not> proceed then sbom_subpackages w b rest tr
       else
         bind_res (call w (Ev_GenerateSBOM (sbom_spec w b (sp_Name sp))) (wrapf ''writing SBOMs'') tr) (\<lambda>_ tr.
         sbom_subpackages w b rest tr))"

fun emit_subpackages :: "world \<Rightarrow> Build \<Rightarrow> Subpackage list \<Rightarrow> event list \<Rightarrow> (error + unit) \<times> event list" where
  "emit_subpackages w b [] tr = (Inr (), tr)"
| "emit_subpackages w b (sp # rest) tr =
     (case ShouldRun (w_eval w) (mk_pb b (Some sp)) sp of
        Inl err \<Rightarrow> (Inl err, tr)
      | Inr result \<Rightarrow>
          if \<not> result then emit_subpackages w b rest tr
          else
            bind_res (call w (Ev_Emit (Some sp)) (wrapf ''unable to emit package'') tr) (\<lambda>_ tr.
            emit_subpackages w b rest tr))"

definition cleanup :: "world \<Rightarrow> Build \<Rightarrow> event list \<Rightarrow> (error + unit) \<times> event list" where
  "cleanup w b tr =
     bind_res
       (if \<not> IsBuildLess b
        then call_warn w (Ev_RemoveAll (GuestDir b))
               (\<lambda>err. Info (''WARNING: unable to clean guest container: '' @ error_text err)) tr
        else (Inr (), tr))
       (\<lambda>_ tr. call_warn w (Ev_RemoveAll (WorkspaceDir b))
                  (\<lambda>err. Info (''WARNING: unable to clean workspace: '' @ error_text err)) tr)"

definition apk_file_name :: "Build \<Rightarrow> string \<Rightarrow> string" where
  "apk_file_name b name =
     name @ ''-'' @ pkg_Version (cfg_Package (Configuration b)) @ ''-r'' @
     show_nat (pkg_Epoch (cfg_Package (Configuration b))) @ ''.apk''"

definition packageDir :: "world \<Rightarrow> Build \<Rightarrow> string" where
  "packageDir w b = filepath_Join [OutDir b, arch_ToAPK w (Arch b)]"

text \<open>The file list of the index: the loop over the subpackages appends to \<open>apkFiles\<close>.\<close>

fun index_files :: "world \<Rightarrow> Build \<Rightarrow> Subpackage list \<Rightarrow> string list \<Rightarrow> error + string list" where
  "index_files w b [] apkFiles = Inr apkFiles"
| "index_files w b (subpkg # rest) apkFiles =
     (case ShouldRun (w_eval w) (mk_pb b (Some subpkg)) subpkg of
        Inl err \<Rightarrow> Inl err
      | Inr result \<Rightarrow>
          if \<not> result then index_files w b rest apkFiles
          else index_files w b rest
                 (apkFiles @ [filepath_Join [packageDir w b, apk_file_name b (sp_Name subpkg)]]))"

definition generate_index :: "world \<Rightarrow> Build \<Rightarrow> event list \<Rightarrow> (error + unit) \<times> event list" where
  "generate_index w b tr =
     (if GenerateIndex b then
        bind_res (logf (Info (''generating apk index from packages in '' @ packageDir w b)) tr) (\<lambda>_ tr.
          case index_files w b (cfg_Subpackages (Configuration b))
                 [filepath_Join [packageDir w b, apk_file_name b (pkg_Name (cfg_Package (Configuration b)))]] of
            Inl err \<Rightarrow> (Inl err, tr)
          | Inr apkFiles \<Rightarrow>
              bind_res (call w (Ev_index_New apkFiles (SigningKey b)
                                  (filepath_Join [packageDir w b, ''APKINDEX.tar.gz'']))
                          (wrapf ''unable to create index'') tr) (\<lambda>_ tr.
              bind_res (call w Ev_GenerateIndex (wrapf ''unable to generate index'') tr) (\<lambda>_ tr.
              call w (Ev_WriteJSONIndex (filepath_Join [packageDir w b, ''APKINDEX.json'']))
                (wrapf ''unable to generate JSON index'') tr)))
      else (Inr (), tr))"

text \<open>
  \<open>BuildPackage\<close> from the subpackage pipelines to its end; \<open>linterQueue\<close> holds the
  main package when the container path has run.
\<close>

definition finish_build :: "world \<Rightarrow> Build \<Rightarrow> linterTarget list \<Rightarrow> event list \<Rightarrow> (error + unit) \<times> event list" where
  "finish_build w b linterQueue tr =
     bind_res (run_subpackages w b (cfg_Subpackages (Configuration b)) linterQueue tr) (\<lambda>linterQueue tr.
     bind_res (logf (Info (''retrieving workspace from builder: '' @
                           (case containerConfig b of None \<Rightarrow> [] | Some cfg \<Rightarrow> cc_PodID cfg))) tr) (\<lambda>_ tr.
     bind_res (call w Ev_RetrieveWorkspace (wrapf ''retrieving workspace'') tr) (\<lambda>_ tr.
     bind_res (logf (Info (''retrieved and wrote post-build workspace to: '' @ WorkspaceDir b)) tr) (\<lambda>_ tr.
     bind_res (lint_all w b linterQueue tr) (\<lambda>_ tr.
     bind_res (sbom_subpackages w b (cfg_Subpackages (Configuration b)) tr) (\<lambda>_ tr.
     bind_res (call w (Ev_GenerateSBOM (sbom_spec w b (pkg_Name (cfg_Package (Configuration b)))))
                 (wrapf ''writing SBOMs'') tr) (\<lambda>_ tr.
     bind_res (call w (Ev_Emit None) (wrapf ''unable to emit package'') tr) (\<lambda>_ tr.
     bind_res (emit_subpackages w b (cfg_Subpackages (Configuration b)) tr) (\<lambda>_ tr.
     bind_res (cleanup w b tr) (\<lambda>_ tr.
     generate_index w b tr))))))))))"

text \<open>
  \<open>BuildPackage\<close> up to the container configuration: the summary, the guest
  directory, the scan of the needs, the workspace, the memo of the configuration.
  The timeout of the context is not modelled.
\<close>

definition prepare_build :: "world \<Rightarrow> Build \<Rightarrow> event list \<Rightarrow> (error + Config \<times> Build) \<times> event list" where
  "prepare_build w b tr =
     bind_res (provision_GuestDir w b (tr @ map Ev_Log (Summarize b))) (\<lambda>b tr.
     bind_res (logf (Info ''evaluating pipelines for package requirements'') tr) (\<lambda>_ tr.
     bind_res (ApplyNeeds_all w None (cfg_Pipeline (Configuration b)) b tr) (\<lambda>b tr.
     bind_res (ApplyNeeds_subpackages w (cfg_Subpackages (Configuration b)) b tr) (\<lambda>b tr.
     bind_res (prepare_workspace w b tr) (\<lambda>_ tr.
       case WorkspaceConfig (w_cfg w) b of (r, lg) \<Rightarrow> (Inr r, tr @ map Ev_Log lg))))))"

definition BuildPackage :: "world \<Rightarrow> Build \<Rightarrow> event list \<Rightarrow> (error + unit) \<times> event list" where
  "BuildPackage w b tr =
     bind_res (prepare_build w b tr) (\<lambda>(cfg, b) tr.
       if \<not> IsBuildLess b then
         bind_res (start_container w b cfg tr) (\<lambda>(cfg, b) tr.
           deferred_TerminatePod w b
             (bind_res (logf (Debug ''running the main pipeline'') tr) (\<lambda>_ tr.
              bind_res (Run_all w None (cfg_Pipeline (Configuration b)) tr) (\<lambda>_ tr.
              finish_build w b
                [\<lparr>pkgName = pkg_Name (cfg_Package (Configuration b)),
                  checks = pkg_Checks (cfg_Package (Configuration b))\<rparr>] tr))))
       else finish_build w b [] tr)"

section \<open>RetrieveWorkspace\<close>

text \<open>
  The workspace is reached through the interface \<open>apkofs.FullFS\<close>. A call that changes
  it is an event; \<open>Stat\<close> and \<open>Readlink\<close> read it, and what they return may depend on
  the calls made so far. \<open>fmt.Println\<close> is an event too.
\<close>

datatype fs_event =
    Fs_MkdirAll string nat
  | Fs_OpenFile string nat
  | Fs_CopyN string string
  | Fs_Close string
  | Fs_Symlink string string
  | Fs_Link string string
  | Fs_SetXattr string string string
  | Fs_Println string

record FileInfo =
  IsDir :: bool
  ModeSymlink :: bool

text \<open>
  A header as \<open>tar.Reader.Next\<close> returns it. \<open>PAXRecords\<close> is a Go map; the list is
  the order in which the \<open>range\<close> over it happens to visit the records.
\<close>

record tar_Header =
  Typeflag :: char
  Name :: string
  Linkname :: string
  Size :: nat
  Mode :: nat
  PAXRecords :: "(string \<times> string) list"

text \<open>
  The stream the runner returns, once it is opened: the error of \<open>gzip.NewReader\<close>,
  the entries (a header and the bytes that the stream holds for it) and how the stream
  ends: \<open>None\<close> is \<open>io.EOF\<close>, otherwise the error of \<open>Next\<close>.
\<close>

record tar_stream =
  gzip_error :: "error option"
  entries :: "(tar_Header \<times> string) list"
  end_error :: "error option"

text \<open>
  What the loop asks of its surroundings. \<open>tar_FileMode\<close> is
  \<open>hdr.FileInfo().Mode()\<close> of \<open>archive/tar\<close>: the mode of the header in Go's
  \<open>fs.FileMode\<close> encoding; its \<open>Perm()\<close> is the low nine bits.
\<close>

record fs_world =
  fs_fails :: "fs_event list \<Rightarrow> fs_event \<Rightarrow> error option"
  fs_Stat :: "fs_event list \<Rightarrow> string \<Rightarrow> error + FileInfo"
  fs_Readlink :: "fs_event list \<Rightarrow> string \<Rightarrow> error + string"
  tar_FileMode :: "tar_Header \<Rightarrow> nat"
  Runner_WorkspaceTar :: "error + tar_stream option"

definition TypeReg :: char where "TypeReg = CHR ''0''"
definition TypeLink :: char where "TypeLink = CHR ''1''"
definition TypeSymlink :: char where "TypeSymlink = CHR ''2''"
definition TypeDir :: char where "TypeDir = CHR ''5''"

definition then_fs ::
  "error option \<times> fs_event list \<Rightarrow> (fs_event list \<Rightarrow> error option \<times> fs_event list) \<Rightarrow>
   error option \<times> fs_event list" where
  "then_fs m f = (case m of (Some err, tr) \<Rightarrow> (Some err, tr) | (None, tr) \<Rightarrow> f tr)"

definition fs_call ::
  "fs_world \<Rightarrow> fs_event \<Rightarrow> (error \<Rightarrow> error) \<Rightarrow> fs_event list \<Rightarrow> error option \<times> fs_event list" where
  "fs_call w e wrap tr =
     (case fs_fails w tr e of None \<Rightarrow> (None, tr @ [e]) | Some err \<Rightarrow> (Some (wrap err), tr @ [e]))"

text \<open>The loop over the PAX records at the end of an iteration.\<close>

fun set_xattrs :: "fs_world \<Rightarrow> string \<Rightarrow> (string \<times> string) list \<Rightarrow> fs_event list \<Rightarrow> error option \<times> fs_event list" where
  "set_xattrs w name [] tr = (None, tr)"
| "set_xattrs w name ((k, v) # rest) tr =
     (if \<not> strings_HasPrefix k ''SCHILY.xattr.'' then set_xattrs w name rest tr
      else
        (let attrName = drop (length ''SCHILY.xattr.'') k in
         then_fs (fs_call w (Fs_SetXattr name attrName v)
                    (wrapf (''unable to set xattr '' @ attrName @ '' on '' @ name))
                    (tr @ [Fs_Println (''setting xattr '' @ attrName @ '' on '' @ name)]))
           (\<lambda>tr. set_xattrs w name rest tr)))"

text \<open>The test of the directory case: the name is a symlink to a directory.\<close>

definition symlink_to_dir :: "fs_world \<Rightarrow> tar_Header \<Rightarrow> fs_event list \<Rightarrow> bool" where
  "symlink_to_dir w hdr tr =
     (case fs_Stat w tr (Name hdr) of
        Inl _ \<Rightarrow> False
      | Inr fi \<Rightarrow>
          ModeSymlink fi \<and>
          (case fs_Readlink w tr (Name hdr) of
             Inl _ \<Rightarrow> False
           | Inr target \<Rightarrow> (case fs_Stat w tr target of Inl _ \<Rightarrow> False | Inr fi' \<Rightarrow> IsDir fi')))"

text \<open>
  \<open>io.CopyN\<close> of \<open>hdr.Size\<close> bytes: it fails when the stream holds fewer bytes for
  the entry (\<open>io.ErrUnexpectedEOF\<close> from the tar reader), or when the write fails.
\<close>

definition copy_body :: "fs_world \<Rightarrow> tar_Header \<Rightarrow> string \<Rightarrow> fs_event list \<Rightarrow> error option \<times> fs_event list" where
  "copy_body w hdr body tr =
     (if length body < Size hdr
      then (Some (wrapf (''unable to copy file '' @ Name hdr) (External ''unexpected EOF'')),
            tr @ [Fs_CopyN (Name hdr) body])
      else fs_call w (Fs_CopyN (Name hdr) (take (Size hdr) body))
             (wrapf (''unable to copy file '' @ Name hdr)) tr)"

text \<open>
  One iteration of the loop over the headers. The \<open>continue\<close> of the symlink case
  leaves the iteration before the PAX records are read.
\<close>

definition retrieve_entry :: "fs_world \<Rightarrow> tar_Header \<times> string \<Rightarrow> fs_event list \<Rightarrow> error option \<times> fs_event list" where
  "retrieve_entry w ent tr =
     (case ent of (hdr, body) \<Rightarrow>
      if Typeflag hdr = TypeDir then
        then_fs
          (if symlink_to_dir w hdr tr then (None, tr)
           else fs_call w (Fs_MkdirAll (Name hdr) (tar_FileMode w hdr mod 512))
                  (wrapf (''unable to create directory '' @ Name hdr)) tr)
          (set_xattrs w (Name hdr) (PAXRecords hdr))
      else if Typeflag hdr = TypeReg then
        then_fs (fs_call w (Fs_OpenFile (Name hdr) (tar_FileMode w hdr)) (wrapf (''unable to open file '' @ Name hdr)) tr) (\<lambda>tr.
        then_fs (copy_body w hdr body tr) (\<lambda>tr.
        then_fs (fs_call w (Fs_Close (Name hdr)) (wrapf (''unable to close file '' @ Name hdr)) tr)
          (set_xattrs w (Name hdr) (PAXRecords hdr))))
      else if Typeflag hdr = TypeSymlink then
        (if fs_Readlink w tr (Name hdr) = Inr (Linkname hdr) then (None, tr)
         else
           then_fs (fs_call w (Fs_Symlink (Linkname hdr) (Name hdr))
                      (wrapf (''unable to create symlink '' @ Name hdr @ '' -> '' @ Linkname hdr)) tr)
             (set_xattrs w (Name hdr) (PAXRecords hdr)))
      else if Typeflag hdr = TypeLink then
        then_fs (fs_call w (Fs_Link (Linkname hdr) (Name hdr)) id tr)
          (set_xattrs w (Name hdr) (PAXRecords hdr))
      else
        (Some (ErrorNew (''unexpected tar type '' @ show_nat (of_char (Typeflag hdr)) @ '' for '' @ Name hdr)), tr))"

fun retrieve_loop ::
  "fs_world \<Rightarrow> (tar_Header \<times> string) list \<Rightarrow> error option \<Rightarrow> fs_event list \<Rightarrow> error option \<times> fs_event list" where
  "retrieve_loop w [] end_err tr = (end_err, tr)"
| "retrieve_loop w (ent # rest) end_err tr =
     then_fs (retrieve_entry w ent tr) (\<lambda>tr. retrieve_loop w rest end_err tr)"

text \<open>
  \<open>RetrieveWorkspace\<close>. The results of the deferred \<open>Close\<close> of the streams are
  dropped by the source and are not events.
\<close>

definition RetrieveWorkspace :: "fs_world \<Rightarrow> fs_event list \<Rightarrow> error option \<times> fs_event list" where
  "RetrieveWorkspace w tr =
     (case Runner_WorkspaceTar w of
        Inl err \<Rightarrow> (Some err, tr)
      | Inr None \<Rightarrow> (None, tr)
      | Inr (Some r) \<Rightarrow>
          (case gzip_error r of
             Some err \<Rightarrow> (Some err, tr)
           | None \<Rightarrow> retrieve_loop w (entries r) (end_error r) tr))"

section \<open>PopulateCache\<close>

text \<open>\<open>strings.TrimPrefix\<close>, \<open>strings.Cut\<close> at a separator character, \<open>filepath.Base\<close>
  and \<open>filepath.Dir\<close> (without the final \<open>Clean\<close>).\<close>

definition strings_TrimPrefix :: "string \<Rightarrow> string \<Rightarrow> string" where
  "strings_TrimPrefix s p = (if strings_HasPrefix s p then drop (length p) s else s)"

definition strings_Cut :: "string \<Rightarrow> char \<Rightarrow> string \<times> string" where
  "strings_Cut s sep = (takeWhile (\<lambda>c. c \<noteq> sep) s, drop 1 (dropWhile (\<lambda>c. c \<noteq> sep) s))"

definition strip_slashes :: "string \<Rightarrow> string" where
  "strip_slashes p = rev (dropWhile (\<lambda>c. c = CHR ''/'') (rev p))"

definition filepath_Base :: "string \<Rightarrow> string" where
  "filepath_Base p =
     (if p = [] then ''.''
      else if strip_slashes p = [] then ''/''
      else rev (takeWhile (\<lambda>c. c \<noteq> CHR ''/'') (rev (strip_slashes p))))"

definition filepath_Dir :: "string \<Rightarrow> string" where
  "filepath_Dir p =
     (let d = strip_slashes (rev (dropWhile (\<lambda>c. c \<noteq> CHR ''/'') (rev p))) in
      if d = [] then (if take 1 p = ''/'' then ''/'' else ''.'') else d)"

text \<open>
  The calls to the operating system and to the object store are events; whether a
  call fails may depend on the calls before it. The directory that \<open>os.MkdirTemp\<close>
  makes, what the bucket lists (the names, and the error of the iterator if it ends
  with one), the membership map of the recipe (\<open>cacheItemsForBuild\<close>), whether the
  staging directory is missing when \<open>fs.Stat\<close> looks for it, and what the walk of
  the staging directory visits are parameters: each is asked for once.
\<close>

datatype os_event =
    Os_Log log_line
  | Os_MkdirTemp string string
  | Os_NewClient bool
  | Os_NewReader string
  | Os_Create string
  | Os_Copy string
  | Os_CloseReader string
  | Os_MkdirAll string nat
  | Os_Open string
  | Os_Chmod string nat
  | Os_RemoveAll string

text \<open>
  An entry of \<open>fs.WalkDir\<close>, as the callback sees it: the path below the root, the
  error the walk hands over, and the result of \<open>d.Info()\<close>: an error, or the name,
  whether the mode is regular, and the permission bits.
\<close>

record file_info =
  fi_Name :: string
  IsRegular :: bool
  Perm :: nat

record walk_entry =
  we_path :: string
  we_err :: "error option"
  we_Info :: "error + file_info"

record cache_world =
  os_fails :: "os_event list \<Rightarrow> os_event \<Rightarrow> error option"
  MkdirTemp_path :: string
  bucket_objects :: "string \<Rightarrow> string \<Rightarrow> string list \<times> error option"
  cacheItemsForBuild :: "string \<Rightarrow> error + (string \<Rightarrow> bool)"
  staging_missing :: bool
  WalkDir_entries :: "string \<Rightarrow> walk_entry list"

definition then_os ::
  "error option \<times> os_event list \<Rightarrow> (os_event list \<Rightarrow> error option \<times> os_event list) \<Rightarrow>
   error option \<times> os_event list" where
  "then_os m f = (case m of (Some err, tr) \<Rightarrow> (Some err, tr) | (None, tr) \<Rightarrow> f tr)"

definition os_call ::
  "cache_world \<Rightarrow> os_event \<Rightarrow> (error \<Rightarrow> error) \<Rightarrow> os_event list \<Rightarrow> error option \<times> os_event list" where
  "os_call w e wrap tr =
     (case os_fails w tr e of None \<Rightarrow> (None, tr @ [e]) | Some err \<Rightarrow> (Some (wrap err), tr @ [e]))"

text \<open>\<open>copyFile\<close>; the deferred \<open>Close\<close> of the two files are not events.\<close>

definition copyFile ::
  "cache_world \<Rightarrow> string \<Rightarrow> string \<Rightarrow> string \<Rightarrow> nat \<Rightarrow> os_event list \<Rightarrow> error option \<times> os_event list" where
  "copyFile w base src dest perm tr =
     (let basePath = filepath_Join [base, src];
          destPath = filepath_Join [dest, src];
          destDir = filepath_Dir destPath in
      then_os (os_call w (Os_Open basePath) id tr) (\<lambda>tr.
      then_os (os_call w (Os_MkdirAll destDir 493) (wrapf (''mkdir -p '' @ destDir)) tr) (\<lambda>tr.
      then_os (os_call w (Os_Create destPath) (wrapf (''create '' @ destPath)) tr) (\<lambda>tr.
      then_os (os_call w (Os_Copy destPath) id tr) (\<lambda>tr.
      os_call w (Os_Chmod destPath perm) id tr)))))"

text \<open>The storage client: the authenticated one, or else the anonymous one.\<close>

definition storage_client :: "cache_world \<Rightarrow> os_event list \<Rightarrow> error option \<times> os_event list" where
  "storage_client w tr =
     (case os_fails w tr (Os_NewClient True) of
        None \<Rightarrow> (None, tr @ [Os_NewClient True])
      | Some err \<Rightarrow>
          os_call w (Os_NewClient False) (wrapf ''failed to get storage client'')
            (tr @ [Os_NewClient True,
                   Os_Log (Info (''downgrading to anonymous mode: '' @ error_text err))]))"

text \<open>The loop of \<open>fetchBucket\<close> over the objects that the iterator lists.\<close>

fun fetch_objects ::
  "cache_world \<Rightarrow> string \<Rightarrow> string \<Rightarrow> (string \<Rightarrow> bool) \<Rightarrow> string list \<Rightarrow> error option \<Rightarrow>
   os_event list \<Rightarrow> error option \<times> os_event list" where
  "fetch_objects w tmp bucket cmm [] end_err tr =
     (case end_err of
        None \<Rightarrow> (None, tr)
      | Some err \<Rightarrow> (Some (wrapf ''failed to get next remote cache object'' err), tr))"
| "fetch_objects w tmp bucket cmm (on # rest) end_err tr =
     (if \<not> cmm on then fetch_objects w tmp bucket cmm rest end_err tr
      else
        then_os (os_call w (Os_NewReader on)
                   (wrapf (''failed to get reader for next remote cache object '' @ on)) tr) (\<lambda>tr.
        then_os (os_call w (Os_Create (filepath_Join [tmp, on])) id tr) (\<lambda>tr.
        then_os (os_call w (Os_Copy (filepath_Join [tmp, on]))
                   (wrapf (''failed to copy remote cache object '' @ on)) tr) (\<lambda>tr.
        then_os (os_call w (Os_CloseReader on)
                   (wrapf (''failed to close remote cache object '' @ on)) tr) (\<lambda>tr.
        fetch_objects w tmp bucket cmm rest end_err
          (tr @ [Os_Log (Info (''cached gs://'' @ bucket @ ''/'' @ on @ '' -> '' @
                               filepath_Join [tmp, on]))]))))))"

text \<open>\<open>fetchBucket\<close> returns the staging directory and an error.\<close>

definition fetchBucket ::
  "cache_world \<Rightarrow> string \<Rightarrow> (string \<Rightarrow> bool) \<Rightarrow> os_event list \<Rightarrow> (string \<times> error option) \<times> os_event list" where
  "fetchBucket w cacheSource cmm tr =
     (case os_fails w tr (Os_MkdirTemp [] ''melange-cache'') of
        Some err \<Rightarrow> (([], Some err), tr @ [Os_MkdirTemp [] ''melange-cache''])
      | None \<Rightarrow>
          (let tmp = MkdirTemp_path w;
               cut = strings_Cut (strings_TrimPrefix cacheSource ''gs://'') (CHR ''/'');
               bucket = fst cut; prefix = snd cut in
           case storage_client w (tr @ [Os_MkdirTemp [] ''melange-cache'']) of
             (Some err, tr) \<Rightarrow> (([], Some err), tr)
           | (None, tr) \<Rightarrow>
               (case fetch_objects w tmp bucket cmm (fst (bucket_objects w bucket prefix))
                       (snd (bucket_objects w bucket prefix)) tr of
                  (err, tr) \<Rightarrow> ((tmp, err), tr))))"

text \<open>The callback of the walk, and the walk: it stops at the first error.\<close>

definition walk_callback ::
  "cache_world \<Rightarrow> string \<Rightarrow> string \<Rightarrow> walk_entry \<Rightarrow> os_event list \<Rightarrow> error option \<times> os_event list" where
  "walk_callback w tmp cacheDir e tr =
     (case we_err e of
        Some err \<Rightarrow> (Some err, tr)
      | None \<Rightarrow>
          (case we_Info e of
             Inl err \<Rightarrow> (Some err, tr)
           | Inr fi \<Rightarrow>
               if \<not> IsRegular fi then (None, tr)
               else if \<not> strings_HasPrefix (filepath_Base (fi_Name fi)) ''sha256:'' \<and>
                       \<not> strings_HasPrefix (filepath_Base (fi_Name fi)) ''sha512:''
               then (None, tr)
               else copyFile w tmp (we_path e) cacheDir (Perm fi)
                      (tr @ [Os_Log (Debug (''  -> '' @ we_path e))])))"

fun WalkDir ::
  "cache_world \<Rightarrow> string \<Rightarrow> string \<Rightarrow> walk_entry list \<Rightarrow> os_event list \<Rightarrow> error option \<times> os_event list" where
  "WalkDir w tmp cacheDir [] tr = (None, tr)"
| "WalkDir w tmp cacheDir (e # es) tr =
     then_os (walk_callback w tmp cacheDir e tr) (\<lambda>tr. WalkDir w tmp cacheDir es tr)"

text \<open>
  \<open>PopulateCache\<close> after a successful \<open>fetchBucket\<close>, and the deferred
  \<open>os.RemoveAll(tmp)\<close>, whose result is dropped.
\<close>

definition copy_out :: "cache_world \<Rightarrow> Build \<Rightarrow> string \<Rightarrow> os_event list \<Rightarrow> error option \<times> os_event list" where
  "copy_out w b tmp tr =
     then_os (os_call w (Os_MkdirAll (CacheDir b) 493) id
                (tr @ [Os_Log (Info (''cache bucket copied to '' @ tmp))])) (\<lambda>tr.
       if staging_missing w then (None, tr)
       else WalkDir w tmp (CacheDir b) (WalkDir_entries w tmp) tr)"

definition deferred_RemoveAll :: "string \<Rightarrow> error option \<times> os_event list \<Rightarrow> error option \<times> os_event list" where
  "deferred_RemoveAll tmp res = (case res of (r, tr) \<Rightarrow> (r, tr @ [Os_RemoveAll tmp]))"

definition PopulateCache :: "cache_world \<Rightarrow> Build \<Rightarrow> os_event list \<Rightarrow> error option \<times> os_event list" where
  "PopulateCache w b tr =
     (if CacheDir b = [] then (None, tr)
      else
        (case cacheItemsForBuild w (ConfigFile b) of
           Inl err \<Rightarrow> (Some (wrapf ''while determining which objects to fetch'' err), tr)
         | Inr cmm \<Rightarrow>
             (let tr1 = (if CacheSource b \<noteq> []
                         then tr @ [Os_Log (Debug (''populating cache from '' @ CacheSource b))]
                         else tr) in
              if strings_HasPrefix (CacheSource b) ''gs://'' then
                (case fetchBucket w (CacheSource b) cmm tr1 of
                   ((tmp, Some err), tr2) \<Rightarrow> (Some err, tr2)
                 | ((tmp, None), tr2) \<Rightarrow> deferred_RemoveAll tmp (copy_out w b tmp tr2))
              else (None, tr1))))"

text \<open>
  What a run of \<open>PopulateCache\<close> did: the objects it opened a reader for, and the
  files it copied (the destination and the mode of each \<open>Chmod\<close>, the last call of
  \<open>copyFile\<close>). The objects of the bucket are those listed under the prefix of the
  cache source.
\<close>

fun download_of :: "os_event \<Rightarrow> string list" where
  "download_of (Os_NewReader on) = [on]" | "download_of _ = []"

fun copy_of :: "os_event \<Rightarrow> (string \<times> nat) list" where
  "copy_of (Os_Chmod p m) = [(p, m)]" | "copy_of _ = []"

definition downloads :: "os_event list \<Rightarrow> string list" where
  "downloads tr = concat (map download_of tr)"

definition copies :: "os_event list \<Rightarrow> (string \<times> nat) list" where
  "copies tr = concat (map copy_of tr)"

definition listed_objects :: "cache_world \<Rightarrow> Build \<Rightarrow> string list" where
  "listed_objects w b =
     (let cut = strings_Cut (strings_TrimPrefix (CacheSource b) ''gs://'') (CHR ''/'')
      in fst (bucket_objects w (fst cut) (snd cut)))"

text \<open>An entry of the walk that is a regular file named like a digest, and its copy.\<close>

definition copyable :: "walk_entry \<Rightarrow> bool" where
  "copyable e =
     (we_err e = None \<and>
      (case we_Info e of
         Inl _ \<Rightarrow> False
       | Inr fi \<Rightarrow> IsRegular fi \<and>
                   (strings_HasPrefix (filepath_Base (fi_Name fi)) ''sha256:'' \<or>
                    strings_HasPrefix (filepath_Base (fi_Name fi)) ''sha512:'')))"

definition copy_target :: "string \<Rightarrow> walk_entry \<Rightarrow> string \<times> nat" where
  "copy_target cacheDir e =
     (filepath_Join [cacheDir, we_path e], case we_Info e of Inl _ \<Rightarrow> 0 | Inr fi \<Rightarrow> Perm fi)"

definition fetch_error :: "cache_world \<Rightarrow> Build \<Rightarrow> (string \<Rightarrow> bool) \<Rightarrow> error option" where
  "fetch_error w b cmm =
     snd (fst (fetchBucket w (CacheSource b) cmm
                 [Os_Log (Debug (''populating cache from '' @ CacheSource b))]))"

section \<open>Concrete recipes and surroundings\<close>

text \<open>
  A recipe with a one-step pipeline and two subpackages, the second with an \<open>if\<close>;
  its variants are used to run the definitions on concrete inputs.
\<close>

definition example_Configuration :: Configuration where
  "example_Configuration =
     \<lparr>cfg_Package = \<lparr>pkg_Name = ''lib'', pkg_Version = ''1.0'', pkg_Epoch = 0,
                      pkg_TargetArchitecture = [], pkg_Timeout = 0, pkg_Checks = [],
                      pkg_Resources = None\<rparr>,
      cfg_Vars = Map.empty,
      cfg_Environment = \<lparr>Contents_Packages = [''busybox''], Environment = Map.empty\<rparr>,
      cfg_Pipeline = [''make''],
      cfg_Subpackages =
        [\<lparr>sp_Name = ''lib-doc'', sp_If = [], sp_Pipeline = [''split-doc''], sp_Checks = []\<rparr>,
         \<lparr>sp_Name = ''lib-dev'', sp_If = ''${{options.dev}} == true'', sp_Pipeline = [''split-dev''],
          sp_Checks = []\<rparr>],
      cfg_Options = Map.empty\<rparr>"

definition with_TargetArchitecture :: "string list \<Rightarrow> Configuration \<Rightarrow> Configuration" where
  "with_TargetArchitecture ta c = c\<lparr>cfg_Package := (cfg_Package c)\<lparr>pkg_TargetArchitecture := ta\<rparr>\<rparr>"

definition example_new_world :: "Configuration \<Rightarrow> new_world" where
  "example_new_world c =
     \<lparr>host_Architecture = ''amd64'',
      ToAPK = (\<lambda>a. if a = ''amd64'' then ''x86_64'' else a),
      filepath_Abs = (\<lambda>p. Inr (''/src/'' @ p)),
      Runner_TempDir = ''/tmp'',
      Runner_Name = ''bubblewrap'',
      Runner_TestUsability = True,
      GetAllRunners = ''[bubblewrap docker]'',
      os_MkdirTemp = (\<lambda>d p. Inr ''/tmp/melange-workspace-1''),
      os_Stat_succeeds = (\<lambda>p. p = ''melange.yaml''),
      ParseConfiguration = (\<lambda>b. Inr c),
      os_LookupEnv = (\<lambda>k. if k = ''SOURCE_DATE_EPOCH'' then Some ''42'' else None),
      util_SourceDateEpoch = (\<lambda>t. Inr 42)\<rparr>"

definition example_Build :: Build where
  "example_Build =
     (initial_Build (example_new_world example_Configuration))
       \<lparr>Configuration := example_Configuration, ConfigFile := ''melange.yaml'',
        WorkspaceDir := ''/w'', GuestDir := ''/g'', OutDir := ''/out'',
        CacheDir := ''/cache'', SourceDateEpoch := 5\<rparr>"

definition example_cfg_world :: "(string \<times> error option) \<Rightarrow> cfg_world" where
  "example_cfg_world resolved =
     \<lparr>os_Stat_IsDir = (\<lambda>p. if p = ''/cache'' then Inr True else if p = ''/file'' then Inr False
                          else Inl (External ''no such file or directory'')),
      realpath_Realpath = (\<lambda>p. resolved),
      DefaultWorkspaceDir = ''/home/build'',
      DefaultResolvConfPath = ''/etc/resolv.conf'',
      DefaultCacheDir = ''/var/cache/melange''\<rparr>"

definition with_Environment :: "(string \<rightharpoonup> string) \<Rightarrow> Build \<Rightarrow> Build" where
  "with_Environment env b =
     set_Environment ((cfg_Environment (Configuration b))\<lparr>Environment := env\<rparr>) b"

text \<open>What \<open>New\<close> returns in the concrete surroundings, with the example recipe.\<close>

definition built_Build :: Build where
  "built_Build =
     (initial_Build (example_new_world example_Configuration))
       \<lparr>WorkspaceDir := ''/tmp/melange-workspace-1'', ConfigFile := ''melange.yaml'',
        Configuration := example_Configuration, SourceDateEpoch := 42\<rparr>"

text \<open>A build whose recipe defines \<open>SOURCE_DATE_EPOCH\<close> in its environment.\<close>

definition epoch_override_Build :: Build where
  "epoch_override_Build = with_Environment [''SOURCE_DATE_EPOCH'' \<mapsto> ''0''] example_Build"

text \<open>
  A workspace in which \<open>libfoo.so\<close> is already a symlink to \<open>libfoo.so.1\<close>, and a
  stream of three entries: a directory, that same symlink, and a FIFO.
\<close>

definition example_fs_world :: "tar_stream option \<Rightarrow> fs_world" where
  "example_fs_world s =
     \<lparr>fs_fails = (\<lambda>tr e. None),
      fs_Stat = (\<lambda>tr p. Inl (External ''no such file or directory'')),
      fs_Readlink = (\<lambda>tr p. if p = ''melange-out/lib/libfoo.so'' then Inr ''libfoo.so.1''
                            else Inl (External ''invalid argument'')),
      tar_FileMode = Mode,
      Runner_WorkspaceTar = Inr s\<rparr>"

definition dir_entry :: "tar_Header \<times> string" where
  "dir_entry = (\<lparr>Typeflag = CHR ''5'', Name = ''melange-out'', Linkname = [], Size = 0,
                  Mode = 493, PAXRecords = []\<rparr>, [])"

definition symlink_entry :: "tar_Header \<times> string" where
  "symlink_entry = (\<lparr>Typeflag = CHR ''2'', Name = ''melange-out/lib/libfoo.so'',
                      Linkname = ''libfoo.so.1'', Size = 0, Mode = 511,
                      PAXRecords = [(''SCHILY.xattr.user.test'', ''hello'')]\<rparr>, [])"

definition fifo_entry :: "tar_Header \<times> string" where
  "fifo_entry = (\<lparr>Typeflag = CHR ''6'', Name = ''melange-out/lib/fifo'', Linkname = [], Size = 0,
                   Mode = 420, PAXRecords = []\<rparr>, [])"

definition example_stream :: tar_stream where
  "example_stream = \<lparr>gzip_error = None, entries = [dir_entry, symlink_entry, fifo_entry],
                      end_error = None\<rparr>"

text \<open>
  Surroundings in which every call succeeds, the linter reports the given warnings
  for every target, and the condition of \<open>lib-dev\<close> is false (the option is not set).
\<close>

definition example_evaluator :: evaluator where
  "example_evaluator =
     \<lparr>MutateWith = (\<lambda>pb m. Inr m),
      cond_Evaluate = (\<lambda>expr lookup. case lookup ''options.dev'' of
                                         Inl e \<Rightarrow> Inl e
                                       | Inr v \<Rightarrow> Inr (v = ''true''))\<rparr>"

definition example_world :: "error list \<Rightarrow> world" where
  "example_world warnings =
     \<lparr>w_eval = example_evaluator,
      w_cfg = example_cfg_world (''/cache'', None),
      arch_ToAPK = (\<lambda>a. if a = ''amd64'' then ''x86_64'' else a),
      TempDir = ''/tmp'',
      fails = (\<lambda>tr e. None),
      MkdirTemp_result = (\<lambda>tr. ''/tmp/melange-guest-1''),
      BuildGuest_result = (\<lambda>tr. ''melange:img''),
      ApplyNeeds_result = (\<lambda>tr p env. env),
      LintBuild_warnings = (\<lambda>tr n p l. warnings)\<rparr>"

text \<open>The example recipe without its top-level pipeline: a build-less build.\<close>

definition buildless_Build :: Build where
  "buildless_Build =
     example_Build\<lparr>Configuration := example_Configuration\<lparr>cfg_Pipeline := []\<rparr>, GenerateIndex := True\<rparr>"

section \<open>What a run of BuildPackage did\<close>

text \<open>
  The calls of a run that the properties below are about, in their order: the guest
  build, the cache population, the start and the termination of the pod, the
  pipeline steps that ran, the lint targets, the SBOM requests, the emitted packages
  (\<open>None\<close> is the main package) and the file list given to the indexer.
\<close>

datatype obs =
    GuestBuilt
  | CachePopulated
  | PodStarted
  | PodTerminated
  | Ran Pipeline "Subpackage option"
  | Linted linterTarget
  | SBOMGenerated SBOM_Spec
  | Emitted "Subpackage option"
  | Indexed "string list"

fun observe :: "event \<Rightarrow> obs list" where
  "observe Ev_BuildGuest = [GuestBuilt]"
| "observe Ev_PopulateCache = [CachePopulated]"
| "observe (Ev_StartPod r) = [PodStarted]"
| "observe Ev_TerminatePod = [PodTerminated]"
| "observe (Ev_Run p sp) = [Ran p sp]"
| "observe (Ev_LintBuild n p c) = [Linted \<lparr>pkgName = n, checks = c\<rparr>]"
| "observe (Ev_GenerateSBOM s) = [SBOMGenerated s]"
| "observe (Ev_Emit sp) = [Emitted sp]"
| "observe (Ev_index_New files k i) = [Indexed files]"
| "observe _ = []"

definition observed :: "event list \<Rightarrow> obs list" where
  "observed tr = concat (map observe tr)"

text \<open>The projections of a run on one kind of call.\<close>

fun ran_of :: "obs \<Rightarrow> (Pipeline \<times> Subpackage option) list" where
  "ran_of (Ran p sp) = [(p, sp)]" | "ran_of _ = []"

fun linted_of :: "obs \<Rightarrow> linterTarget list" where
  "linted_of (Linted lt) = [lt]" | "linted_of _ = []"

fun sbom_of :: "obs \<Rightarrow> SBOM_Spec list" where
  "sbom_of (SBOMGenerated s) = [s]" | "sbom_of _ = []"

fun emitted_of :: "obs \<Rightarrow> Subpackage option list" where
  "emitted_of (Emitted sp) = [sp]" | "emitted_of _ = []"

fun indexed_of :: "obs \<Rightarrow> string list list" where
  "indexed_of (Indexed files) = [files]" | "indexed_of _ = []"

fun container_of :: "obs \<Rightarrow> obs list" where
  "container_of GuestBuilt = [GuestBuilt]"
| "container_of CachePopulated = [CachePopulated]"
| "container_of PodStarted = [PodStarted]"
| "container_of PodTerminated = [PodTerminated]"
| "container_of _ = []"

definition pipelines_run :: "event list \<Rightarrow> (Pipeline \<times> Subpackage option) list" where
  "pipelines_run tr = concat (map ran_of (observed tr))"

definition lint_targets :: "event list \<Rightarrow> linterTarget list" where
  "lint_targets tr = concat (map linted_of (observed tr))"

definition sbom_requests :: "event list \<Rightarrow> SBOM_Spec list" where
  "sbom_requests tr = concat (map sbom_of (observed tr))"

definition emitted_packages :: "event list \<Rightarrow> Subpackage option list" where
  "emitted_packages tr = concat (map emitted_of (observed tr))"

definition index_lists :: "event list \<Rightarrow> string list list" where
  "index_lists tr = concat (map indexed_of (observed tr))"

definition container_calls :: "event list \<Rightarrow> obs list" where
  "container_calls tr = concat (map container_of (observed tr))"

text \<open>
  The decision of \<open>ShouldRun\<close> for a subpackage, on the build as it is after the
  preparation; the build then differs from the one \<open>BuildPackage\<close> was given in its
  guest directory, in the environment that \<open>ApplyNeeds\<close> patched and in the memo of
  the container configuration only.
\<close>

definition in_scope :: "world \<Rightarrow> Build \<Rightarrow> Subpackage \<Rightarrow> bool" where
  "in_scope w b sp = (ShouldRun (w_eval w) (mk_pb b (Some sp)) sp = Inr True)"

definition recipe_view :: "Build \<Rightarrow> Build" where
  "recipe_view b =
     b\<lparr>GuestDir := [], containerConfig := None,
       Configuration := (Configuration b)
         \<lparr>cfg_Environment := cfg_Environment empty_Configuration\<rparr>\<rparr>"

definition patched :: "Build \<Rightarrow> Build \<Rightarrow> bool" where
  "patched b b' = (recipe_view b' = recipe_view b)"

definition Subpackages :: "Build \<Rightarrow> Subpackage list" where
  "Subpackages b = cfg_Subpackages (Configuration b)"

definition main_target :: "Build \<Rightarrow> linterTarget" where
  "main_target b = \<lparr>pkgName = pkg_Name (cfg_Package (Configuration b)),
                    checks = pkg_Checks (cfg_Package (Configuration b))\<rparr>"

definition sub_target :: "Subpackage \<Rightarrow> linterTarget" where
  "sub_target sp = \<lparr>pkgName = sp_Name sp, checks = sp_Checks sp\<rparr>"

definition main_sbom :: "world \<Rightarrow> Build \<Rightarrow> SBOM_Spec" where
  "main_sbom w b = sbom_spec w b (pkg_Name (cfg_Package (Configuration b)))"

definition sub_sbom :: "world \<Rightarrow> Build \<Rightarrow> Subpackage \<Rightarrow> SBOM_Spec" where
  "sub_sbom w b sp = sbom_spec w b (sp_Name sp)"

definition apk_path :: "world \<Rightarrow> Build \<Rightarrow> string \<Rightarrow> string" where
  "apk_path w b name = filepath_Join [packageDir w b, apk_file_name b name]"

definition sub_runs :: "Subpackage \<Rightarrow> (Pipeline \<times> Subpackage option) list" where
  "sub_runs sp = map (\<lambda>p. (p, Some sp)) (sp_Pipeline sp)"

text \<open>
  The calls of a run that returns \<open>nil\<close>, as they follow from the source: \<open>b\<close> is
  the build given to \<open>BuildPackage\<close> and \<open>b'\<close> the build after the preparation.
\<close>

definition expected_run :: "world \<Rightarrow> Build \<Rightarrow> Build \<Rightarrow> obs list" where
  "expected_run w b b' =
     (let scope = filter (in_scope w b') (Subpackages b);
          queued = (if IsBuildLess b then Subpackages b else scope)
      in (if IsBuildLess b then []
          else [GuestBuilt, CachePopulated, PodStarted] @
               map (\<lambda>p. Ran p None) (cfg_Pipeline (Configuration b)) @
               concat (map (\<lambda>sp. map (\<lambda>p. Ran p (Some sp)) (sp_Pipeline sp)) scope)) @
         map Linted ((if IsBuildLess b then [] else [main_target b]) @ map sub_target queued) @
         map (\<lambda>sp. SBOMGenerated (sub_sbom w b sp)) queued @
         [SBOMGenerated (main_sbom w b), Emitted None] @
         map (\<lambda>sp. Emitted (Some sp)) scope @
         (if GenerateIndex b
          then [Indexed (apk_path w b (pkg_Name (cfg_Package (Configuration b))) #
                         map (\<lambda>sp. apk_path w b (sp_Name sp)) scope)]
          else []) @
         (if IsBuildLess b \<or> DebugRunner b then [] else [PodTerminated]))"

text \<open>The two subpackages of the example recipe, and a strict build of it.\<close>

definition lib_doc :: Subpackage where
  "lib_doc = \<lparr>sp_Name = ''lib-doc'', sp_If = [], sp_Pipeline = [''split-doc''], sp_Checks = []\<rparr>"

definition lib_dev :: Subpackage where
  "lib_dev = \<lparr>sp_Name = ''lib-dev'', sp_If = ''${{options.dev}} == true'',
               sp_Pipeline = [''split-dev''], sp_Checks = []\<rparr>"

definition strict_Build :: Build where
  "strict_Build = example_Build\<lparr>FailOnLintWarning := True\<rparr>"

definition usrmerge_warning :: error where
  "usrmerge_warning = External ''usrmerge: package writes to /sbin''"

text \<open>
  The calls that a build-less run may make, given the lint targets of its
  subpackages: no call of the container path, no pipeline step, no other lint.
\<close>

definition buildless_call :: "linterTarget list \<Rightarrow> event \<Rightarrow> bool" where
  "buildless_call ts e =
     (case e of
        Ev_BuildGuest \<Rightarrow> False
      | Ev_PopulateCache \<Rightarrow> False
      | Ev_StartPod _ \<Rightarrow> False
      | Ev_TerminatePod \<Rightarrow> False
      | Ev_Run _ _ \<Rightarrow> False
      | Ev_LintBuild n p c \<Rightarrow> \<lparr>pkgName = n, checks = c\<rparr> \<in> set ts
      | _ \<Rightarrow> True)"

text \<open>
  A bucket with two digest objects and a \<open>README\<close>, a recipe that needs the first
  digest and (by mistake) the \<open>README\<close>, and the staging directory as the walk finds
  it after the fetch.
\<close>

definition example_cache_world :: cache_world where
  "example_cache_world =
     \<lparr>os_fails = (\<lambda>tr e. None),
      MkdirTemp_path = ''/tmp/melange-cache1'',
      bucket_objects = (\<lambda>bucket prefix. ([''sha256:aaa'', ''sha256:bbb'', ''README''], None)),
      cacheItemsForBuild = (\<lambda>f. Inr (\<lambda>n. n = ''sha256:aaa'' \<or> n = ''README'')),
      staging_missing = False,
      WalkDir_entries = (\<lambda>tmp.
        [\<lparr>we_path = ''.'', we_err = None,
          we_Info = Inr \<lparr>fi_Name = ''.'', IsRegular = False, Perm = 448\<rparr>\<rparr>,
         \<lparr>we_path = ''README'', we_err = None,
          we_Info = Inr \<lparr>fi_Name = ''README'', IsRegular = True, Perm = 420\<rparr>\<rparr>,
         \<lparr>we_path = ''sha256:aaa'', we_err = None,
          we_Info = Inr \<lparr>fi_Name = ''sha256:aaa'', IsRegular = True, Perm = 420\<rparr>\<rparr>])\<rparr>"

definition cached_Build :: Build where
  "cached_Build = example_Build\<lparr>CacheSource := ''gs://bucket/''\<rparr>"

text \<open>
  The same bucket for a recipe that needs both digests, when the reader of the
  second object cannot be opened.
\<close>

definition failing_cache_world :: cache_world where
  "failing_cache_world =
     example_cache_world
       \<lparr>os_fails := (\<lambda>tr e. if e = Os_NewReader ''sha256:bbb''
                            then Some (External ''storage: connection reset'') else None),
        cacheItemsForBuild := (\<lambda>f. Inr (\<lambda>n. n = ''sha256:aaa'' \<or> n = ''sha256:bbb''))\<rparr>"
section \<open>Theorems\<close>

subsection \<open>Construction: the target architectures\<close>

text \<open>The only error of \<open>ApplyBuildOption\<close> is the index panic of its inner loop.\<close>

lemma rr_panic: "remove_range pkg ps st = Inl e \<Longrightarrow> e = RuntimePanic ''index out of range''"
  by (induction pkg ps st rule: remove_range.induct) (auto split: if_splits)

lemma rp_panic: "remove_packages rm ps = Inl e \<Longrightarrow> e = RuntimePanic ''index out of range''"
  by (induction rm ps rule: remove_packages.induct) (auto split: sum.splits dest: rr_panic)

lemma abo_panic: "ApplyBuildOption b bo = Inl e \<Longrightarrow> e = RuntimePanic ''index out of range''"
  by (auto simp: ApplyBuildOption_def Let_def split: sum.splits dest: rp_panic)

lemma abos_panic: "apply_build_options ns b = (Inl e, lg) \<Longrightarrow> e = RuntimePanic ''index out of range''"
  by (induction ns arbitrary: b lg) (auto simp: Let_def split: option.splits sum.splits prod.splits dest: abo_panic)

lemma New_finish_not_skip:
  assumes "\<forall>t. util_SourceDateEpoch w t \<noteq> Inl ErrSkipThisArch"
  shows "fst (New_finish w b) \<noteq> Inl ErrSkipThisArch"
proof
  assume a: "fst (New_finish w b) = Inl ErrSkipThisArch"
  obtain lg where "New_finish w b = (Inl ErrSkipThisArch, lg)"
    using a by (cases "New_finish w b") auto
  then show False
    using assms
    by (auto simp: New_finish_def split: if_splits sum.splits dest: abos_panic)
qed

lemma New_checked_skip:
  assumes "\<forall>t. util_SourceDateEpoch w t \<noteq> Inl ErrSkipThisArch"
  shows "(fst (New_checked w b) = Inl ErrSkipThisArch) =
           (pkg_TargetArchitecture (cfg_Package (Configuration b)) \<noteq> [] \<and>
            pkg_TargetArchitecture (cfg_Package (Configuration b)) \<noteq> [''all''] \<and>
            ToAPK w (Arch b) \<notin> set (pkg_TargetArchitecture (cfg_Package (Configuration b))))"
proof -
  let ?ta = "pkg_TargetArchitecture (cfg_Package (Configuration b))"
  have one: "(length ?ta = 1 \<and> ?ta ! 0 = ''all'') = (?ta = [''all''])"
    by (cases ?ta) auto
  show ?thesis
    using New_finish_not_skip[OF assms, of b]
    unfolding New_checked_def Let_def one
    by (auto split: prod.splits)
qed

text \<open>
  Claim C8. When \<open>New\<close> has parsed the recipe, it returns the sentinel
  \<open>ErrSkipThisArch\<close> exactly when the recipe's target-architecture list is not
  empty, is not the one-element list \<open>["all"]\<close> and does not hold the APK name of
  the build's architecture; on \<open>["all"]\<close> it logs the deprecation warning and goes
  on with the rest of the construction. The epoch parser lives in another package
  and cannot return the sentinel of this one, which is the first hypothesis.
\<close>

theorem C8_skip_this_arch:
  assumes "\<forall>t. util_SourceDateEpoch w t \<noteq> Inl ErrSkipThisArch"
    and "apply_opts opts (initial_Build w) = Inr b0"
    and "resolve_WorkspaceDir w b0 = Inr b1"
    and "detect_ConfigFile w b1 = (b2, lg)"
    and "ConfigFile b2 \<noteq> []"
    and "ParseConfiguration w b2 = Inr c"
  shows "(fst (New w opts) = Inl ErrSkipThisArch) =
           (pkg_TargetArchitecture (cfg_Package c) \<noteq> [] \<and>
            pkg_TargetArchitecture (cfg_Package c) \<noteq> [''all''] \<and>
            ToAPK w (Arch b2) \<notin> set (pkg_TargetArchitecture (cfg_Package c)))
         \<and> (pkg_TargetArchitecture (cfg_Package c) = [''all''] \<longrightarrow>
              New w opts = (fst (New_finish w (b2\<lparr>Configuration := c\<rparr>)),
                            lg @ deprecation_warning # snd (New_finish w (b2\<lparr>Configuration := c\<rparr>))))"
proof -
  have New_eq: "New w opts =
      (fst (New_checked w (b2\<lparr>Configuration := c\<rparr>)), lg @ snd (New_checked w (b2\<lparr>Configuration := c\<rparr>)))"
    using assms(2-6) by (simp add: New_def split: prod.splits)
  have "(fst (New w opts) = Inl ErrSkipThisArch) =
           (pkg_TargetArchitecture (cfg_Package c) \<noteq> [] \<and>
            pkg_TargetArchitecture (cfg_Package c) \<noteq> [''all''] \<and>
            ToAPK w (Arch b2) \<notin> set (pkg_TargetArchitecture (cfg_Package c)))"
    using New_checked_skip[OF assms(1), of "b2\<lparr>Configuration := c\<rparr>"] by (simp add: New_eq)
  moreover have "pkg_TargetArchitecture (cfg_Package c) = [''all''] \<longrightarrow>
              New w opts = (fst (New_finish w (b2\<lparr>Configuration := c\<rparr>)),
                            lg @ deprecation_warning # snd (New_finish w (b2\<lparr>Configuration := c\<rparr>)))"
    by (auto simp: New_eq New_checked_def split: prod.splits)
  ultimately show ?thesis by blast
qed

text \<open>The steps of \<open>New\<close> before the parse, in the concrete surroundings.\<close>

lemma ex_prefix:
  "apply_opts [] (initial_Build (example_new_world c)) = Inr (initial_Build (example_new_world c))"
  "resolve_WorkspaceDir (example_new_world c) (initial_Build (example_new_world c)) =
     Inr ((initial_Build (example_new_world c))\<lparr>WorkspaceDir := ''/tmp/melange-workspace-1''\<rparr>)"
  "detect_ConfigFile (example_new_world c) ((initial_Build (example_new_world c))\<lparr>WorkspaceDir := ''/tmp/melange-workspace-1''\<rparr>) =
     ((initial_Build (example_new_world c))\<lparr>WorkspaceDir := ''/tmp/melange-workspace-1'', ConfigFile := ''melange.yaml''\<rparr>,
      [Info ''no configuration file provided -- using melange.yaml''])"
  "ParseConfiguration (example_new_world c) b = Inr c"
  "\<forall>t. util_SourceDateEpoch (example_new_world c) t \<noteq> Inl ErrSkipThisArch"
  by (simp_all add: example_new_world_def initial_Build_def resolve_WorkspaceDir_def detect_ConfigFile_def)

theorem C8_witness:
  "fst (New (example_new_world (with_TargetArchitecture [''aarch64''] example_Configuration)) []) = Inl ErrSkipThisArch
   \<and> fst (New (example_new_world (with_TargetArchitecture [''all''] example_Configuration)) []) \<noteq> Inl ErrSkipThisArch
   \<and> deprecation_warning \<in> set (snd (New (example_new_world (with_TargetArchitecture [''all''] example_Configuration)) []))"
proof -
  let ?c1 = "with_TargetArchitecture [''aarch64''] example_Configuration"
  let ?c2 = "with_TargetArchitecture [''all''] example_Configuration"
  have cf: "\<And>c. ConfigFile ((initial_Build (example_new_world c))\<lparr>WorkspaceDir := ''/tmp/melange-workspace-1'', ConfigFile := ''melange.yaml''\<rparr>) \<noteq> []"
    by simp
  note t1 = C8_skip_this_arch[OF ex_prefix(5) ex_prefix(1) ex_prefix(2) ex_prefix(3) cf ex_prefix(4), of ?c1]
  note t2 = C8_skip_this_arch[OF ex_prefix(5) ex_prefix(1) ex_prefix(2) ex_prefix(3) cf ex_prefix(4), of ?c2]
  have a1: "pkg_TargetArchitecture (cfg_Package ?c1) = [''aarch64'']"
    and a2: "pkg_TargetArchitecture (cfg_Package ?c2) = [''all'']"
    by (simp_all add: with_TargetArchitecture_def)
  have arch: "\<And>c. ToAPK (example_new_world c) (Arch ((initial_Build (example_new_world c))\<lparr>WorkspaceDir := ''/tmp/melange-workspace-1'', ConfigFile := ''melange.yaml''\<rparr>)) = ''x86_64''"
    by (simp add: example_new_world_def initial_Build_def)
  from t1 a1 arch have "fst (New (example_new_world ?c1) []) = Inl ErrSkipThisArch" by simp
  moreover from t2[THEN conjunct1] a2 have "fst (New (example_new_world ?c2) []) \<noteq> Inl ErrSkipThisArch"
    by simp
  moreover from t2[THEN conjunct2] a2 have "deprecation_warning \<in> set (snd (New (example_new_world ?c2) []))"
    by simp
  ultimately show ?thesis by blast
qed

subsection \<open>Build options: the removal loop\<close>

text \<open>
  A position that the range has still to visit, that lies at or beyond the current
  length and that holds the name to remove, makes the loop panic.
\<close>

lemma remove_range_panics_later:
  "sorted_wrt (<) rest \<Longrightarrow> i \<in> set rest \<Longrightarrow> len \<le> i \<Longrightarrow> arr ! i = pkg \<Longrightarrow>
   \<exists>e. remove_range pkg rest (arr, len) = Inl e"
proof (induction rest arbitrary: arr len)
  case Nil
  then show ?case by simp
next
  case (Cons p rest)
  show ?case
  proof (cases "i = p")
    case True
    with Cons.prems show ?thesis by simp
  next
    case False
    with Cons.prems have i: "i \<in> set rest" "p < i" and s: "sorted_wrt (<) rest" by auto
    show ?thesis
    proof (cases "pkg = arr ! p \<and> p < len")
      case True
      have "(arr[p := arr ! (len - 1)]) ! i = pkg" using i(2) Cons.prems(4) by simp
      moreover have "len - 1 \<le> i" using Cons.prems by simp
      ultimately have "\<exists>e. remove_range pkg rest (arr[p := arr ! (len - 1)], len - 1) = Inl e"
        using Cons.IH[OF s i(1)] by blast
      with True show ?thesis by simp
    next
      case False
      then show ?thesis using Cons.IH[OF s i(1) Cons.prems(3) Cons.prems(4)] by auto
    qed
  qed
qed

text \<open>
  When the loop returns, the name is gone from the slice, and the slice holds only
  elements it held before.
\<close>

lemma remove_range_returns:
  "sorted_wrt (<) rest \<Longrightarrow> len \<le> length arr \<Longrightarrow>
   (\<And>i. i < len \<Longrightarrow> i \<in> set rest \<or> arr ! i \<noteq> pkg) \<Longrightarrow>
   remove_range pkg rest (arr, len) = Inr (arr', len') \<Longrightarrow>
   len' \<le> length arr' \<and> pkg \<notin> set (take len' arr') \<and> set (take len' arr') \<subseteq> set (take len arr)"
proof (induction rest arbitrary: arr len)
  case Nil
  then have "arr' = arr" "len' = len" by auto
  moreover have "pkg \<notin> set (take len arr)"
    using Nil.prems(2,3) by (auto simp: in_set_conv_nth)
  ultimately show ?case using Nil.prems(2) by simp
next
  case (Cons p rest)
  from Cons.prems(1) have s: "sorted_wrt (<) rest" and plt: "\<And>j. j \<in> set rest \<Longrightarrow> p < j" by auto
  show ?case
  proof (cases "pkg = arr ! p")
    case False
    then have run: "remove_range pkg rest (arr, len) = Inr (arr', len')"
      using Cons.prems(4) by simp
    have inv: "\<And>i. i < len \<Longrightarrow> i \<in> set rest \<or> arr ! i \<noteq> pkg"
      using Cons.prems(3) False by auto
    show ?thesis using Cons.IH[OF s Cons.prems(2) inv run] by simp
  next
    case True
    with Cons.prems(4) have p: "p < len"
      by (auto split: if_splits)
    let ?arr = "arr[p := arr ! (len - 1)]"
    from True p Cons.prems(4) have run: "remove_range pkg rest (?arr, len - 1) = Inr (arr', len')"
      by simp
    have inv: "i \<in> set rest \<or> ?arr ! i \<noteq> pkg" if i: "i < len - 1" for i
    proof (cases "i = p")
      case False
      then show ?thesis using Cons.prems(3)[of i] i by auto
    next
      case ip: True
      have "arr ! (len - 1) \<noteq> pkg"
      proof
        assume last: "arr ! (len - 1) = pkg"
        have "len - 1 < len" using p by simp
        then have "len - 1 \<in> set (p # rest)" using Cons.prems(3)[of "len - 1"] last by blast
        then have mem: "len - 1 \<in> set rest" using i ip by auto
        have "?arr ! (len - 1) = pkg" using last i ip by simp
        then have "\<exists>e. remove_range pkg rest (?arr, len - 1) = Inl e"
          using remove_range_panics_later[OF s mem] by blast
        with run show False by simp
      qed
      then show ?thesis using ip Cons.prems(2) p by simp
    qed
    have len: "len - 1 \<le> length ?arr" using Cons.prems(2) by simp
    have sub: "set (take (len - 1) ?arr) \<subseteq> set (take len arr)"
    proof
      fix x assume "x \<in> set (take (len - 1) ?arr)"
      then obtain i where i: "i < len - 1" "x = ?arr ! i"
        using Cons.prems(2) by (auto simp: in_set_conv_nth)
      show "x \<in> set (take len arr)"
      proof (cases "i = p")
        case True
        then have "x = arr ! (len - 1)" using i Cons.prems(2) p by simp
        moreover have "len - 1 < len" using p by simp
        ultimately show ?thesis using Cons.prems(2) by (auto simp: in_set_conv_nth intro!: exI[of _ "len - 1"])
      next
        case False
        then have "x = arr ! i" using i by simp
        then show ?thesis using i Cons.prems(2) by (auto simp: in_set_conv_nth intro!: exI[of _ i])
      qed
    qed
    show ?thesis using Cons.IH[OF s len inv run] sub by blast
  qed
qed

lemma remove_packages_returns:
  "remove_packages rm ps = Inr ps' \<Longrightarrow> set ps' \<subseteq> set ps - set rm"
proof (induction rm arbitrary: ps)
  case Nil
  then show ?case by simp
next
  case (Cons pkg rm)
  from Cons.prems obtain arr len where
    run: "remove_range pkg [0 ..< length ps] (ps, length ps) = Inr (arr, len)"
    and rest: "remove_packages rm (take len arr) = Inr ps'"
    by (auto split: sum.splits)
  have "pkg \<notin> set (take len arr) \<and> set (take len arr) \<subseteq> set (take (length ps) ps)"
    using remove_range_returns[OF _ _ _ run] by (simp add: sorted_wrt_upt)
  with Cons.IH[OF rest] show ?case by auto
qed

text \<open>
  When \<open>ApplyBuildOption\<close> returns (it does not panic), the package list is within
  the original list and the additions, less the names to remove.
\<close>

lemma ApplyBuildOption_returns:
  assumes "ApplyBuildOption b bo = Inr b'"
  shows "set (Packages b') \<subseteq> (set (Packages b) \<union> set (bo_Add bo)) - set (bo_Remove bo)"
proof -
  from assms obtain ps where
    "remove_packages (bo_Remove bo) (Packages b @ bo_Add bo) = Inr ps" "Packages b' = ps"
    by (auto simp: ApplyBuildOption_def Let_def Packages_def set_Packages_def split: sum.splits)
  then show ?thesis using remove_packages_returns by fastforce
qed

text \<open>
  Claim C4. The claim says that a removal never fails and that every occurrence of
  a removed name is gone. On the package list \<open>gcc, busybox, busybox\<close> the removal of
  \<open>busybox\<close> does not return: the second match shortens the slice to two elements,
  and the third position of the range indexes it out of range.
\<close>

theorem C4_removal_of_duplicate_panics:
  "ApplyBuildOption (set_Packages [''gcc'', ''busybox'', ''busybox''] example_Build)
     \<lparr>bo_Vars = Map.empty, bo_Add = [], bo_Remove = [''busybox'']\<rparr>
   = Inl (RuntimePanic ''index out of range'')"
  by (simp add: ApplyBuildOption_def Packages_def set_Packages_def upt_rec)

subsection \<open>The container configuration\<close>

lemma ApplyBuildOption_SourceDateEpoch:
  "ApplyBuildOption b bo = Inr b' \<Longrightarrow> SourceDateEpoch b' = SourceDateEpoch b"
  by (auto simp: ApplyBuildOption_def Let_def set_Packages_def split: sum.splits)

lemma apply_build_options_SourceDateEpoch:
  "apply_build_options ns b = (Inr b', lg) \<Longrightarrow> SourceDateEpoch b' = SourceDateEpoch b"
  by (induction ns arbitrary: b lg)
     (auto simp: Let_def split: option.splits sum.splits prod.splits
           dest: ApplyBuildOption_SourceDateEpoch)

lemma New_finish_SourceDateEpoch:
  assumes "fst (New_finish w b0) = Inr b"
  shows "(os_LookupEnv w ''SOURCE_DATE_EPOCH'' = None \<longrightarrow> SourceDateEpoch b = SourceDateEpoch b0) \<and>
         (os_LookupEnv w ''SOURCE_DATE_EPOCH'' \<noteq> None \<longrightarrow>
            util_SourceDateEpoch w (SourceDateEpoch b0) = Inr (SourceDateEpoch b))"
proof -
  obtain lg where r: "New_finish w b0 = (Inr b, lg)"
    using assms by (cases "New_finish w b0") auto
  show ?thesis
  proof (cases "os_LookupEnv w ''SOURCE_DATE_EPOCH'' = None")
    case True
    with r have "apply_build_options (EnabledBuildOptions b0) b0 = (Inr b, lg)"
      by (auto simp: New_finish_def split: if_splits)
    from apply_build_options_SourceDateEpoch[OF this] True show ?thesis by simp
  next
    case False
    with r obtain t where t: "util_SourceDateEpoch w (SourceDateEpoch b0) = Inr t"
      and "apply_build_options (EnabledBuildOptions (b0\<lparr>SourceDateEpoch := t\<rparr>)) (b0\<lparr>SourceDateEpoch := t\<rparr>) = (Inr b, lg)"
      by (auto simp: New_finish_def split: if_splits sum.splits)
    from apply_build_options_SourceDateEpoch[OF this(2)] have "SourceDateEpoch b = t" by simp
    with t False show ?thesis by auto
  qed
qed

lemma New_checked_Inr:
  "fst (New_checked w b0) = Inr b \<Longrightarrow> fst (New_finish w b0) = Inr b"
  by (auto simp: New_checked_def Let_def split: if_splits prod.splits)

lemma buildWorkspaceConfig_epoch:
  "\<not> IsBuildLess b \<Longrightarrow>
   cc_Environment (fst (buildWorkspaceConfig cw b)) ''SOURCE_DATE_EPOCH'' =
     (case Environment (cfg_Environment (Configuration b)) ''SOURCE_DATE_EPOCH'' of
        None \<Rightarrow> Some (show_int (SourceDateEpoch b))
      | Some v \<Rightarrow> Some v)"
  by (auto simp: buildWorkspaceConfig_def Let_def map_add_def split: prod.splits option.splits)

text \<open>Reading a decimal text inverts the verb \<open>%d\<close>.\<close>

lemma digit_cases: "d < 10 \<Longrightarrow> d = 0 \<or> d = 1 \<or> d = 2 \<or> d = 3 \<or> d = 4 \<or> d = 5 \<or> d = 6 \<or> d = 7 \<or> d = 8 \<or> d = (9::nat)"
  by arith

lemma of_char_digit: "d < 10 \<Longrightarrow> of_char (digit_char d) = (48 + d :: nat)"
  by (drule digit_cases) (elim disjE; simp add: digit_char_def)

lemma digit_char_not_sign: "d < 10 \<Longrightarrow> digit_char d \<noteq> CHR ''-'' \<and> digit_char d \<noteq> CHR ''+''"
  by (drule digit_cases) (elim disjE; simp add: digit_char_def)

lemma read_digits_append:
  "read_digits (xs @ ys) acc = (case read_digits xs acc of None \<Rightarrow> None | Some m \<Rightarrow> read_digits ys m)"
  by (induction xs arbitrary: acc) simp_all

lemma show_nat_small: "n < 10 \<Longrightarrow> show_nat n = [digit_char n]"
  by (subst show_nat.simps) (simp del: show_nat.simps)

lemma show_nat_large: "\<not> n < 10 \<Longrightarrow> show_nat n = show_nat (n div 10) @ [digit_char (n mod 10)]"
  by (subst show_nat.simps) (simp del: show_nat.simps)

lemma show_nat_digits:
  "show_nat n \<noteq> [] \<and> hd (show_nat n) \<noteq> CHR ''-'' \<and> hd (show_nat n) \<noteq> CHR ''+'' \<and>
   read_digits (show_nat n) 0 = Some n"
proof (induction n rule: show_nat.induct)
  case (1 n)
  show ?case
  proof (cases "n < 10")
    case True
    then show ?thesis
      using digit_char_not_sign[of n] of_char_digit[of n]
      by (simp add: show_nat_small del: show_nat.simps)
  next
    case False
    have m: "n mod 10 < 10" by simp
    have n: "10 * (n div 10) + n mod 10 = n" by simp
    from False 1 have ih: "show_nat (n div 10) \<noteq> []" "hd (show_nat (n div 10)) \<noteq> CHR ''-''"
      "hd (show_nat (n div 10)) \<noteq> CHR ''+''" "read_digits (show_nat (n div 10)) 0 = Some (n div 10)"
      by simp_all
    show ?thesis
      using ih of_char_digit[OF m] n
      by (simp add: show_nat_large[OF False] read_digits_append del: show_nat.simps)
  qed
qed

lemma read_int_show_int: "read_int (show_int i) = Some i"
proof (cases "i < 0")
  case True
  then show ?thesis
    using show_nat_digits[of "nat (- i)"]
    by (simp add: read_int_def show_int_def read_nat_def del: show_nat.simps)
next
  case False
  then show ?thesis
    using show_nat_digits[of "nat i"]
    by (simp add: read_int_def show_int_def read_nat_def del: show_nat.simps)
qed

text \<open>
  Claim C5, as stated, fails: the entries of the recipe's environment are copied
  into the configuration after \<open>SOURCE_DATE_EPOCH\<close> is set, so a recipe that defines
  \<open>SOURCE_DATE_EPOCH\<close> itself overrides the epoch of the build (here \<open>5\<close>).
\<close>

theorem C5_counterexample:
  "\<not> IsBuildLess epoch_override_Build \<and>
   show_int (SourceDateEpoch epoch_override_Build) = ''5'' \<and>
   cc_Environment (fst (buildWorkspaceConfig (example_cfg_world (''/cache'', None))
     epoch_override_Build)) ''SOURCE_DATE_EPOCH'' = Some ''0''"
proof -
  let ?b = "epoch_override_Build"
  have nb: "\<not> IsBuildLess ?b"
    by (simp add: IsBuildLess_def epoch_override_Build_def with_Environment_def set_Environment_def
          example_Build_def example_Configuration_def)
  have "show_int (SourceDateEpoch ?b) = ''5''"
    by (simp add: epoch_override_Build_def with_Environment_def set_Environment_def example_Build_def
          show_int_def digit_char_def)
  moreover have "Environment (cfg_Environment (Configuration ?b)) ''SOURCE_DATE_EPOCH'' = Some ''0''"
    by (simp add: epoch_override_Build_def with_Environment_def set_Environment_def)
  ultimately show ?thesis
    using nb buildWorkspaceConfig_epoch[OF nb, of "example_cfg_world (''/cache'', None)"] by simp
qed

text \<open>
  Claim C5, amended. For a build that is not build-less, the entry
  \<open>SOURCE_DATE_EPOCH\<close> of the container configuration is the value the recipe's
  environment gives to that name, if it gives one, and otherwise the epoch of the
  build in decimal seconds. The epoch of a build made by \<open>New\<close> is the configured
  one when the process environment does not set \<open>SOURCE_DATE_EPOCH\<close>. When it does,
  the epoch is the time that \<open>util.SourceDateEpoch\<close> returns; that function is not
  part of \<open>build.go\<close>, and under its contract (a time it returns is the one that the
  value of the environment denotes) the value of the environment is the epoch of the
  build, whatever was configured.
\<close>

theorem C5_source_date_epoch:
  assumes "apply_opts opts (initial_Build w) = Inr b0"
    and "resolve_WorkspaceDir w b0 = Inr b1"
    and "detect_ConfigFile w b1 = (b2, lg)"
    and "ConfigFile b2 \<noteq> []"
    and "ParseConfiguration w b2 = Inr c"
    and "fst (New w opts) = Inr b"
    and "\<not> IsBuildLess b"
  shows "cc_Environment (fst (buildWorkspaceConfig cw b)) ''SOURCE_DATE_EPOCH'' =
           (case Environment (cfg_Environment (Configuration b)) ''SOURCE_DATE_EPOCH'' of
              None \<Rightarrow> Some (show_int (SourceDateEpoch b))
            | Some v \<Rightarrow> Some v)
         \<and> (os_LookupEnv w ''SOURCE_DATE_EPOCH'' = None \<longrightarrow> SourceDateEpoch b = SourceDateEpoch b2)
         \<and> (os_LookupEnv w ''SOURCE_DATE_EPOCH'' \<noteq> None \<longrightarrow>
              util_SourceDateEpoch w (SourceDateEpoch b2) = Inr (SourceDateEpoch b))
         \<and> ((\<forall>v t n. os_LookupEnv w ''SOURCE_DATE_EPOCH'' = Some v \<longrightarrow>
                      util_SourceDateEpoch w t = Inr n \<longrightarrow> read_int v = Some n) \<longrightarrow>
              (\<forall>v. os_LookupEnv w ''SOURCE_DATE_EPOCH'' = Some v \<longrightarrow>
                     read_int v = Some (SourceDateEpoch b)))"
proof -
  have "fst (New w opts) = fst (New_checked w (b2\<lparr>Configuration := c\<rparr>))"
    using assms(1-5) by (simp add: New_def split: prod.splits)
  with assms(6) have "fst (New_checked w (b2\<lparr>Configuration := c\<rparr>)) = Inr b" by simp
  then have "fst (New_finish w (b2\<lparr>Configuration := c\<rparr>)) = Inr b"
    by (rule New_checked_Inr)
  from New_finish_SourceDateEpoch[OF this]
  have unset: "os_LookupEnv w ''SOURCE_DATE_EPOCH'' = None \<longrightarrow> SourceDateEpoch b = SourceDateEpoch b2"
    and set: "os_LookupEnv w ''SOURCE_DATE_EPOCH'' \<noteq> None \<longrightarrow>
                util_SourceDateEpoch w (SourceDateEpoch b2) = Inr (SourceDateEpoch b)"
    by simp_all
  from set have wins: "(\<forall>v t n. os_LookupEnv w ''SOURCE_DATE_EPOCH'' = Some v \<longrightarrow>
                      util_SourceDateEpoch w t = Inr n \<longrightarrow> read_int v = Some n) \<longrightarrow>
              (\<forall>v. os_LookupEnv w ''SOURCE_DATE_EPOCH'' = Some v \<longrightarrow>
                     read_int v = Some (SourceDateEpoch b))"
    by (metis option.distinct(1))
  from buildWorkspaceConfig_epoch[OF assms(7)] unset set wins
  show ?thesis by blast
qed

theorem C5_witness:
  "fst (New (example_new_world example_Configuration) []) = Inr built_Build \<and>
   cc_Environment (fst (buildWorkspaceConfig (example_cfg_world (''/cache'', None)) built_Build))
     ''SOURCE_DATE_EPOCH'' = Some ''42'' \<and>
   os_LookupEnv (example_new_world example_Configuration) ''SOURCE_DATE_EPOCH'' = Some ''42'' \<and>
   read_int ''42'' = Some (SourceDateEpoch built_Build)"
proof -
  let ?w = "example_new_world example_Configuration"
  have cf: "ConfigFile ((initial_Build ?w)\<lparr>WorkspaceDir := ''/tmp/melange-workspace-1'', ConfigFile := ''melange.yaml''\<rparr>) \<noteq> []"
    by simp
  let ?b2 = "(initial_Build ?w)\<lparr>WorkspaceDir := ''/tmp/melange-workspace-1'',
                ConfigFile := ''melange.yaml'', Configuration := example_Configuration\<rparr>"
  have fin: "New_finish ?w ?b2 = (Inr built_Build, [])"
    by (simp add: New_finish_def example_new_world_def initial_Build_def built_Build_def)
  have ta: "pkg_TargetArchitecture (cfg_Package example_Configuration) = []"
    by (simp add: example_Configuration_def)
  have chk: "New_checked ?w ?b2 = (Inr built_Build, [])"
    by (simp add: New_checked_def fin ta)
  have new: "fst (New ?w []) = Inr built_Build"
    by (simp add: New_def ex_prefix chk)
  have nb: "\<not> IsBuildLess built_Build"
    by (simp add: IsBuildLess_def built_Build_def example_Configuration_def)
  have env: "Environment (cfg_Environment (Configuration built_Build)) ''SOURCE_DATE_EPOCH'' = None"
    by (simp add: built_Build_def example_Configuration_def)
  have sde: "show_int (SourceDateEpoch built_Build) = ''42''"
    by (simp add: built_Build_def show_int_def digit_char_def)
  have lk: "os_LookupEnv ?w ''SOURCE_DATE_EPOCH'' = Some ''42''"
    by (simp add: example_new_world_def)
  have parser: "\<forall>v t n. os_LookupEnv ?w ''SOURCE_DATE_EPOCH'' = Some v \<longrightarrow>
                  util_SourceDateEpoch ?w t = Inr n \<longrightarrow> read_int v = Some n"
    by (simp add: example_new_world_def read_int_def read_nat_def)
  from C5_source_date_epoch[OF ex_prefix(1) ex_prefix(2) ex_prefix(3) cf ex_prefix(4) new nb,
      of "example_cfg_world (''/cache'', None)"] parser lk
  have "cc_Environment (fst (buildWorkspaceConfig (example_cfg_world (''/cache'', None)) built_Build))
          ''SOURCE_DATE_EPOCH'' =
        (case Environment (cfg_Environment (Configuration built_Build)) ''SOURCE_DATE_EPOCH'' of
           None \<Rightarrow> Some (show_int (SourceDateEpoch built_Build)) | Some v \<Rightarrow> Some v)"
    and "read_int ''42'' = Some (SourceDateEpoch built_Build)"
    by blast+
  with new env sde lk show ?thesis by simp
qed

text \<open>
  What \<open>buildWorkspaceConfig\<close> does with a \<open>CacheDir\<close>, for a build that is not
  build-less: when \<open>CacheDir\<close> is a directory, the cache mount is added with the path
  that \<open>Realpath\<close> returned as its source, and a failure of \<open>Realpath\<close> is logged;
  when \<open>os.Stat\<close> fails or \<open>CacheDir\<close> is not a directory, that is logged and no
  cache mount is added.
\<close>

lemma cache_mount_run:
  assumes "\<not> IsBuildLess b" and "CacheDir b \<noteq> []"
  shows "(os_Stat_IsDir cw (CacheDir b) = Inr True \<longrightarrow>
            cc_Mounts (fst (buildWorkspaceConfig cw b)) =
              [\<lparr>Source = WorkspaceDir b, Destination = DefaultWorkspaceDir cw\<rparr>,
               \<lparr>Source = ''/etc/resolv.conf'', Destination = DefaultResolvConfPath cw\<rparr>,
               \<lparr>Source = fst (realpath_Realpath cw (CacheDir b)), Destination = DefaultCacheDir cw\<rparr>] \<and>
            snd (buildWorkspaceConfig cw b) =
              (case snd (realpath_Realpath cw (CacheDir b)) of
                 None \<Rightarrow> []
               | Some e \<Rightarrow> [Info (''could not resolve path for --cache-dir: '' @ error_text e)]))
       \<and> (os_Stat_IsDir cw (CacheDir b) \<noteq> Inr True \<longrightarrow>
            cc_Mounts (fst (buildWorkspaceConfig cw b)) =
              [\<lparr>Source = WorkspaceDir b, Destination = DefaultWorkspaceDir cw\<rparr>,
               \<lparr>Source = ''/etc/resolv.conf'', Destination = DefaultResolvConfPath cw\<rparr>] \<and>
            snd (buildWorkspaceConfig cw b) =
              [Info (''--cache-dir '' @ CacheDir b @ '' not a dir; skipping'')])"
  using assms
  by (auto simp: buildWorkspaceConfig_def cache_mounts_def Let_def
           split: prod.splits sum.splits bool.splits option.splits)

text \<open>
  The part of claim C9 about a \<open>CacheDir\<close> that is not a directory holds on the
  example: the skip is logged and there is no cache mount.
\<close>

lemma cache_mount_not_a_dir:
  "cc_Mounts (fst (buildWorkspaceConfig (example_cfg_world (''/mnt/cache'', None))
                     (example_Build\<lparr>CacheDir := ''/file''\<rparr>))) =
     [\<lparr>Source = ''/w'', Destination = ''/home/build''\<rparr>,
      \<lparr>Source = ''/etc/resolv.conf'', Destination = ''/etc/resolv.conf''\<rparr>] \<and>
   snd (buildWorkspaceConfig (example_cfg_world (''/mnt/cache'', None))
          (example_Build\<lparr>CacheDir := ''/file''\<rparr>)) =
     [Info ''--cache-dir /file not a dir; skipping'']"
  by (simp add: buildWorkspaceConfig_def cache_mounts_def IsBuildLess_def example_Build_def
        example_cfg_world_def example_Configuration_def Let_def)

text \<open>
  Claim C9 says that, when \<open>CacheDir\<close> is a directory and \<open>Realpath\<close> fails, the
  failure is logged and the cache mount is added with the logical \<open>CacheDir\<close> as its
  source. The code logs the failure and goes on with the first result of the failed
  call: for the build with \<open>CacheDir = /cache\<close>, a directory, and a \<open>Realpath\<close> that
  fails with the empty path, the failure is logged and the cache mount is added, but
  its source is the empty path, not \<open>/cache\<close>.
\<close>

theorem C9_failed_realpath_mount_source:
  "CacheDir example_Build = ''/cache'' \<and>
   os_Stat_IsDir (example_cfg_world ([], Some (External ''lstat /cache: permission denied''))) ''/cache'' = Inr True \<and>
   realpath_Realpath (example_cfg_world ([], Some (External ''lstat /cache: permission denied''))) ''/cache'' =
     ([], Some (External ''lstat /cache: permission denied'')) \<and>
   snd (buildWorkspaceConfig
      (example_cfg_world ([], Some (External ''lstat /cache: permission denied''))) example_Build) =
     [Info ''could not resolve path for --cache-dir: lstat /cache: permission denied''] \<and>
   cc_Mounts (fst (buildWorkspaceConfig
      (example_cfg_world ([], Some (External ''lstat /cache: permission denied''))) example_Build)) =
     [\<lparr>Source = ''/w'', Destination = ''/home/build''\<rparr>,
      \<lparr>Source = ''/etc/resolv.conf'', Destination = ''/etc/resolv.conf''\<rparr>,
      \<lparr>Source = [], Destination = ''/var/cache/melange''\<rparr>]"
  by (simp add: buildWorkspaceConfig_def cache_mounts_def IsBuildLess_def example_Build_def
        example_cfg_world_def example_Configuration_def error_text_def Let_def)

subsection \<open>RetrieveWorkspace\<close>

lemma then_fs_assoc: "then_fs (then_fs m f) g = then_fs m (\<lambda>tr. then_fs (f tr) g)"
  by (cases m) (auto simp: then_fs_def split: option.splits)

lemma retrieve_loop_append:
  "retrieve_loop w (xs @ ys) e tr = then_fs (retrieve_loop w xs None tr) (retrieve_loop w ys e)"
proof (induction xs arbitrary: tr)
  case Nil
  show ?case by (simp add: then_fs_def)
next
  case (Cons x xs)
  have "retrieve_loop w (xs @ ys) e =
          (\<lambda>tr. then_fs (retrieve_loop w xs None tr) (retrieve_loop w ys e))"
    using Cons.IH by (intro ext)
  then show ?case by (simp add: then_fs_assoc)
qed

lemma retrieve_entry_unexpected:
  "Typeflag hdr \<notin> {TypeDir, TypeReg, TypeSymlink, TypeLink} \<Longrightarrow>
   retrieve_entry w (hdr, body) tr =
     (Some (ErrorNew (''unexpected tar type '' @ show_nat (of_char (Typeflag hdr)) @ '' for '' @ Name hdr)), tr)"
  by (simp add: retrieve_entry_def)

lemma retrieve_entry_same_symlink:
  "Typeflag hdr = TypeSymlink \<Longrightarrow> fs_Readlink w tr (Name hdr) = Inr (Linkname hdr) \<Longrightarrow>
   retrieve_entry w (hdr, body) tr = (None, tr)"
  by (simp add: retrieve_entry_def TypeSymlink_def TypeDir_def TypeReg_def)

text \<open>
  Claim C7. When the runner returns no stream, \<open>RetrieveWorkspace\<close> returns \<open>nil\<close>
  and makes no call to the workspace. When the entries before a header have been
  unpacked and the type of that header is none of directory, regular file, symlink
  and hard link, it returns the error \<open>unexpected tar type\<close> without a further call.
  A symlink header whose name already reads as a link to the same link name is
  skipped: no call, no error, and the loop goes on with the next header.
\<close>

theorem C7_RetrieveWorkspace:
  "(Runner_WorkspaceTar w = Inr None \<longrightarrow> RetrieveWorkspace w tr = (None, tr))
   \<and> (Runner_WorkspaceTar w = Inr (Some r) \<and> gzip_error r = None \<and>
      entries r = pre @ (hdr, body) # rest \<and> retrieve_loop w pre None tr = (None, tr') \<and>
      Typeflag hdr \<notin> {TypeDir, TypeReg, TypeSymlink, TypeLink} \<longrightarrow>
      RetrieveWorkspace w tr =
        (Some (ErrorNew (''unexpected tar type '' @ show_nat (of_char (Typeflag hdr)) @
                         '' for '' @ Name hdr)), tr'))
   \<and> (Typeflag hdr = TypeSymlink \<and> fs_Readlink w tr (Name hdr) = Inr (Linkname hdr) \<longrightarrow>
      retrieve_entry w (hdr, body) tr = (None, tr) \<and>
      retrieve_loop w ((hdr, body) # rest) e tr = retrieve_loop w rest e tr)"
proof (intro conjI impI)
  assume "Runner_WorkspaceTar w = Inr None"
  then show "RetrieveWorkspace w tr = (None, tr)" by (simp add: RetrieveWorkspace_def)
next
  assume a: "Runner_WorkspaceTar w = Inr (Some r) \<and> gzip_error r = None \<and>
      entries r = pre @ (hdr, body) # rest \<and> retrieve_loop w pre None tr = (None, tr') \<and>
      Typeflag hdr \<notin> {TypeDir, TypeReg, TypeSymlink, TypeLink}"
  then have "RetrieveWorkspace w tr = retrieve_loop w (pre @ (hdr, body) # rest) (end_error r) tr"
    by (simp add: RetrieveWorkspace_def)
  also have "\<dots> = retrieve_loop w ((hdr, body) # rest) (end_error r) tr'"
    using a by (simp add: retrieve_loop_append then_fs_def)
  also have "\<dots> = (Some (ErrorNew (''unexpected tar type '' @ show_nat (of_char (Typeflag hdr)) @
                         '' for '' @ Name hdr)), tr')"
    using a retrieve_entry_unexpected[of hdr w body tr'] by (simp add: then_fs_def)
  finally show "RetrieveWorkspace w tr =
        (Some (ErrorNew (''unexpected tar type '' @ show_nat (of_char (Typeflag hdr)) @
                         '' for '' @ Name hdr)), tr')" .
next
  assume a: "Typeflag hdr = TypeSymlink \<and> fs_Readlink w tr (Name hdr) = Inr (Linkname hdr)"
  then show "retrieve_entry w (hdr, body) tr = (None, tr)"
    using retrieve_entry_same_symlink by blast
next
  assume a: "Typeflag hdr = TypeSymlink \<and> fs_Readlink w tr (Name hdr) = Inr (Linkname hdr)"
  then have "retrieve_entry w (hdr, body) tr = (None, tr)"
    using retrieve_entry_same_symlink by blast
  then show "retrieve_loop w ((hdr, body) # rest) e tr = retrieve_loop w rest e tr"
    by (simp add: then_fs_def)
qed

lemma example_prefix:
  "retrieve_loop (example_fs_world s) [dir_entry, symlink_entry] None [] =
     (None, [Fs_MkdirAll ''melange-out'' 493])"
  by (simp add: dir_entry_def symlink_entry_def retrieve_entry_def example_fs_world_def
        then_fs_def fs_call_def symlink_to_dir_def TypeDir_def TypeSymlink_def TypeReg_def)

theorem C7_witness:
  "RetrieveWorkspace (example_fs_world None) [] = (None, []) \<and>
   RetrieveWorkspace (example_fs_world (Some example_stream)) [] =
     (Some (ErrorNew ''unexpected tar type 54 for melange-out/lib/fifo''),
      [Fs_MkdirAll ''melange-out'' 493]) \<and>
   retrieve_entry (example_fs_world None) symlink_entry [] = (None, [])"
proof -
  let ?w = "example_fs_world (Some example_stream)"
  have tf: "Typeflag (fst fifo_entry) \<notin> {TypeDir, TypeReg, TypeSymlink, TypeLink}"
    by (simp add: fifo_entry_def TypeDir_def TypeReg_def TypeSymlink_def TypeLink_def)
  have msg: "''unexpected tar type '' @ show_nat (of_char (Typeflag (fst fifo_entry))) @ '' for '' @
             Name (fst fifo_entry) = ''unexpected tar type 54 for melange-out/lib/fifo''"
    by (simp add: fifo_entry_def digit_char_def)
  have es: "entries example_stream = [dir_entry, symlink_entry] @ (fst fifo_entry, snd fifo_entry) # []"
    by (simp add: example_stream_def)
  have "RetrieveWorkspace (example_fs_world None) [] = (None, [])"
    using C7_RetrieveWorkspace[of "example_fs_world None" "[]"]
    by (simp add: example_fs_world_def)
  moreover have "RetrieveWorkspace ?w [] =
     (Some (ErrorNew ''unexpected tar type 54 for melange-out/lib/fifo''),
      [Fs_MkdirAll ''melange-out'' 493])"
    using C7_RetrieveWorkspace[of ?w "[]" example_stream "[dir_entry, symlink_entry]"
            "fst fifo_entry" "snd fifo_entry" "[]" "[Fs_MkdirAll ''melange-out'' 493]"]
          tf es example_prefix[of "Some example_stream"] msg
    by (simp add: example_fs_world_def example_stream_def)
  moreover have "retrieve_entry (example_fs_world None) symlink_entry [] = (None, [])"
    using C7_RetrieveWorkspace[of "example_fs_world None" "[]" _ _ "fst symlink_entry" "snd symlink_entry"]
    by (simp add: example_fs_world_def symlink_entry_def TypeSymlink_def)
  ultimately show ?thesis by blast
qed

subsection \<open>Runs of BuildPackage\<close>

lemma observed_simps [simp]:
  "observed [] = []"
  "observed (e # es) = observe e @ observed es"
  "observed (xs @ ys) = observed xs @ observed ys"
  by (simp_all add: observed_def)

lemma bind_res_Inr:
  "bind_res m f = (Inr y, tr') \<Longrightarrow> \<exists>x tr1. m = (Inr x, tr1) \<and> f x tr1 = (Inr y, tr')"
  by (cases m; cases "fst m") (auto simp: bind_res_def)

lemma call_Inr: "call w e wrap tr = (Inr x, tr') \<Longrightarrow> tr' = tr @ [e]"
  by (auto simp: call_def split: option.splits)

lemma logf_Inr: "logf l tr = (r, tr') \<Longrightarrow> tr' = tr @ [Ev_Log l]"
  by (auto simp: logf_def)

lemma call_warn_observed: "call_warn w e msg tr = (r, tr') \<Longrightarrow> observed tr' = observed tr @ observe e"
  by (auto simp: call_warn_def split: option.splits)

lemma Run_all_Inr:
  "Run_all w sp ps tr = (Inr x, tr') \<Longrightarrow> observed tr' = observed tr @ map (\<lambda>p. Ran p sp) ps"
proof (induction ps arbitrary: tr)
  case Nil
  then show ?case by simp
next
  case (Cons p ps)
  from Cons.prems obtain tr1 where "tr1 = tr @ [Ev_Run p sp]" "Run_all w sp ps tr1 = (Inr x, tr')"
    by (auto dest!: bind_res_Inr call_Inr)
  with Cons.IH[of tr1] show ?case by simp
qed

lemma subpackage_pipelines_Inr:
  assumes "subpackage_pipelines w b sp tr = (Inr proceed, tr')"
  shows "proceed = (IsBuildLess b \<or> in_scope w b sp) \<and>
         observed tr' = observed tr @
           (if \<not> IsBuildLess b \<and> in_scope w b sp then map (\<lambda>p. Ran p (Some sp)) (sp_Pipeline sp) else [])"
proof (cases "IsBuildLess b")
  case True
  with assms show ?thesis by (simp add: subpackage_pipelines_def)
next
  case False
  show ?thesis
  proof (cases "ShouldRun (w_eval w) (mk_pb b (Some sp)) sp")
    case (Inl e)
    with assms False show ?thesis
      by (auto simp: subpackage_pipelines_def dest!: bind_res_Inr logf_Inr)
  next
    case (Inr result)
    show ?thesis
    proof (cases result)
      case True
      with assms False Inr show ?thesis
        by (auto simp: subpackage_pipelines_def in_scope_def dest!: bind_res_Inr logf_Inr Run_all_Inr)
    next
      case False
      with assms \<open>\<not> IsBuildLess b\<close> Inr show ?thesis
        by (auto simp: subpackage_pipelines_def in_scope_def dest!: bind_res_Inr logf_Inr)
    qed
  qed
qed

lemma run_subpackages_Inr:
  "run_subpackages w b subs q tr = (Inr q', tr') \<Longrightarrow>
   q' = q @ map sub_target (filter (\<lambda>sp. IsBuildLess b \<or> in_scope w b sp) subs) \<and>
   observed tr' = observed tr @
     (if IsBuildLess b then []
      else concat (map (\<lambda>sp. map (\<lambda>p. Ran p (Some sp)) (sp_Pipeline sp)) (filter (in_scope w b) subs)))"
proof (induction subs arbitrary: q tr)
  case Nil
  then show ?case by simp
next
  case (Cons sp subs)
  from Cons.prems obtain proceed tr1 where
    head: "subpackage_pipelines w b sp tr = (Inr proceed, tr1)" and
    rest: "(if \<not> proceed then run_subpackages w b subs q tr1
            else bind_res (call w (Ev_MkdirAll (melange_out b (sp_Name sp))) id tr1) (\<lambda>_ tr.
                 run_subpackages w b subs (q @ [\<lparr>pkgName = sp_Name sp, checks = sp_Checks sp\<rparr>]) tr))
           = (Inr q', tr')"
    by (auto dest!: bind_res_Inr)
  note h = subpackage_pipelines_Inr[OF head]
  show ?case
  proof (cases proceed)
    case False
    with rest have "run_subpackages w b subs q tr1 = (Inr q', tr')" by simp
    from Cons.IH[OF this] h False show ?thesis by auto
  next
    case True
    with rest obtain tr2 where tr2: "tr2 = tr1 @ [Ev_MkdirAll (melange_out b (sp_Name sp))]"
      and "run_subpackages w b subs (q @ [\<lparr>pkgName = sp_Name sp, checks = sp_Checks sp\<rparr>]) tr2 = (Inr q', tr')"
      by (auto dest!: bind_res_Inr call_Inr)
    from Cons.IH[OF this(2)] h True tr2 show ?thesis by (auto simp: sub_target_def)
  qed
qed

lemma report_warnings_observed:
  "observed (snd (report_warnings f ws i tr)) = observed tr"
  by (induction ws arbitrary: i tr) auto

lemma lint_target_Inr:
  assumes "lint_target w b lt tr = (Inr x, tr')"
  shows "observed tr' = observed tr @ [Linted lt]"
proof -
  from assms obtain tr1 where tr1: "tr1 = tr @ [Ev_Log (Info (''running package linters for '' @ pkgName lt))]"
    and run: "(case report_warnings (FailOnLintWarning b)
                      (LintBuild_warnings w tr1 (pkgName lt) (melange_out b (pkgName lt)) (checks lt)) None
                      (tr1 @ [Ev_LintBuild (pkgName lt) (melange_out b (pkgName lt)) (checks lt)]) of
                 (innerErr, tr') \<Rightarrow>
                   if fails w tr1 (Ev_LintBuild (pkgName lt) (melange_out b (pkgName lt)) (checks lt)) \<noteq> None
                   then (Inl (Errorf ''package linter error''
                           (fails w tr1 (Ev_LintBuild (pkgName lt) (melange_out b (pkgName lt)) (checks lt)))), tr')
                   else if innerErr \<noteq> None
                   then (Inl (Errorf ''package linter warning''
                           (fails w tr1 (Ev_LintBuild (pkgName lt) (melange_out b (pkgName lt)) (checks lt)))), tr')
                   else (Inr (), tr')) = (Inr x, tr')"
    by (auto simp: lint_target_def Let_def dest!: bind_res_Inr logf_Inr)
  let ?rw = "report_warnings (FailOnLintWarning b)
               (LintBuild_warnings w tr1 (pkgName lt) (melange_out b (pkgName lt)) (checks lt)) None
               (tr1 @ [Ev_LintBuild (pkgName lt) (melange_out b (pkgName lt)) (checks lt)])"
  from run have "tr' = snd ?rw"
    by (auto split: prod.splits if_splits)
  then have "observed tr' = observed (tr1 @ [Ev_LintBuild (pkgName lt) (melange_out b (pkgName lt)) (checks lt)])"
    by (simp only: report_warnings_observed)
  with tr1 show ?thesis by simp
qed

lemma lint_all_Inr:
  "lint_all w b q tr = (Inr x, tr') \<Longrightarrow> observed tr' = observed tr @ map Linted q"
proof (induction q arbitrary: tr)
  case Nil
  then show ?case by simp
next
  case (Cons lt q)
  from Cons.prems obtain y tr1 where "lint_target w b lt tr = (Inr y, tr1)" "lint_all w b q tr1 = (Inr x, tr')"
    by (auto dest!: bind_res_Inr)
  from lint_target_Inr[OF this(1)] Cons.IH[OF this(2)] show ?case by simp
qed

lemma sbom_gate_Inr:
  assumes "sbom_gate w b sp tr = (Inr proceed, tr')"
  shows "proceed = (IsBuildLess b \<or> in_scope w b sp) \<and> observed tr' = observed tr"
  using assms
  by (cases "ShouldRun (w_eval w) (mk_pb b (Some sp)) sp")
     (auto simp: sbom_gate_def in_scope_def split: if_splits dest!: bind_res_Inr logf_Inr)

lemma sbom_subpackages_Inr:
  "sbom_subpackages w b subs tr = (Inr x, tr') \<Longrightarrow>
   observed tr' = observed tr @
     map (\<lambda>sp. SBOMGenerated (sub_sbom w b sp)) (filter (\<lambda>sp. IsBuildLess b \<or> in_scope w b sp) subs)"
proof (induction subs arbitrary: tr)
  case Nil
  then show ?case by simp
next
  case (Cons sp subs)
  from Cons.prems obtain proceed tr1 where
    head: "sbom_gate w b sp tr = (Inr proceed, tr1)" and
    rest: "(if \<not> proceed then sbom_subpackages w b subs tr1
            else bind_res (call w (Ev_GenerateSBOM (sbom_spec w b (sp_Name sp))) (wrapf ''writing SBOMs'') tr1)
                   (\<lambda>_ tr. sbom_subpackages w b subs tr)) = (Inr x, tr')"
    by (auto dest!: bind_res_Inr)
  note h = sbom_gate_Inr[OF head]
  show ?case
  proof (cases proceed)
    case False
    with rest have "sbom_subpackages w b subs tr1 = (Inr x, tr')" by simp
    from Cons.IH[OF this] h False show ?thesis by auto
  next
    case True
    with rest obtain tr2 where tr2: "tr2 = tr1 @ [Ev_GenerateSBOM (sbom_spec w b (sp_Name sp))]"
      and "sbom_subpackages w b subs tr2 = (Inr x, tr')"
      by (auto dest!: bind_res_Inr call_Inr)
    from Cons.IH[OF this(2)] h True tr2 show ?thesis by (auto simp: sub_sbom_def)
  qed
qed

lemma emit_subpackages_Inr:
  "emit_subpackages w b subs tr = (Inr x, tr') \<Longrightarrow>
   observed tr' = observed tr @ map (\<lambda>sp. Emitted (Some sp)) (filter (in_scope w b) subs)"
proof (induction subs arbitrary: tr)
  case Nil
  then show ?case by simp
next
  case (Cons sp subs)
  show ?case
  proof (cases "ShouldRun (w_eval w) (mk_pb b (Some sp)) sp")
    case (Inl e)
    with Cons.prems show ?thesis by simp
  next
    case (Inr result)
    show ?thesis
    proof (cases result)
      case False
      with Cons.prems Inr have "emit_subpackages w b subs tr = (Inr x, tr')" by simp
      from Cons.IH[OF this] Inr False show ?thesis by (simp add: in_scope_def)
    next
      case True
      with Cons.prems Inr obtain tr1 where "tr1 = tr @ [Ev_Emit (Some sp)]"
        "emit_subpackages w b subs tr1 = (Inr x, tr')"
        by (auto dest!: bind_res_Inr call_Inr)
      from Cons.IH[OF this(2)] this(1) Inr True show ?thesis by (simp add: in_scope_def)
    qed
  qed
qed

lemma index_files_Inr:
  "index_files w b subs acc = Inr files \<Longrightarrow>
   files = acc @ map (\<lambda>sp. apk_path w b (sp_Name sp)) (filter (in_scope w b) subs)"
proof (induction subs arbitrary: acc)
  case Nil
  then show ?case by simp
next
  case (Cons sp subs)
  show ?case
  proof (cases "ShouldRun (w_eval w) (mk_pb b (Some sp)) sp")
    case (Inl e)
    with Cons.prems show ?thesis by simp
  next
    case (Inr result)
    show ?thesis
    proof (cases result)
      case False
      with Cons.prems Inr have "index_files w b subs acc = Inr files" by simp
      from Cons.IH[OF this] Inr False show ?thesis by (simp add: in_scope_def)
    next
      case True
      with Cons.prems Inr have "index_files w b subs (acc @ [apk_path w b (sp_Name sp)]) = Inr files"
        by (simp add: apk_path_def del: filepath_Join.simps)
      from Cons.IH[OF this] Inr True show ?thesis by (simp add: in_scope_def)
    qed
  qed
qed

lemma generate_index_Inr:
  assumes "generate_index w b tr = (Inr x, tr')"
  shows "observed tr' = observed tr @
           (if GenerateIndex b
            then [Indexed (apk_path w b (pkg_Name (cfg_Package (Configuration b))) #
                           map (\<lambda>sp. apk_path w b (sp_Name sp)) (filter (in_scope w b) (Subpackages b)))]
            else [])"
proof (cases "GenerateIndex b")
  case False
  with assms show ?thesis by (simp add: generate_index_def)
next
  case True
  let ?main = "filepath_Join [packageDir w b, apk_file_name b (pkg_Name (cfg_Package (Configuration b)))]"
  from assms True obtain tr1 files where
    tr1: "tr1 = tr @ [Ev_Log (Info (''generating apk index from packages in '' @ packageDir w b))]"
    and files: "index_files w b (cfg_Subpackages (Configuration b)) [?main] = Inr files"
    and rest: "bind_res (call w (Ev_index_New files (SigningKey b)
                                  (filepath_Join [packageDir w b, ''APKINDEX.tar.gz'']))
                          (wrapf ''unable to create index'') tr1) (\<lambda>_ tr.
              bind_res (call w Ev_GenerateIndex (wrapf ''unable to generate index'') tr) (\<lambda>_ tr.
              call w (Ev_WriteJSONIndex (filepath_Join [packageDir w b, ''APKINDEX.json'']))
                (wrapf ''unable to generate JSON index'') tr)) = (Inr x, tr')"
    by (auto simp: generate_index_def simp del: filepath_Join.simps dest!: bind_res_Inr logf_Inr split: sum.splits)
  from rest have "observed tr' = observed tr1 @ [Indexed files]"
    by (auto dest!: bind_res_Inr call_Inr)
  with tr1 index_files_Inr[OF files] True show ?thesis
    by (simp add: apk_path_def Subpackages_def del: filepath_Join.simps)
qed

lemma cleanup_observed:
  assumes "cleanup w b tr = (r, tr')"
  shows "observed tr' = observed tr"
proof (cases "IsBuildLess b")
  case True
  with assms show ?thesis
    by (auto simp: cleanup_def bind_res_def dest: call_warn_observed)
next
  case False
  obtain r1 tr1 where c1: "call_warn w (Ev_RemoveAll (GuestDir b))
      (\<lambda>err. Info (''WARNING: unable to clean guest container: '' @ error_text err)) tr = (r1, tr1)"
    by (cases "call_warn w (Ev_RemoveAll (GuestDir b))
      (\<lambda>err. Info (''WARNING: unable to clean guest container: '' @ error_text err)) tr") auto
  then have r1: "r1 = Inr ()" by (auto simp: call_warn_def split: option.splits)
  from assms False c1 r1 have "call_warn w (Ev_RemoveAll (WorkspaceDir b))
      (\<lambda>err. Info (''WARNING: unable to clean workspace: '' @ error_text err)) tr1 = (r, tr')"
    by (simp add: cleanup_def bind_res_def)
  from call_warn_observed[OF this] call_warn_observed[OF c1] show ?thesis by simp
qed

text \<open>What a run of \<open>BuildPackage\<close> that returns \<open>nil\<close> does after the container path.\<close>

lemma finish_build_Inr:
  assumes "finish_build w b q tr = (Inr x, tr')"
  shows "observed tr' = observed tr @
     (if IsBuildLess b then []
      else concat (map (\<lambda>sp. map (\<lambda>p. Ran p (Some sp)) (sp_Pipeline sp))
                     (filter (in_scope w b) (Subpackages b)))) @
     map Linted (q @ map sub_target (filter (\<lambda>sp. IsBuildLess b \<or> in_scope w b sp) (Subpackages b))) @
     map (\<lambda>sp. SBOMGenerated (sub_sbom w b sp))
       (filter (\<lambda>sp. IsBuildLess b \<or> in_scope w b sp) (Subpackages b)) @
     [SBOMGenerated (main_sbom w b), Emitted None] @
     map (\<lambda>sp. Emitted (Some sp)) (filter (in_scope w b) (Subpackages b)) @
     (if GenerateIndex b
      then [Indexed (apk_path w b (pkg_Name (cfg_Package (Configuration b))) #
                     map (\<lambda>sp. apk_path w b (sp_Name sp)) (filter (in_scope w b) (Subpackages b)))]
      else [])"
  using assms unfolding finish_build_def
  by (auto dest!: bind_res_Inr)
     (auto dest!: run_subpackages_Inr lint_all_Inr sbom_subpackages_Inr emit_subpackages_Inr
                  cleanup_observed generate_index_Inr logf_Inr call_Inr
           simp: Subpackages_def main_sbom_def)

lemma patched_refl: "patched b b"
  by (simp add: patched_def)

lemma patched_trans: "patched a b \<Longrightarrow> patched b c \<Longrightarrow> patched a c"
  by (simp add: patched_def)

lemma patched_GuestDir: "patched b0 b \<Longrightarrow> patched b0 (b\<lparr>GuestDir := g\<rparr>)"
  by (simp add: patched_def recipe_view_def)

lemma patched_containerConfig: "patched b0 b \<Longrightarrow> patched b0 (b\<lparr>containerConfig := cc\<rparr>)"
  by (simp add: patched_def recipe_view_def)

lemma patched_set_Environment: "patched b0 b \<Longrightarrow> patched b0 (set_Environment env b)"
  by (simp add: patched_def recipe_view_def set_Environment_def)

lemma patched_Build_fields:
  assumes "patched b b'"
  shows "WorkspaceDir b' = WorkspaceDir b" "OutDir b' = OutDir b" "Arch b' = Arch b"
    "Namespace b' = Namespace b" "SigningKey b' = SigningKey b"
    "GenerateIndex b' = GenerateIndex b" "DebugRunner b' = DebugRunner b"
    "FailOnLintWarning b' = FailOnLintWarning b"
    "cfg_Subpackages (Configuration b') = cfg_Subpackages (Configuration b)"
    "cfg_Pipeline (Configuration b') = cfg_Pipeline (Configuration b)"
    "cfg_Package (Configuration b') = cfg_Package (Configuration b)"
proof -
  from assms have eq: "recipe_view b' = recipe_view b" by (simp add: patched_def)
  have "WorkspaceDir (recipe_view b') = WorkspaceDir (recipe_view b)" using eq by simp
  then show "WorkspaceDir b' = WorkspaceDir b" by (simp add: recipe_view_def)
  have "OutDir (recipe_view b') = OutDir (recipe_view b)" using eq by simp
  then show "OutDir b' = OutDir b" by (simp add: recipe_view_def)
  have "Arch (recipe_view b') = Arch (recipe_view b)" using eq by simp
  then show "Arch b' = Arch b" by (simp add: recipe_view_def)
  have "Namespace (recipe_view b') = Namespace (recipe_view b)" using eq by simp
  then show "Namespace b' = Namespace b" by (simp add: recipe_view_def)
  have "SigningKey (recipe_view b') = SigningKey (recipe_view b)" using eq by simp
  then show "SigningKey b' = SigningKey b" by (simp add: recipe_view_def)
  have "GenerateIndex (recipe_view b') = GenerateIndex (recipe_view b)" using eq by simp
  then show "GenerateIndex b' = GenerateIndex b" by (simp add: recipe_view_def)
  have "DebugRunner (recipe_view b') = DebugRunner (recipe_view b)" using eq by simp
  then show "DebugRunner b' = DebugRunner b" by (simp add: recipe_view_def)
  have "FailOnLintWarning (recipe_view b') = FailOnLintWarning (recipe_view b)" using eq by simp
  then show "FailOnLintWarning b' = FailOnLintWarning b" by (simp add: recipe_view_def)
  have c: "Configuration (recipe_view b') = Configuration (recipe_view b)" using eq by simp
  then have "cfg_Subpackages (Configuration (recipe_view b')) = cfg_Subpackages (Configuration (recipe_view b))"
    by simp
  then show "cfg_Subpackages (Configuration b') = cfg_Subpackages (Configuration b)"
    by (simp add: recipe_view_def)
  from c have "cfg_Pipeline (Configuration (recipe_view b')) = cfg_Pipeline (Configuration (recipe_view b))"
    by simp
  then show "cfg_Pipeline (Configuration b') = cfg_Pipeline (Configuration b)"
    by (simp add: recipe_view_def)
  from c have "cfg_Package (Configuration (recipe_view b')) = cfg_Package (Configuration (recipe_view b))"
    by simp
  then show "cfg_Package (Configuration b') = cfg_Package (Configuration b)"
    by (simp add: recipe_view_def)
qed

lemma patched_fields:
  assumes "patched b b'"
  shows "IsBuildLess b' = IsBuildLess b" "Subpackages b' = Subpackages b"
    "main_target b' = main_target b" "main_sbom w b' = main_sbom w b"
    "sub_sbom w b' sp = sub_sbom w b sp" "apk_path w b' n = apk_path w b n"
  using patched_Build_fields[OF assms]
  by (simp_all add: IsBuildLess_def Subpackages_def main_target_def main_sbom_def
        sub_sbom_def apk_path_def sbom_spec_def melange_out_def version_release_def namespace_of_def
        packageDir_def apk_file_name_def del: filepath_Join.simps)


lemma provision_GuestDir_Inr:
  "provision_GuestDir w b tr = (Inr b', tr') \<Longrightarrow> patched b b' \<and> observed tr' = observed tr"
  by (auto simp: provision_GuestDir_def patched_refl patched_GuestDir split: if_splits
           dest!: bind_res_Inr call_Inr)

lemma ApplyNeeds_all_Inr:
  "ApplyNeeds_all w sp ps b tr = (Inr b', tr') \<Longrightarrow> patched b0 b \<Longrightarrow>
   patched b0 b' \<and> observed tr' = observed tr"
proof (induction ps arbitrary: b tr)
  case Nil
  then show ?case by simp
next
  case (Cons p ps)
  from Cons.prems(1) obtain tr1 where tr1: "tr1 = tr @ [Ev_ApplyNeeds p sp]"
    and run: "ApplyNeeds_all w sp ps
       (set_Environment (ApplyNeeds_result w tr p (cfg_Environment (Configuration b))) b) tr1 = (Inr b', tr')"
    by (auto dest!: bind_res_Inr call_Inr)
  from Cons.IH[OF run patched_set_Environment[OF Cons.prems(2)]] tr1 show ?case by simp
qed

lemma ApplyNeeds_subpackages_Inr:
  "ApplyNeeds_subpackages w subs b tr = (Inr b', tr') \<Longrightarrow> patched b0 b \<Longrightarrow>
   patched b0 b' \<and> observed tr' = observed tr"
proof (induction subs arbitrary: b tr)
  case Nil
  then show ?case by simp
next
  case (Cons sp subs)
  from Cons.prems(1) obtain b1 tr1 where
    h: "ApplyNeeds_all w (Some sp) (sp_Pipeline sp) b tr = (Inr b1, tr1)"
    and r: "ApplyNeeds_subpackages w subs b1 tr1 = (Inr b', tr')"
    by (auto dest!: bind_res_Inr)
  from ApplyNeeds_all_Inr[OF h Cons.prems(2)] Cons.IH[OF r] show ?case by simp
qed

lemma prepare_workspace_Inr:
  "prepare_workspace w b tr = (Inr x, tr') \<Longrightarrow> observed tr' = observed tr"
  by (auto simp: prepare_workspace_def split: if_splits dest!: bind_res_Inr call_Inr logf_Inr)

lemma observed_logs [simp]: "observed (map Ev_Log lg) = []"
  by (induction lg) auto

lemma WorkspaceConfig_patched:
  "WorkspaceConfig cw b = ((cfg, b'), lg) \<Longrightarrow> patched b b'"
  by (auto simp: WorkspaceConfig_def patched_refl patched_containerConfig split: option.splits prod.splits)

lemma prepare_build_Inr:
  assumes "prepare_build w b tr = (Inr (cfg, b'), tr')"
  shows "patched b b' \<and> observed tr' = observed tr"
proof -
  from assms obtain b1 t1 t2 b2 t3 b3 t4 t5 lg where
    s1: "provision_GuestDir w b (tr @ map Ev_Log (Summarize b)) = (Inr b1, t1)" and
    s2: "t2 = t1 @ [Ev_Log (Info ''evaluating pipelines for package requirements'')]" and
    s3: "ApplyNeeds_all w None (cfg_Pipeline (Configuration b1)) b1 t2 = (Inr b2, t3)" and
    s4: "ApplyNeeds_subpackages w (cfg_Subpackages (Configuration b2)) b2 t3 = (Inr b3, t4)" and
    s5: "prepare_workspace w b3 t4 = (Inr (), t5)" and
    s6: "WorkspaceConfig (w_cfg w) b3 = ((cfg, b'), lg)" and
    s7: "tr' = t5 @ map Ev_Log lg"
    unfolding prepare_build_def
    by (auto dest!: bind_res_Inr logf_Inr split: prod.splits)
  from provision_GuestDir_Inr[OF s1] have p1: "patched b b1" and o1: "observed t1 = observed tr"
    by simp_all
  from ApplyNeeds_all_Inr[OF s3 p1] have p2: "patched b b2" and o3: "observed t3 = observed t2"
    by simp_all
  from ApplyNeeds_subpackages_Inr[OF s4 p2] have p3: "patched b b3" and o4: "observed t4 = observed t3"
    by simp_all
  from patched_trans[OF p3 WorkspaceConfig_patched[OF s6]] have "patched b b'" .
  moreover from prepare_workspace_Inr[OF s5] o4 o3 o1 s2 s7 have "observed tr' = observed tr"
    by simp
  ultimately show ?thesis by simp
qed

lemma OverlayBinSh_Inr:
  "OverlayBinSh w b tr = (Inr x, tr') \<Longrightarrow> observed tr' = observed tr"
  by (auto simp: OverlayBinSh_def Let_def split: if_splits dest!: bind_res_Inr call_Inr)

lemma start_container_Inr:
  assumes "start_container w b cfg tr = (Inr (cfg', b'), tr')"
  shows "patched b b' \<and> observed tr' = observed tr @ [GuestBuilt, CachePopulated, PodStarted]"
  using assms unfolding start_container_def Let_def
  by (auto dest!: bind_res_Inr)
     (auto dest!: call_Inr logf_Inr OverlayBinSh_Inr simp: patched_refl patched_containerConfig)

lemma deferred_TerminatePod_observed:
  "deferred_TerminatePod w b (r, tr) = (r', tr') \<Longrightarrow>
   r' = r \<and> observed tr' = observed tr @ (if DebugRunner b then [] else [PodTerminated])"
  by (auto simp: deferred_TerminatePod_def split: if_splits option.splits)

lemma filter_or_const:
  "filter (\<lambda>sp. c \<or> P sp) xs = (if c then xs else filter P xs)"
  by simp

text \<open>
  A run of \<open>BuildPackage\<close> that returns \<open>nil\<close> makes the calls of \<open>expected_run\<close>,
  in that order.
\<close>

lemma BuildPackage_Inr:
  assumes "BuildPackage w b tr = (Inr x, tr')"
  shows "\<exists>b'. patched b b' \<and> observed tr' = observed tr @ expected_run w b b'"
proof -
  from assms obtain cfg b1 t1 where
    prep: "prepare_build w b tr = (Inr (cfg, b1), t1)" and
    rest: "(if \<not> IsBuildLess b1 then
         bind_res (start_container w b1 cfg t1) (\<lambda>(cfg, b) tr.
           deferred_TerminatePod w b
             (bind_res (logf (Debug ''running the main pipeline'') tr) (\<lambda>_ tr.
              bind_res (Run_all w None (cfg_Pipeline (Configuration b)) tr) (\<lambda>_ tr.
              finish_build w b
                [\<lparr>pkgName = pkg_Name (cfg_Package (Configuration b)),
                  checks = pkg_Checks (cfg_Package (Configuration b))\<rparr>] tr))))
       else finish_build w b1 [] t1) = (Inr x, tr')"
    unfolding BuildPackage_def by (auto dest!: bind_res_Inr)
  from prepare_build_Inr[OF prep] have p1: "patched b b1" and o1: "observed t1 = observed tr"
    by simp_all
  show ?thesis
  proof (cases "IsBuildLess b1")
    case True
    with rest have fin: "finish_build w b1 [] t1 = (Inr x, tr')" by simp
    have bl: "IsBuildLess b" using True patched_fields(1)[OF p1] by simp
    from finish_build_Inr[OF fin] True bl o1
    have "observed tr' = observed tr @ expected_run w b b1"
      by (simp add: expected_run_def Let_def patched_fields[OF p1] patched_Build_fields[OF p1])
    with p1 show ?thesis by blast
  next
    case False
    with rest obtain cfg2 b2 t2 where
      sc: "start_container w b1 cfg t1 = (Inr (cfg2, b2), t2)" and
      d: "deferred_TerminatePod w b2
             (bind_res (logf (Debug ''running the main pipeline'') t2) (\<lambda>_ tr.
              bind_res (Run_all w None (cfg_Pipeline (Configuration b2)) tr) (\<lambda>_ tr.
              finish_build w b2 [main_target b2] tr))) = (Inr x, tr')"
      by (auto simp: main_target_def dest!: bind_res_Inr)
    from start_container_Inr[OF sc] have p2: "patched b1 b2"
      and o2: "observed t2 = observed t1 @ [GuestBuilt, CachePopulated, PodStarted]" by simp_all
    have p: "patched b b2" using patched_trans[OF p1 p2] .
    obtain r3 t3 where inner: "bind_res (logf (Debug ''running the main pipeline'') t2) (\<lambda>_ tr.
              bind_res (Run_all w None (cfg_Pipeline (Configuration b2)) tr) (\<lambda>_ tr.
              finish_build w b2 [main_target b2] tr)) = (r3, t3)"
      by (cases "bind_res (logf (Debug ''running the main pipeline'') t2) (\<lambda>_ tr.
              bind_res (Run_all w None (cfg_Pipeline (Configuration b2)) tr) (\<lambda>_ tr.
              finish_build w b2 [main_target b2] tr))") auto
    from d inner deferred_TerminatePod_observed[of w b2 r3 t3 "Inr x" tr']
    have r3: "r3 = Inr x"
      and o4: "observed tr' = observed t3 @ (if DebugRunner b2 then [] else [PodTerminated])"
      by simp_all
    from inner r3 obtain t4 t5 where
      t4: "t4 = t2 @ [Ev_Log (Debug ''running the main pipeline'')]" and
      ra: "Run_all w None (cfg_Pipeline (Configuration b2)) t4 = (Inr (), t5)" and
      fin: "finish_build w b2 [main_target b2] t5 = (Inr x, t3)"
      by (auto dest!: bind_res_Inr logf_Inr)
    have nbl: "\<not> IsBuildLess b2" "\<not> IsBuildLess b"
      using False patched_fields(1)[OF p2] patched_fields(1)[OF p1] by simp_all
    from finish_build_Inr[OF fin] Run_all_Inr[OF ra] t4 o2 o1 o4 nbl
    have "observed tr' = observed tr @ expected_run w b b2"
      by (simp add: expected_run_def Let_def patched_fields[OF p] patched_Build_fields[OF p])
    with p show ?thesis by blast
  qed
qed

subsection \<open>The projections of a run\<close>

lemma concat_map_Nil: "concat (map (\<lambda>x. []) xs) = []"
  by (induction xs) auto

lemma concat_map_single: "concat (map (\<lambda>x. [f x]) xs) = map f xs"
  by (induction xs) auto

lemma ran_of_sub_runs:
  "concat (map ran_of (concat (map (\<lambda>sp. map (\<lambda>p. Ran p (Some sp)) (sp_Pipeline sp)) subs))) =
   concat (map sub_runs subs)"
  by (induction subs) (auto simp: sub_runs_def map_concat comp_def concat_map_single)

lemma other_of_sub_runs:
  "concat (map linted_of (concat (map (\<lambda>sp. map (\<lambda>p. Ran p (Some sp)) (sp_Pipeline sp)) subs))) = []"
  "concat (map sbom_of (concat (map (\<lambda>sp. map (\<lambda>p. Ran p (Some sp)) (sp_Pipeline sp)) subs))) = []"
  "concat (map emitted_of (concat (map (\<lambda>sp. map (\<lambda>p. Ran p (Some sp)) (sp_Pipeline sp)) subs))) = []"
  "concat (map indexed_of (concat (map (\<lambda>sp. map (\<lambda>p. Ran p (Some sp)) (sp_Pipeline sp)) subs))) = []"
  "concat (map container_of (concat (map (\<lambda>sp. map (\<lambda>p. Ran p (Some sp)) (sp_Pipeline sp)) subs))) = []"
  by (induction subs) (auto simp: comp_def concat_map_Nil)

lemmas projection_simps = expected_run_def Let_def comp_def concat_map_Nil concat_map_single
  ran_of_sub_runs other_of_sub_runs

lemma expected_ran:
  "concat (map ran_of (expected_run w b b')) =
     (if IsBuildLess b then []
      else map (\<lambda>p. (p, None)) (cfg_Pipeline (Configuration b)) @
           concat (map sub_runs (filter (in_scope w b') (Subpackages b))))"
  by (auto simp: projection_simps)

lemma expected_linted:
  "concat (map linted_of (expected_run w b b')) =
     (if IsBuildLess b then map sub_target (Subpackages b)
      else main_target b # map sub_target (filter (in_scope w b') (Subpackages b)))"
  by (auto simp: projection_simps)

lemma expected_sbom:
  "concat (map sbom_of (expected_run w b b')) =
     map (sub_sbom w b) (if IsBuildLess b then Subpackages b else filter (in_scope w b') (Subpackages b)) @
     [main_sbom w b]"
  by (auto simp: projection_simps)

lemma expected_emitted:
  "concat (map emitted_of (expected_run w b b')) =
     None # map Some (filter (in_scope w b') (Subpackages b))"
  by (auto simp: projection_simps)

lemma expected_indexed:
  "concat (map indexed_of (expected_run w b b')) =
     (if GenerateIndex b
      then [apk_path w b (pkg_Name (cfg_Package (Configuration b))) #
            map (\<lambda>sp. apk_path w b (sp_Name sp)) (filter (in_scope w b') (Subpackages b))]
      else [])"
  by (auto simp: projection_simps)

lemma expected_container:
  "concat (map container_of (expected_run w b b')) =
     (if IsBuildLess b then []
      else [GuestBuilt, CachePopulated, PodStarted] @ (if DebugRunner b then [] else [PodTerminated]))"
  by (auto simp: projection_simps)

text \<open>The projections of a run that returns \<open>nil\<close>.\<close>

lemma BuildPackage_projections:
  assumes "BuildPackage w b [] = (Inr x, tr)"
  shows "\<exists>b'. patched b b' \<and>
     pipelines_run tr =
       (if IsBuildLess b then []
        else map (\<lambda>p. (p, None)) (cfg_Pipeline (Configuration b)) @
             concat (map sub_runs (filter (in_scope w b') (Subpackages b)))) \<and>
     lint_targets tr =
       (if IsBuildLess b then map sub_target (Subpackages b)
        else main_target b # map sub_target (filter (in_scope w b') (Subpackages b))) \<and>
     sbom_requests tr =
       map (sub_sbom w b) (if IsBuildLess b then Subpackages b else filter (in_scope w b') (Subpackages b)) @
       [main_sbom w b] \<and>
     emitted_packages tr = None # map Some (filter (in_scope w b') (Subpackages b)) \<and>
     index_lists tr =
       (if GenerateIndex b
        then [apk_path w b (pkg_Name (cfg_Package (Configuration b))) #
              map (\<lambda>sp. apk_path w b (sp_Name sp)) (filter (in_scope w b') (Subpackages b))]
        else [])"
proof -
  from BuildPackage_Inr[OF assms] obtain b' where
    p: "patched b b'" and o: "observed tr = expected_run w b b'" by auto
  show ?thesis
    using p o expected_ran[of w b b'] expected_linted[of w b b'] expected_sbom[of w b b']
      expected_emitted[of w b b'] expected_indexed[of w b b']
    unfolding pipelines_run_def lint_targets_def sbom_requests_def emitted_packages_def index_lists_def
    by (intro exI[of _ b']) (simp only: simp_thms)
qed

subsection \<open>Build-less runs, whatever they return\<close>

lemma bind_res_all:
  assumes "list_all P (snd m)"
    and "\<And>x tr. m = (Inr x, tr) \<Longrightarrow> list_all P tr \<Longrightarrow> list_all P (snd (f x tr))"
  shows "list_all P (snd (bind_res m f))"
proof (cases m)
  case (Pair r tr)
  with assms show ?thesis by (cases r) (auto simp: bind_res_def)
qed

lemma call_all: "list_all P tr \<Longrightarrow> P e \<Longrightarrow> list_all P (snd (call w e wrap tr))"
  by (auto simp: call_def split: option.splits)

lemma logf_all: "list_all P tr \<Longrightarrow> P (Ev_Log l) \<Longrightarrow> list_all P (snd (logf l tr))"
  by (simp add: logf_def)

lemma call_warn_all:
  "list_all P tr \<Longrightarrow> P e \<Longrightarrow> (\<And>l. P (Ev_Log l)) \<Longrightarrow> list_all P (snd (call_warn w e msg tr))"
  by (auto simp: call_warn_def split: option.splits)

lemma buildless_call_simps [simp]:
  "buildless_call ts (Ev_Log l)" "buildless_call ts (Ev_MkdirTemp d p)"
  "buildless_call ts (Ev_ApplyNeeds q sp)" "buildless_call ts (Ev_MkdirAll d)"
  "buildless_call ts Ev_PopulateWorkspace" "buildless_call ts Ev_RetrieveWorkspace"
  "buildless_call ts (Ev_GenerateSBOM s)" "buildless_call ts (Ev_Emit e)"
  "buildless_call ts (Ev_RemoveAll d)" "buildless_call ts (Ev_index_New fs k i)"
  "buildless_call ts Ev_GenerateIndex" "buildless_call ts (Ev_WriteJSONIndex j)"
  "buildless_call ts (Ev_LintBuild n p c) = (\<lparr>pkgName = n, checks = c\<rparr> \<in> set ts)"
  by (simp_all add: buildless_call_def)

lemma provision_GuestDir_all:
  "list_all (buildless_call ts) tr \<Longrightarrow> list_all (buildless_call ts) (snd (provision_GuestDir w b tr))"
  by (auto simp: provision_GuestDir_def intro!: bind_res_all call_all)

lemma ApplyNeeds_all_all:
  "list_all (buildless_call ts) tr \<Longrightarrow> list_all (buildless_call ts) (snd (ApplyNeeds_all w sp ps b tr))"
proof (induction ps arbitrary: b tr)
  case Nil
  then show ?case by simp
next
  case (Cons p ps)
  show ?case
    unfolding ApplyNeeds_all.simps
    by (rule bind_res_all) (auto intro!: call_all Cons.prems Cons.IH)
qed

lemma ApplyNeeds_subpackages_all:
  "list_all (buildless_call ts) tr \<Longrightarrow>
   list_all (buildless_call ts) (snd (ApplyNeeds_subpackages w subs b tr))"
proof (induction subs arbitrary: b tr)
  case Nil
  then show ?case by simp
next
  case (Cons sp subs)
  show ?case
    unfolding ApplyNeeds_subpackages.simps
    by (rule bind_res_all) (auto intro!: ApplyNeeds_all_all Cons.prems Cons.IH)
qed

lemma prepare_workspace_all:
  "list_all (buildless_call ts) tr \<Longrightarrow> list_all (buildless_call ts) (snd (prepare_workspace w b tr))"
  unfolding prepare_workspace_def
  by (intro bind_res_all call_all logf_all) (auto intro!: bind_res_all call_all logf_all)

lemma logs_all: "list_all (buildless_call ts) (map Ev_Log lg)"
  by (induction lg) auto

lemma prepare_build_all:
  assumes "list_all (buildless_call ts) tr"
  shows "list_all (buildless_call ts) (snd (prepare_build w b tr))"
  unfolding prepare_build_def
proof (intro bind_res_all)
  show "list_all (buildless_call ts) (snd (provision_GuestDir w b (tr @ map Ev_Log (Summarize b))))"
    using assms by (intro provision_GuestDir_all) (simp add: logs_all)
qed (auto intro!: logf_all ApplyNeeds_all_all ApplyNeeds_subpackages_all prepare_workspace_all
          simp: logs_all split: prod.splits)

lemma run_subpackages_all:
  "IsBuildLess b \<Longrightarrow> list_all (buildless_call ts) tr \<Longrightarrow>
   list_all (buildless_call ts) (snd (run_subpackages w b subs q tr))"
proof (induction subs arbitrary: q tr)
  case Nil
  then show ?case by simp
next
  case (Cons sp subs)
  from Cons.prems(1) have "subpackage_pipelines w b sp tr = (Inr True, tr)"
    by (simp add: subpackage_pipelines_def)
  then show ?case
    using Cons.prems
    by (auto simp: bind_res_def intro!: Cons.IH split: option.splits sum.splits prod.splits
             dest!: call_Inr)
       (auto simp: call_def split: option.splits)
qed

lemma report_warnings_all:
  "list_all (buildless_call ts) tr \<Longrightarrow>
   list_all (buildless_call ts) (snd (report_warnings f ws i tr))"
  by (induction ws arbitrary: i tr) auto

lemma lint_target_snd:
  "snd (lint_target w b lt tr) =
     snd (report_warnings (FailOnLintWarning b)
            (LintBuild_warnings w (tr @ [Ev_Log (Info (''running package linters for '' @ pkgName lt))])
               (pkgName lt) (melange_out b (pkgName lt)) (checks lt)) None
            (tr @ [Ev_Log (Info (''running package linters for '' @ pkgName lt)),
                   Ev_LintBuild (pkgName lt) (melange_out b (pkgName lt)) (checks lt)]))"
  by (simp add: lint_target_def logf_def bind_res_def Let_def split: prod.splits)

lemma lint_target_all:
  assumes "lt \<in> set ts" and "list_all (buildless_call ts) tr"
  shows "list_all (buildless_call ts) (snd (lint_target w b lt tr))"
proof -
  have lt: "\<lparr>pkgName = pkgName lt, checks = checks lt\<rparr> = lt" by simp
  show ?thesis
    unfolding lint_target_snd
    by (rule report_warnings_all) (simp add: assms lt)
qed

lemma lint_all_all:
  "set q \<subseteq> set ts \<Longrightarrow> list_all (buildless_call ts) tr \<Longrightarrow>
   list_all (buildless_call ts) (snd (lint_all w b q tr))"
proof (induction q arbitrary: tr)
  case Nil
  then show ?case by simp
next
  case (Cons lt q)
  show ?case
    unfolding lint_all.simps
    by (rule bind_res_all) (use Cons in \<open>auto intro!: lint_target_all\<close>)
qed

lemma sbom_subpackages_all:
  "IsBuildLess b \<Longrightarrow> list_all (buildless_call ts) tr \<Longrightarrow>
   list_all (buildless_call ts) (snd (sbom_subpackages w b subs tr))"
proof (induction subs arbitrary: tr)
  case Nil
  then show ?case by simp
next
  case (Cons sp subs)
  from Cons.prems(1) have g: "sbom_gate w b sp tr = (Inr True, tr)"
    by (simp add: sbom_gate_def)
  show ?case
    unfolding sbom_subpackages.simps g
    by (simp add: bind_res_def) (rule bind_res_all[unfolded bind_res_def], use Cons in \<open>auto intro!: call_all\<close>)
qed

lemma emit_subpackages_all:
  "list_all (buildless_call ts) tr \<Longrightarrow>
   list_all (buildless_call ts) (snd (emit_subpackages w b subs tr))"
proof (induction subs arbitrary: tr)
  case Nil
  then show ?case by simp
next
  case (Cons sp subs)
  show ?case
  proof (cases "ShouldRun (w_eval w) (mk_pb b (Some sp)) sp")
    case (Inl e)
    with Cons.prems show ?thesis by simp
  next
    case (Inr result)
    show ?thesis
    proof (cases result)
      case False
      with Inr Cons show ?thesis by simp
    next
      case True
      have "list_all (buildless_call ts)
              (snd (bind_res (call w (Ev_Emit (Some sp)) (wrapf ''unable to emit package'') tr)
                      (\<lambda>_ tr. emit_subpackages w b subs tr)))"
        by (rule bind_res_all) (use Cons in \<open>auto intro!: call_all\<close>)
      with Inr True show ?thesis by simp
    qed
  qed
qed

lemma cleanup_all:
  "IsBuildLess b \<Longrightarrow> list_all (buildless_call ts) tr \<Longrightarrow>
   list_all (buildless_call ts) (snd (cleanup w b tr))"
  by (auto simp: cleanup_def bind_res_def intro!: call_warn_all)

lemma generate_index_all:
  assumes "list_all (buildless_call ts) tr"
  shows "list_all (buildless_call ts) (snd (generate_index w b tr))"
proof (cases "GenerateIndex b")
  case False
  with assms show ?thesis by (simp add: generate_index_def)
next
  case True
  have "list_all (buildless_call ts)
          (snd (bind_res (logf (Info (''generating apk index from packages in '' @ packageDir w b)) tr) (\<lambda>_ tr.
          case index_files w b (cfg_Subpackages (Configuration b))
                 [filepath_Join [packageDir w b, apk_file_name b (pkg_Name (cfg_Package (Configuration b)))]] of
            Inl err \<Rightarrow> (Inl err, tr)
          | Inr apkFiles \<Rightarrow>
              bind_res (call w (Ev_index_New apkFiles (SigningKey b)
                                  (filepath_Join [packageDir w b, ''APKINDEX.tar.gz'']))
                          (wrapf ''unable to create index'') tr) (\<lambda>_ tr.
              bind_res (call w Ev_GenerateIndex (wrapf ''unable to generate index'') tr) (\<lambda>_ tr.
              call w (Ev_WriteJSONIndex (filepath_Join [packageDir w b, ''APKINDEX.json'']))
                (wrapf ''unable to generate JSON index'') tr)))))"
    by (rule bind_res_all)
       (use assms in \<open>auto intro!: logf_all bind_res_all call_all split: sum.splits
                          simp del: filepath_Join.simps\<close>)
  with True show ?thesis by (simp add: generate_index_def del: filepath_Join.simps)
qed

lemma finish_build_all:
  assumes "IsBuildLess b" and "list_all (buildless_call (map sub_target (Subpackages b))) tr"
  shows "list_all (buildless_call (map sub_target (Subpackages b))) (snd (finish_build w b [] tr))"
  unfolding finish_build_def
proof (rule bind_res_all)
  show "list_all (buildless_call (map sub_target (Subpackages b)))
          (snd (run_subpackages w b (cfg_Subpackages (Configuration b)) [] tr))"
    using assms by (intro run_subpackages_all)
next
  fix q t1
  assume run: "run_subpackages w b (cfg_Subpackages (Configuration b)) [] tr = (Inr q, t1)"
    and t1: "list_all (buildless_call (map sub_target (Subpackages b))) t1"
  from run_subpackages_Inr[OF run] assms(1) have q: "set q \<subseteq> set (map sub_target (Subpackages b))"
    by (simp add: Subpackages_def)
  show "list_all (buildless_call (map sub_target (Subpackages b)))
          (snd (bind_res (logf (Info (''retrieving workspace from builder: '' @
                           (case containerConfig b of None \<Rightarrow> [] | Some cfg \<Rightarrow> cc_PodID cfg))) t1) (\<lambda>_ tr.
     bind_res (call w Ev_RetrieveWorkspace (wrapf ''retrieving workspace'') tr) (\<lambda>_ tr.
     bind_res (logf (Info (''retrieved and wrote post-build workspace to: '' @ WorkspaceDir b)) tr) (\<lambda>_ tr.
     bind_res (lint_all w b q tr) (\<lambda>_ tr.
     bind_res (sbom_subpackages w b (cfg_Subpackages (Configuration b)) tr) (\<lambda>_ tr.
     bind_res (call w (Ev_GenerateSBOM (sbom_spec w b (pkg_Name (cfg_Package (Configuration b)))))
                 (wrapf ''writing SBOMs'') tr) (\<lambda>_ tr.
     bind_res (call w (Ev_Emit None) (wrapf ''unable to emit package'') tr) (\<lambda>_ tr.
     bind_res (emit_subpackages w b (cfg_Subpackages (Configuration b)) tr) (\<lambda>_ tr.
     bind_res (cleanup w b tr) (\<lambda>_ tr.
     generate_index w b tr)))))))))))"
    using t1 q assms(1)
    by (intro bind_res_all logf_all call_all lint_all_all sbom_subpackages_all emit_subpackages_all
          cleanup_all generate_index_all) simp_all
qed

text \<open>A build-less run makes only the calls of \<open>buildless_call\<close>, whatever it returns.\<close>

lemma BuildPackage_buildless_all:
  assumes "IsBuildLess b"
  shows "list_all (buildless_call (map sub_target (Subpackages b))) (snd (BuildPackage w b []))"
  unfolding BuildPackage_def
proof (rule bind_res_all)
  show "list_all (buildless_call (map sub_target (Subpackages b))) (snd (prepare_build w b []))"
    by (rule prepare_build_all) simp
next
  fix x t1
  assume prep: "prepare_build w b [] = (Inr x, t1)"
    and t1: "list_all (buildless_call (map sub_target (Subpackages b))) t1"
  obtain cfg b1 where x: "x = (cfg, b1)" by (cases x)
  from prepare_build_Inr[OF prep[unfolded x]] have p: "patched b b1" by simp
  have bl: "IsBuildLess b1" and subs: "Subpackages b1 = Subpackages b"
    using patched_fields(1,2)[OF p] assms by simp_all
  from finish_build_all[OF bl, of t1 w] t1 subs bl x
  show "list_all (buildless_call (map sub_target (Subpackages b)))
          (snd ((case x of (cfg, b) \<Rightarrow> \<lambda>tr.
             if \<not> IsBuildLess b then
               bind_res (start_container w b cfg tr) (\<lambda>(cfg, b) tr.
                 deferred_TerminatePod w b
                   (bind_res (logf (Debug ''running the main pipeline'') tr) (\<lambda>_ tr.
                    bind_res (Run_all w None (cfg_Pipeline (Configuration b)) tr) (\<lambda>_ tr.
                    finish_build w b
                      [\<lparr>pkgName = pkg_Name (cfg_Package (Configuration b)),
                        checks = pkg_Checks (cfg_Package (Configuration b))\<rparr>] tr))))
             else finish_build w b [] tr) t1))"
    by simp
qed

lemma buildless_call_projections:
  "list_all (buildless_call ts) tr \<Longrightarrow>
   container_calls tr = [] \<and> pipelines_run tr = [] \<and> set (lint_targets tr) \<subseteq> set ts"
proof (induction tr)
  case Nil
  show ?case by (simp add: container_calls_def pipelines_run_def lint_targets_def)
next
  case (Cons e tr)
  then show ?case
    by (cases e)
       (auto simp: container_calls_def pipelines_run_def lint_targets_def buildless_call_def)
qed

subsection \<open>The subpackages that each phase takes\<close>

lemmas run_defs = BuildPackage_def prepare_build_def finish_build_def bind_res_def call_def logf_def
  call_warn_def provision_GuestDir_def prepare_workspace_def WorkspaceConfig_def buildWorkspaceConfig_def
  cache_mounts_def start_container_def OverlayBinSh_def deferred_TerminatePod_def subpackage_pipelines_def
  lint_target_def sbom_gate_def cleanup_def generate_index_def Summarize_def IsBuildLess_def
  ShouldRun_def lookupWith_def mk_pb_def set_Environment_def melange_out_def sbom_spec_def
  version_release_def namespace_of_def apk_file_name_def packageDir_def wrapf_def

lemmas example_defs = example_world_def example_Build_def buildless_Build_def example_Configuration_def
  example_evaluator_def example_cfg_world_def initial_Build_def example_new_world_def strict_Build_def
  usrmerge_warning_def lib_doc_def lib_dev_def

lemmas projection_defs = pipelines_run_def lint_targets_def sbom_requests_def emitted_packages_def
  index_lists_def container_calls_def sub_target_def sub_sbom_def main_sbom_def main_target_def
  apk_path_def sub_runs_def Subpackages_def

text \<open>The two concrete runs: the example recipe, and the same recipe build-less.\<close>

lemma example_run:
  "BuildPackage (example_world []) example_Build [] =
     (Inr (), snd (BuildPackage (example_world []) example_Build []))"
  "observed (snd (BuildPackage (example_world []) example_Build [])) =
     [GuestBuilt, CachePopulated, PodStarted, Ran ''make'' None, Ran ''split-doc'' (Some lib_doc),
      Linted (main_target example_Build), Linted (sub_target lib_doc),
      SBOMGenerated (sub_sbom (example_world []) example_Build lib_doc),
      SBOMGenerated (main_sbom (example_world []) example_Build),
      Emitted None, Emitted (Some lib_doc), PodTerminated]"
  by (simp_all add: run_defs example_defs projection_defs Let_def digit_char_def)

lemma buildless_run:
  "BuildPackage (example_world []) buildless_Build [] =
     (Inr (), snd (BuildPackage (example_world []) buildless_Build []))"
  "observed (snd (BuildPackage (example_world []) buildless_Build [])) =
     [Linted (sub_target lib_doc), Linted (sub_target lib_dev),
      SBOMGenerated (sub_sbom (example_world []) buildless_Build lib_doc),
      SBOMGenerated (sub_sbom (example_world []) buildless_Build lib_dev),
      SBOMGenerated (main_sbom (example_world []) buildless_Build),
      Emitted None, Emitted (Some lib_doc),
      Indexed [''/out/x86_64/lib-1.0-r0.apk'', ''/out/x86_64/lib-doc-1.0-r0.apk'']]"
  by (simp_all add: run_defs example_defs projection_defs Let_def digit_char_def)

lemma example_facts:
  "\<not> IsBuildLess example_Build" "IsBuildLess buildless_Build"
  "Subpackages example_Build = [lib_doc, lib_dev]" "Subpackages buildless_Build = [lib_doc, lib_dev]"
  "cfg_Pipeline (Configuration example_Build) = [''make'']"
  "GenerateIndex buildless_Build" "\<not> GenerateIndex example_Build"
  "sp_If lib_doc = []" "lib_doc \<noteq> lib_dev"
  "in_scope (example_world ws) b' lib_doc" "\<not> in_scope (example_world ws) b' lib_dev"
  by (simp_all add: IsBuildLess_def Subpackages_def example_defs in_scope_def ShouldRun_def lookupWith_def)

text \<open>
  Claim C1, as stated, fails for a build-less build: the pipeline phase and the SBOM
  phase do not consult \<open>if\<close> there, the emit and the index phase do. The build-less
  run of the example recipe lints \<open>lib-dev\<close> and writes its SBOM, but neither emits
  nor indexes it.
\<close>

theorem C1_counterexample:
  "IsBuildLess buildless_Build \<and>
   fst (BuildPackage (example_world []) buildless_Build []) = Inr () \<and>
   sub_target lib_dev \<in> set (lint_targets (snd (BuildPackage (example_world []) buildless_Build []))) \<and>
   sub_sbom (example_world []) buildless_Build lib_dev
     \<in> set (sbom_requests (snd (BuildPackage (example_world []) buildless_Build []))) \<and>
   Some lib_dev \<notin> set (emitted_packages (snd (BuildPackage (example_world []) buildless_Build []))) \<and>
   index_lists (snd (BuildPackage (example_world []) buildless_Build [])) =
     [[''/out/x86_64/lib-1.0-r0.apk'', ''/out/x86_64/lib-doc-1.0-r0.apk'']]"
proof -
  have "fst (BuildPackage (example_world []) buildless_Build []) = Inr ()"
    using buildless_run(1) by (metis fst_conv)
  moreover have "Some lib_dev \<noteq> Some lib_doc" using example_facts(9) by simp
  ultimately show ?thesis
    unfolding lint_targets_def sbom_requests_def emitted_packages_def index_lists_def buildless_run(2)
    using example_facts(2) by simp
qed

text \<open>
  Claim C1, amended. In a build that returns \<open>nil\<close> there is one decision for every
  subpackage, that of \<open>ShouldRun\<close> on the prepared build, and the emit phase and the
  index file list take exactly the subpackages for which it holds. When the build is
  not build-less, the subpackage pipeline phase, the lint queue and the SBOM phase
  take exactly the same subpackages. When it is build-less, the lint queue and the
  SBOM phase take every subpackage without consulting \<open>if\<close>.
\<close>

theorem C1_subpackage_scope:
  assumes "BuildPackage w b [] = (Inr x, tr)"
  shows "\<exists>b'. patched b b' \<and>
     emitted_packages tr = None # map Some (filter (in_scope w b') (Subpackages b)) \<and>
     index_lists tr =
       (if GenerateIndex b
        then [apk_path w b (pkg_Name (cfg_Package (Configuration b))) #
              map (\<lambda>sp. apk_path w b (sp_Name sp)) (filter (in_scope w b') (Subpackages b))]
        else []) \<and>
     (\<not> IsBuildLess b \<longrightarrow>
        pipelines_run tr = map (\<lambda>p. (p, None)) (cfg_Pipeline (Configuration b)) @
                           concat (map sub_runs (filter (in_scope w b') (Subpackages b))) \<and>
        lint_targets tr = main_target b # map sub_target (filter (in_scope w b') (Subpackages b)) \<and>
        sbom_requests tr = map (sub_sbom w b) (filter (in_scope w b') (Subpackages b)) @ [main_sbom w b]) \<and>
     (IsBuildLess b \<longrightarrow>
        pipelines_run tr = [] \<and>
        lint_targets tr = map sub_target (Subpackages b) \<and>
        sbom_requests tr = map (sub_sbom w b) (Subpackages b) @ [main_sbom w b])"
proof -
  from BuildPackage_projections[OF assms] obtain b' where
    "patched b b'" and
    "pipelines_run tr =
       (if IsBuildLess b then []
        else map (\<lambda>p. (p, None)) (cfg_Pipeline (Configuration b)) @
             concat (map sub_runs (filter (in_scope w b') (Subpackages b))))" and
    "lint_targets tr =
       (if IsBuildLess b then map sub_target (Subpackages b)
        else main_target b # map sub_target (filter (in_scope w b') (Subpackages b)))" and
    "sbom_requests tr =
       map (sub_sbom w b) (if IsBuildLess b then Subpackages b else filter (in_scope w b') (Subpackages b)) @
       [main_sbom w b]" and
    "emitted_packages tr = None # map Some (filter (in_scope w b') (Subpackages b))" and
    "index_lists tr =
       (if GenerateIndex b
        then [apk_path w b (pkg_Name (cfg_Package (Configuration b))) #
              map (\<lambda>sp. apk_path w b (sp_Name sp)) (filter (in_scope w b') (Subpackages b))]
        else [])"
    by blast
  then show ?thesis by (intro exI[of _ b']) simp
qed

theorem C1_witness:
  "pipelines_run (snd (BuildPackage (example_world []) example_Build [])) =
     [(''make'', None), (''split-doc'', Some lib_doc)] \<and>
   lint_targets (snd (BuildPackage (example_world []) example_Build [])) =
     [main_target example_Build, sub_target lib_doc] \<and>
   sbom_requests (snd (BuildPackage (example_world []) example_Build [])) =
     [sub_sbom (example_world []) example_Build lib_doc, main_sbom (example_world []) example_Build] \<and>
   emitted_packages (snd (BuildPackage (example_world []) example_Build [])) = [None, Some lib_doc] \<and>
   index_lists (snd (BuildPackage (example_world []) example_Build [])) = []"
  using C1_subpackage_scope[OF example_run(1)] example_facts
  by (auto simp: sub_runs_def lib_doc_def)

subsection \<open>Build-less builds\<close>

text \<open>
  Claim C2, as stated, fails: a build-less build does lint. The subpackages are put
  on the lint queue outside of the test for a build-less build, and the build-less
  run of the example recipe lints both of them.
\<close>

theorem C2_counterexample:
  "IsBuildLess buildless_Build \<and>
   fst (BuildPackage (example_world []) buildless_Build []) = Inr () \<and>
   lint_targets (snd (BuildPackage (example_world []) buildless_Build [])) =
     [sub_target lib_doc, sub_target lib_dev]"
proof -
  have "fst (BuildPackage (example_world []) buildless_Build []) = Inr ()"
    using buildless_run(1) by (metis fst_conv)
  then show ?thesis
    unfolding lint_targets_def buildless_run(2) using example_facts(2) by simp
qed

text \<open>
  Claim C2, amended. A build-less build, whatever it returns, builds no guest, does
  not populate the cache, starts and terminates no pod and runs no pipeline step;
  it does not lint the main package, but it lints subpackages. When it returns
  \<open>nil\<close>, every subpackage has been linted, an SBOM has been requested for every
  subpackage and then for the main package, the main package has been emitted and
  then every subpackage for which \<open>ShouldRun\<close> holds, and, when \<open>GenerateIndex\<close> is
  set, the indexer got the archives of the main package and of these subpackages.
\<close>

theorem C2_buildless:
  assumes "IsBuildLess b" and "BuildPackage w b [] = (r, tr)"
  shows "container_calls tr = [] \<and> pipelines_run tr = [] \<and>
         set (lint_targets tr) \<subseteq> set (map sub_target (Subpackages b)) \<and>
         (r = Inr () \<longrightarrow>
            (\<exists>b'. patched b b' \<and>
               lint_targets tr = map sub_target (Subpackages b) \<and>
               sbom_requests tr = map (sub_sbom w b) (Subpackages b) @ [main_sbom w b] \<and>
               emitted_packages tr = None # map Some (filter (in_scope w b') (Subpackages b)) \<and>
               index_lists tr =
                 (if GenerateIndex b
                  then [apk_path w b (pkg_Name (cfg_Package (Configuration b))) #
                        map (\<lambda>sp. apk_path w b (sp_Name sp)) (filter (in_scope w b') (Subpackages b))]
                  else [])))"
proof -
  from BuildPackage_buildless_all[OF assms(1), of w] assms(2)
  have "list_all (buildless_call (map sub_target (Subpackages b))) tr" by simp
  from buildless_call_projections[OF this]
  have any: "container_calls tr = [] \<and> pipelines_run tr = [] \<and>
             set (lint_targets tr) \<subseteq> set (map sub_target (Subpackages b))" .
  have "\<exists>b'. patched b b' \<and>
               lint_targets tr = map sub_target (Subpackages b) \<and>
               sbom_requests tr = map (sub_sbom w b) (Subpackages b) @ [main_sbom w b] \<and>
               emitted_packages tr = None # map Some (filter (in_scope w b') (Subpackages b)) \<and>
               index_lists tr =
                 (if GenerateIndex b
                  then [apk_path w b (pkg_Name (cfg_Package (Configuration b))) #
                        map (\<lambda>sp. apk_path w b (sp_Name sp)) (filter (in_scope w b') (Subpackages b))]
                  else [])" if "r = Inr ()"
  proof -
    from assms(2) that have "BuildPackage w b [] = (Inr (), tr)" by simp
    from BuildPackage_projections[OF this] obtain b' where
      "patched b b'" and
      "lint_targets tr =
         (if IsBuildLess b then map sub_target (Subpackages b)
          else main_target b # map sub_target (filter (in_scope w b') (Subpackages b)))" and
      "sbom_requests tr =
         map (sub_sbom w b) (if IsBuildLess b then Subpackages b else filter (in_scope w b') (Subpackages b)) @
         [main_sbom w b]" and
      "emitted_packages tr = None # map Some (filter (in_scope w b') (Subpackages b))" and
      "index_lists tr =
         (if GenerateIndex b
          then [apk_path w b (pkg_Name (cfg_Package (Configuration b))) #
                map (\<lambda>sp. apk_path w b (sp_Name sp)) (filter (in_scope w b') (Subpackages b))]
          else [])"
      by blast
    with assms(1) show ?thesis by (intro exI[of _ b']) simp
  qed
  with any show ?thesis by blast
qed

theorem C2_witness:
  "container_calls (snd (BuildPackage (example_world []) buildless_Build [])) = [] \<and>
   pipelines_run (snd (BuildPackage (example_world []) buildless_Build [])) = [] \<and>
   sbom_requests (snd (BuildPackage (example_world []) buildless_Build [])) =
     [sub_sbom (example_world []) buildless_Build lib_doc,
      sub_sbom (example_world []) buildless_Build lib_dev,
      main_sbom (example_world []) buildless_Build] \<and>
   emitted_packages (snd (BuildPackage (example_world []) buildless_Build [])) = [None, Some lib_doc] \<and>
   index_lists (snd (BuildPackage (example_world []) buildless_Build [])) =
     [[apk_path (example_world []) buildless_Build ''lib'',
       apk_path (example_world []) buildless_Build ''lib-doc'']]"
  using C2_buildless[OF example_facts(2) buildless_run(1)] example_facts
  by (auto simp: lib_doc_def buildless_Build_def example_Build_def example_Configuration_def)

subsection \<open>The lint phase\<close>

lemma report_warnings_strict:
  "fst (report_warnings True ws i tr) = (if ws = [] then i else Some (last ws))"
  by (induction ws arbitrary: i) auto

lemma report_warnings_permissive:
  "report_warnings False ws i tr =
     (i, tr @ map (\<lambda>err. Ev_Log (Warn (''WARNING: '' @ error_text err))) ws)"
  by (induction ws arbitrary: tr) auto

text \<open>
  The parts of claim C3 that hold for the lint of a target: an error of the linter
  itself fails the build under either policy, and without \<open>FailOnLintWarning\<close> the
  warnings are logged and the lint of the target succeeds.
\<close>

lemma lint_target_linter_error:
  assumes "fails w (tr @ [Ev_Log (Info (''running package linters for '' @ pkgName lt))])
             (Ev_LintBuild (pkgName lt) (melange_out b (pkgName lt)) (checks lt)) = Some e"
  shows "fst (lint_target w b lt tr) = Inl (Errorf ''package linter error'' (Some e))"
  using assms by (simp add: lint_target_def logf_def bind_res_def Let_def split: prod.splits)

lemma lint_target_permissive:
  assumes "\<not> FailOnLintWarning b"
    and "fails w (tr @ [Ev_Log (Info (''running package linters for '' @ pkgName lt))])
             (Ev_LintBuild (pkgName lt) (melange_out b (pkgName lt)) (checks lt)) = None"
  shows "lint_target w b lt tr =
     (Inr (), tr @ [Ev_Log (Info (''running package linters for '' @ pkgName lt)),
                    Ev_LintBuild (pkgName lt) (melange_out b (pkgName lt)) (checks lt)] @
              map (\<lambda>err. Ev_Log (Warn (''WARNING: '' @ error_text err)))
                (LintBuild_warnings w (tr @ [Ev_Log (Info (''running package linters for '' @ pkgName lt))])
                   (pkgName lt) (melange_out b (pkgName lt)) (checks lt)))"
  using assms
  by (simp add: lint_target_def logf_def bind_res_def Let_def report_warnings_permissive)

text \<open>
  With \<open>FailOnLintWarning\<close>, a warning fails the build when the lint of the target
  ends, but the error wraps \<open>nil\<close>, whatever the warnings were.
\<close>

lemma lint_target_strict:
  assumes "FailOnLintWarning b"
    and "fails w (tr @ [Ev_Log (Info (''running package linters for '' @ pkgName lt))])
             (Ev_LintBuild (pkgName lt) (melange_out b (pkgName lt)) (checks lt)) = None"
    and "LintBuild_warnings w (tr @ [Ev_Log (Info (''running package linters for '' @ pkgName lt))])
           (pkgName lt) (melange_out b (pkgName lt)) (checks lt) \<noteq> []"
  shows "fst (lint_target w b lt tr) = Inl (Errorf ''package linter warning'' None)"
proof -
  let ?tr1 = "tr @ [Ev_Log (Info (''running package linters for '' @ pkgName lt))]"
  let ?rw = "report_warnings True
               (LintBuild_warnings w ?tr1 (pkgName lt) (melange_out b (pkgName lt)) (checks lt)) None
               (?tr1 @ [Ev_LintBuild (pkgName lt) (melange_out b (pkgName lt)) (checks lt)])"
  have "fst ?rw \<noteq> None" using assms(3) by (simp add: report_warnings_strict)
  then show ?thesis
    using assms(1,2)
    by (cases ?rw) (auto simp: lint_target_def logf_def bind_res_def Let_def)
qed

text \<open>
  Claim C3. With \<open>FailOnLintWarning\<close> set and one warning from the linter, the build
  of the example recipe fails, but its error wraps \<open>nil\<close> and not the warning:
  \<open>errors.Is\<close> does not find the warning in it. The claim says that the error
  identifies the warning.
\<close>

theorem C3_strict_warning_is_lost:
  "FailOnLintWarning strict_Build \<and>
   fst (BuildPackage (example_world [usrmerge_warning]) strict_Build []) =
     Inl (Errorf ''package linter warning'' None) \<and>
   \<not> errors_Is (Errorf ''package linter warning'' None) usrmerge_warning"
  by (simp add: run_defs example_defs Let_def digit_char_def)

subsection \<open>Subpackages without a condition\<close>

text \<open>
  Claim C10. For a subpackage whose \<open>if\<close> is empty, \<open>ShouldRun\<close> returns true
  whatever the evaluator is, so no expression is evaluated. In a build that returns
  \<open>nil\<close>, such a subpackage is linted, has its SBOM requested, is emitted and, when
  \<open>GenerateIndex\<close> is set, is in the file list of the index; when the build is not
  build-less its pipeline steps have run.
\<close>

theorem C10_empty_if_in_scope:
  assumes "sp_If sp = []"
  shows "ShouldRun ev pb sp = Inr True \<and>
         (sp \<in> set (Subpackages b) \<and> BuildPackage w b [] = (Inr x, tr) \<longrightarrow>
            sub_target sp \<in> set (lint_targets tr) \<and>
            (\<not> IsBuildLess b \<longrightarrow> set (sub_runs sp) \<subseteq> set (pipelines_run tr)) \<and>
            sub_sbom w b sp \<in> set (sbom_requests tr) \<and>
            Some sp \<in> set (emitted_packages tr) \<and>
            (GenerateIndex b \<longrightarrow>
               (\<exists>files. index_lists tr = [files] \<and> apk_path w b (sp_Name sp) \<in> set files)))"
proof -
  have sr: "ShouldRun ev' pb' sp = Inr True" for ev' pb'
    using assms by (simp add: ShouldRun_def)
  have "sub_target sp \<in> set (lint_targets tr) \<and>
            (\<not> IsBuildLess b \<longrightarrow> set (sub_runs sp) \<subseteq> set (pipelines_run tr)) \<and>
            sub_sbom w b sp \<in> set (sbom_requests tr) \<and>
            Some sp \<in> set (emitted_packages tr) \<and>
            (GenerateIndex b \<longrightarrow>
               (\<exists>files. index_lists tr = [files] \<and> apk_path w b (sp_Name sp) \<in> set files))"
    if mem: "sp \<in> set (Subpackages b)" and run: "BuildPackage w b [] = (Inr x, tr)"
  proof -
    from BuildPackage_projections[OF run] obtain b' where
      pr: "pipelines_run tr =
         (if IsBuildLess b then []
          else map (\<lambda>p. (p, None)) (cfg_Pipeline (Configuration b)) @
               concat (map sub_runs (filter (in_scope w b') (Subpackages b))))" and
      lt: "lint_targets tr =
         (if IsBuildLess b then map sub_target (Subpackages b)
          else main_target b # map sub_target (filter (in_scope w b') (Subpackages b)))" and
      sb: "sbom_requests tr =
         map (sub_sbom w b) (if IsBuildLess b then Subpackages b else filter (in_scope w b') (Subpackages b)) @
         [main_sbom w b]" and
      em: "emitted_packages tr = None # map Some (filter (in_scope w b') (Subpackages b))" and
      ix: "index_lists tr =
         (if GenerateIndex b
          then [apk_path w b (pkg_Name (cfg_Package (Configuration b))) #
                map (\<lambda>sp. apk_path w b (sp_Name sp)) (filter (in_scope w b') (Subpackages b))]
          else [])"
      by blast
    have scope: "sp \<in> set (filter (in_scope w b') (Subpackages b))"
      using mem sr by (simp add: in_scope_def)
    have "sub_target sp \<in> set (lint_targets tr)" using lt mem scope by auto
    moreover have "\<not> IsBuildLess b \<longrightarrow> set (sub_runs sp) \<subseteq> set (pipelines_run tr)"
      using pr scope by auto
    moreover have "sub_sbom w b sp \<in> set (sbom_requests tr)" using sb mem scope by auto
    moreover have "Some sp \<in> set (emitted_packages tr)" using em scope by auto
    moreover have "GenerateIndex b \<longrightarrow>
               (\<exists>files. index_lists tr = [files] \<and> apk_path w b (sp_Name sp) \<in> set files)"
      using ix scope by auto
    ultimately show ?thesis by blast
  qed
  with sr show ?thesis by blast
qed

theorem C10_witness:
  "ShouldRun example_evaluator (mk_pb example_Build (Some lib_doc)) lib_doc = Inr True \<and>
   sub_target lib_doc \<in> set (lint_targets (snd (BuildPackage (example_world []) example_Build []))) \<and>
   set (sub_runs lib_doc) \<subseteq> set (pipelines_run (snd (BuildPackage (example_world []) example_Build []))) \<and>
   sub_sbom (example_world []) example_Build lib_doc
     \<in> set (sbom_requests (snd (BuildPackage (example_world []) example_Build []))) \<and>
   Some lib_doc \<in> set (emitted_packages (snd (BuildPackage (example_world []) example_Build []))) \<and>
   (\<exists>files. index_lists (snd (BuildPackage (example_world []) buildless_Build [])) = [files] \<and>
            apk_path (example_world []) buildless_Build (sp_Name lib_doc) \<in> set files)"
proof -
  have m1: "lib_doc \<in> set (Subpackages example_Build)" and m2: "lib_doc \<in> set (Subpackages buildless_Build)"
    using example_facts(3,4) by simp_all
  from C10_empty_if_in_scope[OF example_facts(8), of example_evaluator
      "mk_pb example_Build (Some lib_doc)" example_Build "example_world []" "()"
      "snd (BuildPackage (example_world []) example_Build [])"]
    m1 example_run(1) example_facts(1)
  have a: "ShouldRun example_evaluator (mk_pb example_Build (Some lib_doc)) lib_doc = Inr True \<and>
   sub_target lib_doc \<in> set (lint_targets (snd (BuildPackage (example_world []) example_Build []))) \<and>
   set (sub_runs lib_doc) \<subseteq> set (pipelines_run (snd (BuildPackage (example_world []) example_Build []))) \<and>
   sub_sbom (example_world []) example_Build lib_doc
     \<in> set (sbom_requests (snd (BuildPackage (example_world []) example_Build []))) \<and>
   Some lib_doc \<in> set (emitted_packages (snd (BuildPackage (example_world []) example_Build [])))"
    by simp
  from C10_empty_if_in_scope[OF example_facts(8), of example_evaluator
      "mk_pb example_Build (Some lib_doc)" buildless_Build "example_world []" "()"
      "snd (BuildPackage (example_world []) buildless_Build [])"]
    m2 buildless_run(1) example_facts(6)
  have "\<exists>files. index_lists (snd (BuildPackage (example_world []) buildless_Build [])) = [files] \<and>
            apk_path (example_world []) buildless_Build (sp_Name lib_doc) \<in> set files"
    by simp
  with a show ?thesis by blast
qed

subsection \<open>Cache population\<close>

lemma downloads_simps [simp]:
  "downloads [] = []" "downloads (e # es) = download_of e @ downloads es"
  "downloads (xs @ ys) = downloads xs @ downloads ys"
  by (simp_all add: downloads_def)

lemma copies_simps [simp]:
  "copies [] = []" "copies (e # es) = copy_of e @ copies es"
  "copies (xs @ ys) = copies xs @ copies ys"
  by (simp_all add: copies_def)

lemma os_call_trace: "snd (os_call w e wrap tr) = tr @ [e]"
  by (simp add: os_call_def split: option.splits)

lemma then_os_cases:
  assumes "then_os m f = (r, tr')"
  obtains (stop) err where "m = (Some err, tr')" "r = Some err"
        | (go) tr1 where "m = (None, tr1)" "f tr1 = (r, tr')"
  using assms by (cases m; cases "fst m") (auto simp: then_os_def)

text \<open>
  \<open>copyFile\<close> opens no reader; it ends with the \<open>Chmod\<close> of the destination when it
  returns \<open>nil\<close>, and makes no other \<open>Chmod\<close>.
\<close>

lemma copyFile_run:
  assumes "copyFile w base src dest perm tr = (r, tr')"
  shows "downloads tr' = downloads tr \<and>
         (copies tr' = copies tr \<or> copies tr' = copies tr @ [(filepath_Join [dest, src], perm)]) \<and>
         (r = None \<longrightarrow> copies tr' = copies tr @ [(filepath_Join [dest, src], perm)])"
  using assms unfolding copyFile_def Let_def
  by (auto elim!: then_os_cases simp: os_call_def simp del: filepath_Join.simps split: option.splits)

lemma walk_callback_run:
  assumes "walk_callback w tmp cacheDir e tr = (r, tr')"
  shows "downloads tr' = downloads tr \<and>
         (copies tr' = copies tr \<or> copyable e \<and> copies tr' = copies tr @ [copy_target cacheDir e]) \<and>
         (r = None \<longrightarrow> copies tr' = copies tr @ (if copyable e then [copy_target cacheDir e] else []))"
proof (cases "copyable e")
  case False
  with assms show ?thesis
    by (auto simp: walk_callback_def copyable_def split: option.splits sum.splits if_splits)
next
  case True
  then obtain fi where fi: "we_err e = None" "we_Info e = Inr fi" "IsRegular fi"
    "strings_HasPrefix (filepath_Base (fi_Name fi)) ''sha256:'' \<or>
     strings_HasPrefix (filepath_Base (fi_Name fi)) ''sha512:''"
    by (auto simp: copyable_def split: sum.splits)
  with assms have "copyFile w tmp (we_path e) cacheDir (Perm fi)
                     (tr @ [Os_Log (Debug (''  -> '' @ we_path e))]) = (r, tr')"
    by (auto simp: walk_callback_def)
  from copyFile_run[OF this] True fi(2) show ?thesis
    by (auto simp: copy_target_def simp del: filepath_Join.simps)
qed

lemma WalkDir_run:
  "WalkDir w tmp cacheDir es tr = (r, tr') \<Longrightarrow>
   downloads tr' = downloads tr \<and>
   (\<exists>cs. copies tr' = copies tr @ cs \<and>
         set cs \<subseteq> copy_target cacheDir ` {e \<in> set es. copyable e} \<and>
         (r = None \<longrightarrow> cs = map (copy_target cacheDir) (filter copyable es)))"
proof (induction es arbitrary: tr)
  case Nil
  then show ?case by simp
next
  case (Cons e es)
  from Cons.prems show ?case
    unfolding WalkDir.simps
  proof (cases rule: then_os_cases)
    case (stop err)
    from walk_callback_run[OF stop(1)] stop(2) show ?thesis by auto
  next
    case (go tr1)
    from walk_callback_run[OF go(1)] have
      d1: "downloads tr1 = downloads tr" and
      c1: "copies tr1 = copies tr @ (if copyable e then [copy_target cacheDir e] else [])"
      by simp_all
    from Cons.IH[OF go(2)] obtain cs where
      d2: "downloads tr' = downloads tr1" and
      c2: "copies tr' = copies tr1 @ cs" and
      s2: "set cs \<subseteq> copy_target cacheDir ` {e \<in> set es. copyable e}" and
      r2: "r = None \<longrightarrow> cs = map (copy_target cacheDir) (filter copyable es)"
      by blast
    show ?thesis
    proof (intro conjI exI[of _ "(if copyable e then [copy_target cacheDir e] else []) @ cs"])
      show "downloads tr' = downloads tr" using d1 d2 by simp
      show "copies tr' = copies tr @ (if copyable e then [copy_target cacheDir e] else []) @ cs"
        using c1 c2 by simp
      show "set ((if copyable e then [copy_target cacheDir e] else []) @ cs)
              \<subseteq> copy_target cacheDir ` {ea \<in> set (e # es). copyable ea}"
        using s2 by auto
      show "r = None \<longrightarrow> (if copyable e then [copy_target cacheDir e] else []) @ cs =
              map (copy_target cacheDir) (filter copyable (e # es))"
        using r2 by simp
    qed
  qed
qed

text \<open>The fetch loop opens a reader only for listed names of the membership map.\<close>

lemma fetch_objects_run:
  "fetch_objects w tmp bucket cmm ons end_err tr = (r, tr') \<Longrightarrow>
   copies tr' = copies tr \<and>
   (\<exists>ds. downloads tr' = downloads tr @ ds \<and>
         set ds \<subseteq> {on \<in> set ons. cmm on} \<and>
         (r = None \<longrightarrow> ds = filter cmm ons))"
proof (induction ons arbitrary: tr)
  case Nil
  then show ?case by (auto split: option.splits)
next
  case (Cons on ons)
  show ?case
  proof (cases "cmm on")
    case False
    with Cons.prems have "fetch_objects w tmp bucket cmm ons end_err tr = (r, tr')" by simp
    from Cons.IH[OF this] False show ?thesis by auto
  next
    case True
    let ?p = "filepath_Join [tmp, on]"
    let ?log = "Os_Log (Info (''cached gs://'' @ bucket @ ''/'' @ on @ '' -> '' @ ?p))"
    from Cons.prems True consider
        (failed) "copies tr' = copies tr" "downloads tr' = downloads tr @ [on]" "r \<noteq> None"
      | (next_one) "fetch_objects w tmp bucket cmm ons end_err
           (tr @ [Os_NewReader on, Os_Create ?p, Os_Copy ?p, Os_CloseReader on, ?log]) = (r, tr')"
      by (auto elim!: then_os_cases simp: os_call_def simp del: filepath_Join.simps
               split: option.splits)
    then show ?thesis
    proof cases
      case failed
      with True show ?thesis by auto
    next
      case next_one
      from Cons.IH[OF this] obtain ds where
        c: "copies tr' = copies tr" and
        d: "downloads tr' = downloads tr @ on # ds" and
        s: "set ds \<subseteq> {on \<in> set ons. cmm on}" and
        r: "r = None \<longrightarrow> ds = filter cmm ons"
        by auto
      show ?thesis
      proof (intro conjI exI[of _ "on # ds"])
        show "copies tr' = copies tr" by (rule c)
        show "downloads tr' = downloads tr @ on # ds" by (rule d)
        show "set (on # ds) \<subseteq> {on' \<in> set (on # ons). cmm on'}" using s True by auto
        show "r = None \<longrightarrow> on # ds = filter cmm (on # ons)" using r True by simp
      qed
    qed
  qed
qed

lemma storage_client_run:
  "storage_client w tr = (r, tr') \<Longrightarrow> copies tr' = copies tr \<and> downloads tr' = downloads tr"
  by (auto simp: storage_client_def os_call_def split: option.splits)

lemma fetchBucket_run:
  assumes "fetchBucket w (CacheSource b) cmm tr = ((tmp, r), tr')"
  shows "copies tr' = copies tr \<and>
         (\<exists>ds. downloads tr' = downloads tr @ ds \<and>
               set ds \<subseteq> {on \<in> set (listed_objects w b). cmm on} \<and>
               (r = None \<longrightarrow> ds = filter cmm (listed_objects w b) \<and> tmp = MkdirTemp_path w))"
proof (cases "os_fails w tr (Os_MkdirTemp [] ''melange-cache'')")
  case (Some err)
  with assms show ?thesis by (auto simp: fetchBucket_def)
next
  case None
  let ?t1 = "tr @ [Os_MkdirTemp [] ''melange-cache'']"
  obtain rc t2 where sc: "storage_client w ?t1 = (rc, t2)" by (cases "storage_client w ?t1") auto
  from storage_client_run[OF sc] have t2: "copies t2 = copies tr" "downloads t2 = downloads tr"
    by simp_all
  show ?thesis
  proof (cases rc)
    case (Some err)
    with assms None sc t2 show ?thesis by (auto simp: fetchBucket_def Let_def)
  next
    case no_err: None
    let ?cut = "strings_Cut (strings_TrimPrefix (CacheSource b) ''gs://'') (CHR ''/'')"
    from assms None sc no_err have
      run: "fetch_objects w (MkdirTemp_path w) (fst ?cut) cmm (listed_objects w b)
              (snd (bucket_objects w (fst ?cut) (snd ?cut))) t2 = (r, tr')"
      and tmp: "tmp = MkdirTemp_path w"
      by (auto simp: fetchBucket_def Let_def listed_objects_def split: prod.splits)
    from fetch_objects_run[OF run] t2 tmp show ?thesis by auto
  qed
qed

lemma copy_out_run:
  assumes "copy_out w b tmp tr = (r, tr')"
  shows "downloads tr' = downloads tr \<and>
         (\<exists>cs. copies tr' = copies tr @ cs \<and>
               set cs \<subseteq> copy_target (CacheDir b) ` {e \<in> set (WalkDir_entries w tmp). copyable e} \<and>
               (r = None \<longrightarrow> cs = (if staging_missing w then []
                                   else map (copy_target (CacheDir b)) (filter copyable (WalkDir_entries w tmp)))))"
  using assms unfolding copy_out_def
proof (cases rule: then_os_cases)
  case (stop err)
  then show ?thesis by (auto simp: os_call_def split: option.splits)
next
  case (go tr1)
  from go(1) have t1: "downloads tr1 = downloads tr" "copies tr1 = copies tr"
    by (auto simp: os_call_def split: option.splits)
  show ?thesis
  proof (cases "staging_missing w")
    case True
    with go(2) t1 show ?thesis by auto
  next
    case False
    with go(2) have "WalkDir w tmp (CacheDir b) (WalkDir_entries w tmp) tr1 = (r, tr')" by simp
    from WalkDir_run[OF this] t1 False show ?thesis by auto
  qed
qed

text \<open>
  A cache population from a \<open>gs://\<close> source, whatever it returns: a reader is
  opened only for listed objects whose names are in the membership map, and a file
  is copied into \<open>CacheDir\<close> only for an entry of the walk of the staging directory
  that is a regular file whose base name starts with \<open>sha256:\<close> or \<open>sha512:\<close>,
  under its path and with its permission bits. When the population returns \<open>nil\<close>,
  every such object has been fetched and every such file copied. When the fetch has
  succeeded, the last call of the population is the removal of the staging
  directory. A regular file with another base name is passed over by the callback
  of the walk without a call and without an error.
\<close>

lemma PopulateCache_run:
  assumes "CacheDir b \<noteq> []"
    and "cacheItemsForBuild w (ConfigFile b) = Inr cmm"
    and "strings_HasPrefix (CacheSource b) ''gs://''"
    and "PopulateCache w b [] = (r, tr)"
  shows "set (downloads tr) \<subseteq> {on \<in> set (listed_objects w b). cmm on} \<and>
         set (copies tr) \<subseteq>
           copy_target (CacheDir b) ` {e \<in> set (WalkDir_entries w (MkdirTemp_path w)). copyable e} \<and>
         (r = None \<longrightarrow>
            downloads tr = filter cmm (listed_objects w b) \<and>
            copies tr = (if staging_missing w then []
                         else map (copy_target (CacheDir b))
                                (filter copyable (WalkDir_entries w (MkdirTemp_path w))))) \<and>
         (fetch_error w b cmm = None \<longrightarrow> tr \<noteq> [] \<and> last tr = Os_RemoveAll (MkdirTemp_path w)) \<and>
         (we_err e = None \<and> we_Info e = Inr fi \<and> IsRegular fi \<and>
          \<not> strings_HasPrefix (filepath_Base (fi_Name fi)) ''sha256:'' \<and>
          \<not> strings_HasPrefix (filepath_Base (fi_Name fi)) ''sha512:'' \<longrightarrow>
            walk_callback w tmp (CacheDir b) e t = (None, t))"
proof -
  let ?t1 = "[Os_Log (Debug (''populating cache from '' @ CacheSource b))]"
  have src: "CacheSource b \<noteq> []" using assms(3) by (auto simp: strings_HasPrefix_def)
  obtain tmp' fe t2 where fetch: "fetchBucket w (CacheSource b) cmm ?t1 = ((tmp', fe), t2)"
    by (cases "fetchBucket w (CacheSource b) cmm ?t1") auto
  from fetchBucket_run[OF fetch] obtain ds where
    c2: "copies t2 = []" and d2: "downloads t2 = ds" and
    ds: "set ds \<subseteq> {on \<in> set (listed_objects w b). cmm on}" and
    ok: "fe = None \<longrightarrow> ds = filter cmm (listed_objects w b) \<and> tmp' = MkdirTemp_path w"
    by auto
  have fe: "fetch_error w b cmm = fe" using fetch by (simp add: fetch_error_def)
  have ignored: "we_err e = None \<and> we_Info e = Inr fi \<and> IsRegular fi \<and>
          \<not> strings_HasPrefix (filepath_Base (fi_Name fi)) ''sha256:'' \<and>
          \<not> strings_HasPrefix (filepath_Base (fi_Name fi)) ''sha512:'' \<longrightarrow>
            walk_callback w tmp (CacheDir b) e t = (None, t)"
    by (simp add: walk_callback_def)
  show ?thesis
  proof (cases fe)
    case (Some err)
    with assms src fetch have "tr = t2" "r = Some err"
      by (simp_all add: PopulateCache_def Let_def)
    with c2 d2 ds fe Some ignored show ?thesis by simp
  next
    case None
    with ok have tmp: "tmp' = MkdirTemp_path w" and dsok: "ds = filter cmm (listed_objects w b)"
      by simp_all
    obtain r3 t3 where co: "copy_out w b tmp' t2 = (r3, t3)" by (cases "copy_out w b tmp' t2") auto
    from assms src fetch None co have res: "r = r3" "tr = t3 @ [Os_RemoveAll tmp']"
      by (simp_all add: PopulateCache_def Let_def deferred_RemoveAll_def)
    from copy_out_run[OF co] c2 d2 obtain cs where
      d3: "downloads t3 = ds" and c3: "copies t3 = cs" and
      cs: "set cs \<subseteq> copy_target (CacheDir b) ` {e \<in> set (WalkDir_entries w tmp'). copyable e}" and
      r3: "r3 = None \<longrightarrow> cs = (if staging_missing w then []
              else map (copy_target (CacheDir b)) (filter copyable (WalkDir_entries w tmp')))"
      by auto
    from res d3 c3 have "downloads tr = ds" "copies tr = cs" by simp_all
    with ds cs r3 res tmp dsok ignored show ?thesis by simp
  qed
qed

lemmas cache_defs = PopulateCache_def fetchBucket_def storage_client_def copy_out_def
  deferred_RemoveAll_def walk_callback_def copyFile_def then_os_def os_call_def wrapf_def
  strings_HasPrefix_def strings_TrimPrefix_def strings_Cut_def filepath_Base_def filepath_Dir_def
  strip_slashes_def example_cache_world_def cached_Build_def example_Build_def
  initial_Build_def example_new_world_def

lemma cached_run:
  "PopulateCache example_cache_world cached_Build [] =
     (None, snd (PopulateCache example_cache_world cached_Build []))"
  by (simp add: cache_defs Let_def)

lemma PopulateCache_example:
  "downloads (snd (PopulateCache example_cache_world cached_Build [])) = [''sha256:aaa'', ''README''] \<and>
   copies (snd (PopulateCache example_cache_world cached_Build [])) = [(''/cache/sha256:aaa'', 420)] \<and>
   last (snd (PopulateCache example_cache_world cached_Build [])) = Os_RemoveAll ''/tmp/melange-cache1''"
proof -
  have h: "CacheDir cached_Build \<noteq> []"
    "cacheItemsForBuild example_cache_world (ConfigFile cached_Build) =
       Inr (\<lambda>n. n = ''sha256:aaa'' \<or> n = ''README'')"
    "strings_HasPrefix (CacheSource cached_Build) ''gs://''"
    by (simp_all add: cache_defs)
  have fe: "fetch_error example_cache_world cached_Build (\<lambda>n. n = ''sha256:aaa'' \<or> n = ''README'') = None"
    by (simp add: fetch_error_def cache_defs Let_def)
  have l: "listed_objects example_cache_world cached_Build = [''sha256:aaa'', ''sha256:bbb'', ''README'']"
    by (simp add: listed_objects_def example_cache_world_def)
  have c: "map (copy_target (CacheDir cached_Build))
             (filter copyable (WalkDir_entries example_cache_world (MkdirTemp_path example_cache_world))) =
           [(''/cache/sha256:aaa'', 420)]"
    by (simp add: copy_target_def copyable_def cache_defs)
  have m: "\<not> staging_missing example_cache_world" "MkdirTemp_path example_cache_world = ''/tmp/melange-cache1''"
    by (simp_all add: example_cache_world_def)
  from PopulateCache_run[OF h cached_run] fe l c m show ?thesis by simp
qed

text \<open>
  Claim C6. The claim says that the staging directory is removed when the population
  finishes. \<open>PopulateCache\<close> defers the removal only after \<open>fetchBucket\<close> has
  returned without an error: when a reader cannot be opened, \<open>fetchBucket\<close> returns
  the staging directory with the error, \<open>PopulateCache\<close> returns the error, and the
  directory, with the object staged before, is left behind. The rest of the claim
  holds (\<open>PopulateCache_run\<close>).
\<close>

theorem C6_failed_fetch_leaves_staging:
  "PopulateCache failing_cache_world cached_Build [] =
     (Some (Errorf ''failed to get reader for next remote cache object sha256:bbb''
              (Some (External ''storage: connection reset''))),
      [Os_Log (Debug ''populating cache from gs://bucket/''),
       Os_MkdirTemp [] ''melange-cache'', Os_NewClient True,
       Os_NewReader ''sha256:aaa'', Os_Create ''/tmp/melange-cache1/sha256:aaa'',
       Os_Copy ''/tmp/melange-cache1/sha256:aaa'', Os_CloseReader ''sha256:aaa'',
       Os_Log (Info ''cached gs://bucket/sha256:aaa -> /tmp/melange-cache1/sha256:aaa''),
       Os_NewReader ''sha256:bbb'']) \<and>
   Os_RemoveAll (MkdirTemp_path failing_cache_world)
     \<notin> set (snd (PopulateCache failing_cache_world cached_Build []))"
  by (simp add: cache_defs failing_cache_world_def Let_def)

end
